theory Spec2Isabelle
  imports Complex_Main
begin

section \<open>Filmic RGB tone mapping (src/iop/filmicrgb.c)\<close>

text \<open>
  A shallow embedding of the numerical core of \<^verbatim>\<open>filmicrgb.c\<close>.

  Conventions of the embedding:
  \<^item> \<^verbatim>\<open>float\<close> and \<^verbatim>\<open>double\<close> values are idealised as real numbers: rounding,
    infinities and NaN are not represented, and a theorem that needs a divisor to be
    non-zero says so in a hypothesis;
  \<^item> a pixel buffer is the flat list of its floats, \<^verbatim>\<open>ch\<close> floats per pixel, exactly as
    the C code indexes it; a write \<^verbatim>\<open>buf[k] = v\<close> is the list update \<open>buf[k := v]\<close>;
  \<^item> the fixed-size arrays of the spline structure (\<^verbatim>\<open>M1[4]\<close>, \<^verbatim>\<open>x[5]\<close>, ...) are
    functions from the index to the value;
  \<^item> a loop over pixels is a \<open>fold\<close> over the list of the offsets it visits;
  \<^item> an allocation is a \<open>buffer option\<close>, \<open>None\<close> for the NULL pointer;
  \<^item> the C variables \<^verbatim>\<open>in\<close>, \<^verbatim>\<open>mask\<close>, \<^verbatim>\<open>normalize\<close> and \<^verbatim>\<open>norm\<close> are written
    \<open>inb\<close>, \<open>maskbuf\<close>, \<open>normalize'\<close> and \<open>nrm\<close>, their names being taken in HOL.
\<close>

subsection \<open>Scalar helpers\<close>

type_synonym buffer = "real list"

text \<open>The floor \<^verbatim>\<open>1.52587890625e-05f\<close> of the source is exactly \<open>2\<^sup>-\<^sup>1\<^sup>6\<close>.\<close>

definition norm_floor :: real where
  "norm_floor = 1 / 65536"

text \<open>\<^verbatim>\<open>powf\<close> on a non-negative base; \<^verbatim>\<open>powf(0, 0)\<close> is 1 in C.\<close>

definition powf :: "real \<Rightarrow> real \<Rightarrow> real" where
  "powf x y = (if x = 0 \<and> y = 0 then 1 else x powr y)"

definition exp2f :: "real \<Rightarrow> real" where
  "exp2f x = 2 powr x"

definition log2f :: "real \<Rightarrow> real" where
  "log2f x = log 2 x"

text \<open>The \<^verbatim>\<open>CLAMP\<close> macro (glib): the upper bound is tested first.\<close>

definition CLAMP :: "real \<Rightarrow> real \<Rightarrow> real \<Rightarrow> real" where
  "CLAMP x low high = (if x > high then high else if x < low then low else x)"

definition clamp_simd :: "real \<Rightarrow> real" where
  "clamp_simd x = min (max x 0) 1"

definition log_tonemapping_v1 :: "real \<Rightarrow> real \<Rightarrow> real \<Rightarrow> real \<Rightarrow> real" where
  "log_tonemapping_v1 x grey black dynamic_range =
     (let temp = (log2f (x / grey) - black) / dynamic_range
      in max (min temp 1) norm_floor)"

definition log_tonemapping_v2 :: "real \<Rightarrow> real \<Rightarrow> real \<Rightarrow> real \<Rightarrow> real" where
  "log_tonemapping_v2 x grey black dynamic_range =
     clamp_simd ((log2f (x / grey) - black) / dynamic_range)"

text \<open>
  \<^verbatim>\<open>filmic_spline\<close>: index 0 of each coefficient array is the toe, 1 the shoulder,
  2 the latitude.
\<close>

definition filmic_spline ::
  "real \<Rightarrow> (nat \<Rightarrow> real) \<Rightarrow> (nat \<Rightarrow> real) \<Rightarrow> (nat \<Rightarrow> real) \<Rightarrow> (nat \<Rightarrow> real) \<Rightarrow> (nat \<Rightarrow> real)
     \<Rightarrow> real \<Rightarrow> real \<Rightarrow> real" where
  "filmic_spline x M1 M2 M3 M4 M5 latitude_min latitude_max =
     (if x < latitude_min then M1 0 + x * (M2 0 + x * (M3 0 + x * (M4 0 + x * M5 0)))
      else if x > latitude_max then M1 1 + x * (M2 1 + x * (M3 1 + x * (M4 1 + x * M5 1)))
      else M1 2 + x * (M2 2 + x * (M3 2 + x * (M4 2 + x * M5 2))))"

definition filmic_desaturate_v1 :: "real \<Rightarrow> real \<Rightarrow> real \<Rightarrow> real \<Rightarrow> real" where
  "filmic_desaturate_v1 x sigma_toe sigma_shoulder saturation =
     (let radius_toe = x;
          radius_shoulder = 1 - x;
          key_toe = exp (- 0.5 * radius_toe * radius_toe / sigma_toe);
          key_shoulder = exp (- 0.5 * radius_shoulder * radius_shoulder / sigma_shoulder)
      in 1 - clamp_simd ((key_toe + key_shoulder) / saturation))"

definition filmic_desaturate_v2 :: "real \<Rightarrow> real \<Rightarrow> real \<Rightarrow> real \<Rightarrow> real" where
  "filmic_desaturate_v2 x sigma_toe sigma_shoulder saturation =
     (let radius_toe = x;
          radius_shoulder = 1 - x;
          sat2 = 0.5 / sqrt saturation;
          key_toe = exp (- radius_toe * radius_toe / sigma_toe * sat2);
          key_shoulder = exp (- radius_shoulder * radius_shoulder / sigma_shoulder * sat2)
      in saturation - (key_toe + key_shoulder) * saturation)"

definition linear_saturation :: "real \<Rightarrow> real \<Rightarrow> real \<Rightarrow> real" where
  "linear_saturation x luminance saturation = luminance + saturation * (x - luminance)"

definition fmaxabsf :: "real \<Rightarrow> real \<Rightarrow> real" where
  "fmaxabsf a b = (if \<bar>a\<bar> > \<bar>b\<bar> then a else b)"

definition fminabsf :: "real \<Rightarrow> real \<Rightarrow> real" where
  "fminabsf a b = (if \<bar>a\<bar> < \<bar>b\<bar> then a else b)"

definition sqf :: "real \<Rightarrow> real" where
  "sqf x = x * x"

subsection \<open>Pixel iteration\<close>

text \<open>
  The offsets visited by \<^verbatim>\<open>for(size_t k = 0; k < height * width * ch; k += ch)\<close>. Every
  caller passes \<^verbatim>\<open>ch = 4\<close>; with \<^verbatim>\<open>ch = 0\<close> the bound is 0 and the loop body never runs.
  Buffer sizes are taken to be below \<open>2\<^sup>6\<^sup>4\<close>, so that \<^verbatim>\<open>size_t\<close> products do not wrap.
\<close>

definition pixel_offsets :: "nat \<Rightarrow> nat \<Rightarrow> nat \<Rightarrow> nat list" where
  "pixel_offsets width height ch =
     (if ch = 0 then [] else map (\<lambda>i. i * ch) [0..<height * width])"

subsection \<open>The mask of clipped pixels\<close>

definition mask_argument :: "buffer \<Rightarrow> real \<Rightarrow> real \<Rightarrow> nat \<Rightarrow> real" where
  "mask_argument inb normalize' feathering k =
     (let pix_max = sqrt (sqf (inb ! k) + sqf (inb ! (k + 1)) + sqf (inb ! (k + 2)))
      in - pix_max * normalize' + feathering)"

definition mask_weight :: "buffer \<Rightarrow> real \<Rightarrow> real \<Rightarrow> nat \<Rightarrow> real" where
  "mask_weight inb normalize' feathering k =
     1 / (1 + exp2f (mask_argument inb normalize' feathering k))"

text \<open>
  The loop carries the mask and the counter \<^verbatim>\<open>clipped\<close> (a C \<^verbatim>\<open>int\<close>; it counts
  pixels, and images are far below \<open>2\<^sup>3\<^sup>1\<close> pixels, so it is modelled unbounded). The
  function returns the mask it has written and its \<^verbatim>\<open>gint\<close> result.
\<close>

definition mask_clipped_pixel ::
  "buffer \<Rightarrow> real \<Rightarrow> real \<Rightarrow> nat \<Rightarrow> nat \<Rightarrow> buffer \<times> int \<Rightarrow> buffer \<times> int" where
  "mask_clipped_pixel inb normalize' feathering ch k st =
     ((fst st)[k div ch := mask_weight inb normalize' feathering k],
      snd st + (if 4 > mask_argument inb normalize' feathering k then 1 else 0))"

definition mask_clipped_pixels ::
  "buffer \<Rightarrow> buffer \<Rightarrow> real \<Rightarrow> real \<Rightarrow> nat \<Rightarrow> nat \<Rightarrow> nat \<Rightarrow> buffer \<times> bool" where
  "mask_clipped_pixels inb maskbuf normalize' feathering width height ch =
     (let st = fold (mask_clipped_pixel inb normalize' feathering ch)
                 (pixel_offsets width height ch) (maskbuf, 0)
      in (fst st, snd st > 9))"

subsection \<open>B-spline blur\<close>

definition fsize :: nat where
  "fsize = 5"

definition bspline_filter :: "nat \<Rightarrow> real" where
  "bspline_filter jj = [1 / 16, 4 / 16, 6 / 16, 4 / 16, 1 / 16] ! jj"

text \<open>Subtraction of \<^verbatim>\<open>size_t\<close> values wraps around modulo \<open>2\<^sup>6\<^sup>4\<close>.\<close>

definition size_sub :: "nat \<Rightarrow> nat \<Rightarrow> nat" where
  "size_sub a b = nat ((int a - int b) mod 2 ^ 64)"

text \<open>
  The tap position \<^verbatim>\<open>mult * (jj - (fsize - 1) / 2) + j\<close>. In the bound-checked branch it is
  stored in an \<^verbatim>\<open>int\<close> and clamped to the bounds; in the fast track it lies strictly inside
  the line. Positions are taken to fit an \<^verbatim>\<open>int\<close>, and the lower bound to be the 0 that
  \<^verbatim>\<open>reconstruct_highlights\<close> passes, so that a clamped position is never negative.
\<close>

definition tap_position :: "nat \<Rightarrow> nat \<Rightarrow> nat \<Rightarrow> int" where
  "tap_position mult jj j = int mult * (int jj - int ((fsize - 1) div 2)) + int j"

definition clamp_index :: "int \<Rightarrow> int \<Rightarrow> int \<Rightarrow> int" where
  "clamp_index index bound_low bound_high =
     (if index < bound_low then bound_low else if index > bound_high then bound_high else index)"

definition blur_2D_Bspline_vertical_pixel ::
  "buffer \<Rightarrow> nat \<Rightarrow> nat \<Rightarrow> nat \<Rightarrow> int \<Rightarrow> int \<Rightarrow> nat \<times> nat \<Rightarrow> buffer \<Rightarrow> buffer" where
  "blur_2D_Bspline_vertical_pixel inb width ch mult bound_left bound_right ij out =
     (let i = fst ij; j = snd ij;
          index_out = (i * width + j) * ch;
          check = \<not> (j > 2 * mult \<and> j < size_sub width (2 * mult));
          index_x = (\<lambda>jj. if check then clamp_index (tap_position mult jj j) bound_left bound_right
                           else tap_position mult jj j);
          accumulator = (\<lambda>c. \<Sum>jj \<leftarrow> [0..<fsize].
                           bspline_filter jj * inb ! nat ((int i * int width + index_x jj) * int ch + int c))
      in out[index_out := accumulator 0, index_out + 1 := accumulator 1,
             index_out + 2 := accumulator 2])"

definition blur_2D_Bspline_vertical ::
  "buffer \<Rightarrow> buffer \<Rightarrow> nat \<Rightarrow> nat \<Rightarrow> nat \<Rightarrow> nat \<Rightarrow> int \<Rightarrow> int \<Rightarrow> buffer" where
  "blur_2D_Bspline_vertical inb out width height ch mult bound_left bound_right =
     fold (blur_2D_Bspline_vertical_pixel inb width ch mult bound_left bound_right)
       (List.product [0..<height] [0..<width]) out"

text \<open>
  The horizontal pass stores \<^verbatim>\<open>ch\<close> entries of its four-entry accumulator, whose last
  entry stays at its initial 0.
\<close>

definition blur_2D_Bspline_horizontal_pixel ::
  "buffer \<Rightarrow> nat \<Rightarrow> nat \<Rightarrow> nat \<Rightarrow> nat \<Rightarrow> int \<Rightarrow> int \<Rightarrow> nat \<times> nat \<Rightarrow> buffer \<Rightarrow> buffer" where
  "blur_2D_Bspline_horizontal_pixel inb width height ch mult bound_top bound_bot ij out =
     (let i = fst ij; j = snd ij;
          index_out = (i * width + j) * ch;
          check = \<not> (i > 2 * mult \<and> i < size_sub height (2 * mult));
          index_y = (\<lambda>ii. if check then clamp_index (tap_position mult ii i) bound_top bound_bot
                           else tap_position mult ii i);
          accumulator = (\<lambda>c. if c < 3
                              then \<Sum>ii \<leftarrow> [0..<fsize].
                                     bspline_filter ii * inb ! nat ((index_y ii * int width + int j) * int ch + int c)
                              else 0)
      in fold (\<lambda>c buf. buf[index_out + c := accumulator c]) [0..<ch] out)"

definition blur_2D_Bspline_horizontal ::
  "buffer \<Rightarrow> buffer \<Rightarrow> nat \<Rightarrow> nat \<Rightarrow> nat \<Rightarrow> nat \<Rightarrow> int \<Rightarrow> int \<Rightarrow> buffer" where
  "blur_2D_Bspline_horizontal inb out width height ch mult bound_top bound_bot =
     fold (blur_2D_Bspline_horizontal_pixel inb width height ch mult bound_top bound_bot)
       (List.product [0..<height] [0..<width]) out"

subsection \<open>Wavelet synthesis\<close>

text \<open>
  The body of a loop \<^verbatim>\<open>for(c = 0; c < 3; c++)\<close> over the colour channels of one pixel is
  written as three updates, the value for channel \<open>c\<close> being a function of its own.
  \<open>grey_HF_term\<close> is the local \<^verbatim>\<open>grey_HF\<close>, the same in both reconstruction variants;
  the increment is what \<^verbatim>\<open>reconstructed[k + c] += ...\<close> adds.
\<close>

definition grey_HF_term :: "buffer \<Rightarrow> buffer \<Rightarrow> real \<Rightarrow> real \<Rightarrow> real \<Rightarrow> nat \<Rightarrow> nat \<Rightarrow> real" where
  "grey_HF_term HF texture gamma gamma_comp beta_comp ch k =
     (let grey_texture = gamma * texture ! (k div ch);
          grey_details = gamma_comp * fmaxabsf (fmaxabsf (HF ! k) (HF ! (k + 1))) (HF ! (k + 2))
      in beta_comp * (grey_details + grey_texture))"

definition wavelets_reconstruct_RGB_increment ::
  "buffer \<Rightarrow> buffer \<Rightarrow> buffer \<Rightarrow> buffer \<Rightarrow> nat \<Rightarrow> real \<Rightarrow> real \<Rightarrow> real \<Rightarrow> real \<Rightarrow> real \<Rightarrow> nat
     \<Rightarrow> nat \<Rightarrow> nat \<Rightarrow> real" where
  "wavelets_reconstruct_RGB_increment HF LF texture maskbuf ch gamma gamma_comp beta beta_comp delta
       scales k c =
     (let alpha = maskbuf ! (k div ch);
          grey_HF = grey_HF_term HF texture gamma gamma_comp beta_comp ch k;
          grey_residual = beta_comp * min (min (LF ! k) (LF ! (k + 1))) (LF ! (k + 2));
          color_residual = LF ! (k + c) * beta;
          color_details = HF ! (k + c) * beta * gamma_comp
      in alpha * (delta * (grey_HF + color_details)
                  + (grey_residual + color_residual) / real scales))"

definition wavelets_reconstruct_RGB_pixel ::
  "buffer \<Rightarrow> buffer \<Rightarrow> buffer \<Rightarrow> buffer \<Rightarrow> nat \<Rightarrow> real \<Rightarrow> real \<Rightarrow> real \<Rightarrow> real \<Rightarrow> real \<Rightarrow> nat
     \<Rightarrow> nat \<Rightarrow> buffer \<Rightarrow> buffer" where
  "wavelets_reconstruct_RGB_pixel HF LF texture maskbuf ch gamma gamma_comp beta beta_comp delta scales
       k reconstructed =
     reconstructed
       [k := reconstructed ! k
               + wavelets_reconstruct_RGB_increment HF LF texture maskbuf ch gamma gamma_comp beta
                   beta_comp delta scales k 0,
        k + 1 := reconstructed ! (k + 1)
               + wavelets_reconstruct_RGB_increment HF LF texture maskbuf ch gamma gamma_comp beta
                   beta_comp delta scales k 1,
        k + 2 := reconstructed ! (k + 2)
               + wavelets_reconstruct_RGB_increment HF LF texture maskbuf ch gamma gamma_comp beta
                   beta_comp delta scales k 2]"

definition wavelets_reconstruct_RGB ::
  "buffer \<Rightarrow> buffer \<Rightarrow> buffer \<Rightarrow> buffer \<Rightarrow> buffer \<Rightarrow> nat \<Rightarrow> nat \<Rightarrow> nat
     \<Rightarrow> real \<Rightarrow> real \<Rightarrow> real \<Rightarrow> real \<Rightarrow> real \<Rightarrow> nat \<Rightarrow> nat \<Rightarrow> buffer" where
  "wavelets_reconstruct_RGB HF LF texture maskbuf reconstructed width height ch
       gamma gamma_comp beta beta_comp delta s scales =
     fold (wavelets_reconstruct_RGB_pixel HF LF texture maskbuf ch gamma gamma_comp beta beta_comp
             delta scales)
       (pixel_offsets width height ch) reconstructed"

definition wavelets_reconstruct_ratios_increment ::
  "buffer \<Rightarrow> buffer \<Rightarrow> buffer \<Rightarrow> buffer \<Rightarrow> nat \<Rightarrow> real \<Rightarrow> real \<Rightarrow> real \<Rightarrow> real \<Rightarrow> real \<Rightarrow> nat
     \<Rightarrow> nat \<Rightarrow> nat \<Rightarrow> real" where
  "wavelets_reconstruct_ratios_increment HF LF texture maskbuf ch gamma gamma_comp beta beta_comp delta
       scales k c =
     (let alpha = maskbuf ! (k div ch);
          grey_HF = grey_HF_term HF texture gamma gamma_comp beta_comp ch k;
          grey_residual = beta_comp * max (max (LF ! k) (LF ! (k + 1))) (LF ! (k + 2));
          color_residual = LF ! (k + c) * beta;
          color_details = HF ! (k + c) * beta * gamma_comp
      in alpha * (delta * (grey_HF + color_details)
                  + (grey_residual + color_residual) / real scales))"

definition wavelets_reconstruct_ratios_pixel ::
  "buffer \<Rightarrow> buffer \<Rightarrow> buffer \<Rightarrow> buffer \<Rightarrow> nat \<Rightarrow> real \<Rightarrow> real \<Rightarrow> real \<Rightarrow> real \<Rightarrow> real \<Rightarrow> nat
     \<Rightarrow> nat \<Rightarrow> buffer \<Rightarrow> buffer" where
  "wavelets_reconstruct_ratios_pixel HF LF texture maskbuf ch gamma gamma_comp beta beta_comp delta scales
       k reconstructed =
     reconstructed
       [k := reconstructed ! k
               + wavelets_reconstruct_ratios_increment HF LF texture maskbuf ch gamma gamma_comp beta
                   beta_comp delta scales k 0,
        k + 1 := reconstructed ! (k + 1)
               + wavelets_reconstruct_ratios_increment HF LF texture maskbuf ch gamma gamma_comp beta
                   beta_comp delta scales k 1,
        k + 2 := reconstructed ! (k + 2)
               + wavelets_reconstruct_ratios_increment HF LF texture maskbuf ch gamma gamma_comp beta
                   beta_comp delta scales k 2]"

definition wavelets_reconstruct_ratios ::
  "buffer \<Rightarrow> buffer \<Rightarrow> buffer \<Rightarrow> buffer \<Rightarrow> buffer \<Rightarrow> nat \<Rightarrow> nat \<Rightarrow> nat
     \<Rightarrow> real \<Rightarrow> real \<Rightarrow> real \<Rightarrow> real \<Rightarrow> real \<Rightarrow> nat \<Rightarrow> nat \<Rightarrow> buffer" where
  "wavelets_reconstruct_ratios HF LF texture maskbuf reconstructed width height ch
       gamma gamma_comp beta beta_comp delta s scales =
     fold (wavelets_reconstruct_ratios_pixel HF LF texture maskbuf ch gamma gamma_comp beta beta_comp
             delta scales)
       (pixel_offsets width height ch) reconstructed"

definition init_reconstruct :: "buffer \<Rightarrow> buffer \<Rightarrow> buffer \<Rightarrow> nat \<Rightarrow> nat \<Rightarrow> nat \<Rightarrow> buffer" where
  "init_reconstruct inb maskbuf reconstructed width height ch =
     fold (\<lambda>k buf. buf[k := inb ! k * (1 - maskbuf ! (k div ch))]) [0..<height * width * ch]
       reconstructed"

text \<open>The detail levels write the high frequencies and the texture buffer.\<close>

definition wavelets_detail_level_RGB_pixel ::
  "buffer \<Rightarrow> buffer \<Rightarrow> nat \<Rightarrow> nat \<Rightarrow> buffer \<times> buffer \<Rightarrow> buffer \<times> buffer" where
  "wavelets_detail_level_RGB_pixel detail LF ch k st =
     (let HF = (fst st)[k := detail ! k - LF ! k, k + 1 := detail ! (k + 1) - LF ! (k + 1),
                        k + 2 := detail ! (k + 2) - LF ! (k + 2)]
      in (HF, (snd st)[k div ch := fmaxabsf (fmaxabsf (HF ! k) (HF ! (k + 1))) (HF ! (k + 2))]))"

definition wavelets_detail_level_RGB ::
  "buffer \<Rightarrow> buffer \<Rightarrow> buffer \<Rightarrow> buffer \<Rightarrow> nat \<Rightarrow> nat \<Rightarrow> nat \<Rightarrow> buffer \<times> buffer" where
  "wavelets_detail_level_RGB detail LF HF texture width height ch =
     fold (wavelets_detail_level_RGB_pixel detail LF ch) (pixel_offsets width height ch)
       (HF, texture)"

definition wavelets_detail_level_ratios_pixel ::
  "buffer \<Rightarrow> buffer \<Rightarrow> nat \<Rightarrow> nat \<Rightarrow> buffer \<times> buffer \<Rightarrow> buffer \<times> buffer" where
  "wavelets_detail_level_ratios_pixel detail LF ch k st =
     (let HF = (fst st)[k := detail ! k - LF ! k, k + 1 := detail ! (k + 1) - LF ! (k + 1),
                        k + 2 := detail ! (k + 2) - LF ! (k + 2)]
      in (HF, (snd st)[k div ch := fminabsf (fminabsf (HF ! k) (HF ! (k + 1))) (HF ! (k + 2))]))"

definition wavelets_detail_level_ratios ::
  "buffer \<Rightarrow> buffer \<Rightarrow> buffer \<Rightarrow> buffer \<Rightarrow> nat \<Rightarrow> nat \<Rightarrow> nat \<Rightarrow> buffer \<times> buffer" where
  "wavelets_detail_level_ratios detail LF HF texture width height ch =
     fold (wavelets_detail_level_ratios_pixel detail LF ch) (pixel_offsets width height ch)
       (HF, texture)"

subsection \<open>Parameters, spline and committed data\<close>

datatype dt_iop_filmicrgb_curve_type_t = DT_FILMIC_CURVE_POLY_4 | DT_FILMIC_CURVE_POLY_3

text \<open>
  The fields \<^verbatim>\<open>preserve_color\<close> and \<^verbatim>\<open>version\<close> are declared \<^verbatim>\<open>int\<close> in the
  source and compared with the enumerators below.
\<close>

definition DT_FILMIC_METHOD_NONE :: int where "DT_FILMIC_METHOD_NONE = 0"
definition DT_FILMIC_METHOD_MAX_RGB :: int where "DT_FILMIC_METHOD_MAX_RGB = 1"
definition DT_FILMIC_METHOD_LUMINANCE :: int where "DT_FILMIC_METHOD_LUMINANCE = 2"
definition DT_FILMIC_METHOD_POWER_NORM :: int where "DT_FILMIC_METHOD_POWER_NORM = 3"

definition DT_FILMIC_COLORSCIENCE_V1 :: int where "DT_FILMIC_COLORSCIENCE_V1 = 0"
definition DT_FILMIC_COLORSCIENCE_V2 :: int where "DT_FILMIC_COLORSCIENCE_V2 = 1"

record dt_iop_filmic_rgb_spline_t =
  M1 :: "nat \<Rightarrow> real"
  M2 :: "nat \<Rightarrow> real"
  M3 :: "nat \<Rightarrow> real"
  M4 :: "nat \<Rightarrow> real"
  M5 :: "nat \<Rightarrow> real"
  latitude_min :: real
  latitude_max :: real
  spline_y :: "nat \<Rightarrow> real"
  spline_x :: "nat \<Rightarrow> real"

record dt_iop_filmicrgb_params_t =
  p_grey_point_source :: real
  p_black_point_source :: real
  p_white_point_source :: real
  p_reconstruct_threshold :: real
  p_reconstruct_feather :: real
  p_reconstruct_bloom_vs_details :: real
  p_reconstruct_grey_vs_color :: real
  p_reconstruct_structure_vs_texture :: real
  p_security_factor :: real
  p_grey_point_target :: real
  p_black_point_target :: real
  p_white_point_target :: real
  p_output_power :: real
  p_latitude :: real
  p_contrast :: real
  p_saturation :: real
  p_balance :: real
  p_preserve_color :: int
  p_version :: int
  p_auto_hardness :: int
  p_custom_grey :: int
  p_high_quality_reconstruction :: int
  p_shadows :: dt_iop_filmicrgb_curve_type_t
  p_highlights :: dt_iop_filmicrgb_curve_type_t

record dt_iop_filmicrgb_data_t =
  d_max_grad :: real
  d_white_source :: real
  d_grey_source :: real
  d_black_source :: real
  d_reconstruct_threshold :: real
  d_reconstruct_feather :: real
  d_reconstruct_bloom_vs_details :: real
  d_reconstruct_grey_vs_color :: real
  d_reconstruct_structure_vs_texture :: real
  d_dynamic_range :: real
  d_saturation :: real
  d_output_power :: real
  d_contrast :: real
  d_sigma_toe :: real
  d_sigma_shoulder :: real
  d_preserve_color :: int
  d_version :: int
  d_high_quality_reconstruction :: int
  d_spline :: dt_iop_filmic_rgb_spline_t

subsection \<open>The curve solver\<close>

text \<open>
  \<^verbatim>\<open>gauss_solve(A, b, n)\<close> lives in \<^verbatim>\<open>iop/gaussian_elimination.h\<close>, which is not
  part of the sources at hand. The solver is a parameter of the curve solver: it takes
  the row-major matrix, the right-hand side and the order, and returns the content of
  \<^verbatim>\<open>b\<close> after the call.
\<close>

type_synonym gauss_solver = "real list \<Rightarrow> real list \<Rightarrow> nat \<Rightarrow> real list"

text \<open>The display grey of \<^verbatim>\<open>dt_iop_filmic_rgb_compute_spline\<close>.\<close>

definition spline_grey_display :: "dt_iop_filmicrgb_params_t \<Rightarrow> real" where
  "spline_grey_display p =
     (if p_custom_grey p \<noteq> 0
      then powf (CLAMP (p_grey_point_target p) (p_black_point_target p) (p_white_point_target p) / 100)
                (1 / p_output_power p)
      else powf 0.1845 (1 / p_output_power p))"

text \<open>
  The local constants of \<^verbatim>\<open>dt_iop_filmic_rgb_compute_spline\<close>, each under the name
  it has in the source. \<^verbatim>\<open>toe_log\<close>, \<^verbatim>\<open>shoulder_log\<close>, \<^verbatim>\<open>toe_display\<close> and
  \<^verbatim>\<open>shoulder_display\<close> are assigned twice; the suffix 0 marks their first value,
  before the balance shift.
\<close>

definition spline_dynamic_range :: "dt_iop_filmicrgb_params_t \<Rightarrow> real" where
  "spline_dynamic_range p = p_white_point_source p - p_black_point_source p"

definition spline_grey_log :: "dt_iop_filmicrgb_params_t \<Rightarrow> real" where
  "spline_grey_log p = \<bar>p_black_point_source p\<bar> / spline_dynamic_range p"

definition spline_black_display :: "dt_iop_filmicrgb_params_t \<Rightarrow> real" where
  "spline_black_display p = CLAMP (p_black_point_target p) 0 (p_grey_point_target p) / 100"

definition spline_white_display :: "dt_iop_filmicrgb_params_t \<Rightarrow> real" where
  "spline_white_display p = CLAMP (p_white_point_target p) (p_grey_point_target p) 100 / 100"

definition spline_latitude :: "dt_iop_filmicrgb_params_t \<Rightarrow> real" where
  "spline_latitude p = CLAMP (p_latitude p) 0 100 / 100 * spline_dynamic_range p"

definition spline_balance :: "dt_iop_filmicrgb_params_t \<Rightarrow> real" where
  "spline_balance p = CLAMP (p_balance p) (- 50) 50 / 100"

definition spline_contrast :: "dt_iop_filmicrgb_params_t \<Rightarrow> real" where
  "spline_contrast p = CLAMP (p_contrast p) 0.1 2"

definition spline_toe_log0 :: "dt_iop_filmicrgb_params_t \<Rightarrow> real" where
  "spline_toe_log0 p =
     spline_grey_log p
       - spline_latitude p / spline_dynamic_range p
           * \<bar>p_black_point_source p / spline_dynamic_range p\<bar>"

definition spline_shoulder_log0 :: "dt_iop_filmicrgb_params_t \<Rightarrow> real" where
  "spline_shoulder_log0 p =
     spline_grey_log p
       + spline_latitude p / spline_dynamic_range p
           * \<bar>p_white_point_source p / spline_dynamic_range p\<bar>"

definition spline_linear_intercept :: "dt_iop_filmicrgb_params_t \<Rightarrow> real" where
  "spline_linear_intercept p = spline_grey_display p - (spline_contrast p * spline_grey_log p)"

definition spline_toe_display0 :: "dt_iop_filmicrgb_params_t \<Rightarrow> real" where
  "spline_toe_display0 p = spline_toe_log0 p * spline_contrast p + spline_linear_intercept p"

definition spline_shoulder_display0 :: "dt_iop_filmicrgb_params_t \<Rightarrow> real" where
  "spline_shoulder_display0 p =
     spline_shoulder_log0 p * spline_contrast p + spline_linear_intercept p"

definition spline_norm :: "dt_iop_filmicrgb_params_t \<Rightarrow> real" where
  "spline_norm p = sqrt (spline_contrast p * spline_contrast p + 1)"

definition spline_coeff :: "dt_iop_filmicrgb_params_t \<Rightarrow> real" where
  "spline_coeff p = - ((2 * spline_latitude p) / spline_dynamic_range p) * spline_balance p"

definition spline_toe_display :: "dt_iop_filmicrgb_params_t \<Rightarrow> real" where
  "spline_toe_display p =
     spline_toe_display0 p + spline_coeff p * spline_contrast p / spline_norm p"

definition spline_shoulder_display :: "dt_iop_filmicrgb_params_t \<Rightarrow> real" where
  "spline_shoulder_display p =
     spline_shoulder_display0 p + spline_coeff p * spline_contrast p / spline_norm p"

definition spline_toe_log :: "dt_iop_filmicrgb_params_t \<Rightarrow> real" where
  "spline_toe_log p = spline_toe_log0 p + spline_coeff p / spline_norm p"

definition spline_shoulder_log :: "dt_iop_filmicrgb_params_t \<Rightarrow> real" where
  "spline_shoulder_log p = spline_shoulder_log0 p + spline_coeff p / spline_norm p"

text \<open>
  The first part of the solver stores the five nodes (\<^verbatim>\<open>black_log\<close> is 0 and
  \<^verbatim>\<open>white_log\<close> is 1) and the latitude bounds.
\<close>

definition spline_nodes ::
  "dt_iop_filmicrgb_params_t \<Rightarrow> dt_iop_filmic_rgb_spline_t \<Rightarrow> dt_iop_filmic_rgb_spline_t" where
  "spline_nodes p spline =
     spline\<lparr> spline_x := (spline_x spline)(0 := 0, 1 := spline_toe_log p, 2 := spline_grey_log p,
                                           3 := spline_shoulder_log p, 4 := 1),
              spline_y := (spline_y spline)(0 := spline_black_display p, 1 := spline_toe_display p,
                                           2 := spline_grey_display p,
                                           3 := spline_shoulder_display p,
                                           4 := spline_white_display p),
              latitude_min := spline_toe_log p,
              latitude_max := spline_shoulder_log p \<rparr>"

text \<open>The central part: an affine function.\<close>

definition spline_central ::
  "dt_iop_filmicrgb_params_t \<Rightarrow> dt_iop_filmic_rgb_spline_t \<Rightarrow> dt_iop_filmic_rgb_spline_t" where
  "spline_central p spline =
     (let m2 = (M2 spline)(2 := spline_contrast p);
          m1 = (M1 spline)(2 := spline_y spline 1 - m2 2 * spline_x spline 1)
      in spline\<lparr> M2 := m2, M1 := m1, M3 := (M3 spline)(2 := 0), M4 := (M4 spline)(2 := 0),
                 M5 := (M5 spline)(2 := 0) \<rparr>)"

text \<open>The toe: a polynomial of order 4 or 3 through the black node.\<close>

definition spline_toe ::
  "gauss_solver \<Rightarrow> dt_iop_filmicrgb_params_t \<Rightarrow> dt_iop_filmic_rgb_spline_t
     \<Rightarrow> dt_iop_filmic_rgb_spline_t" where
  "spline_toe gauss_solve p spline =
     (let Tl = spline_x spline 1; Tl2 = Tl * Tl; Tl3 = Tl2 * Tl; Tl4 = Tl3 * Tl
      in if p_shadows p = DT_FILMIC_CURVE_POLY_4
         then
           (let A0 = [0, 0, 0, 0, 1,
                      0, 0, 0, 1, 0,
                      Tl4, Tl3, Tl2, Tl, 1,
                      4 * Tl3, 3 * Tl2, 2 * Tl, 1, 0,
                      12 * Tl2, 6 * Tl, 2, 0, 0];
                b0 = gauss_solve A0 [spline_y spline 0, 0, spline_y spline 1, M2 spline 2, 0] 5
            in spline\<lparr> M5 := (M5 spline)(0 := b0 ! 0), M4 := (M4 spline)(0 := b0 ! 1),
                       M3 := (M3 spline)(0 := b0 ! 2), M2 := (M2 spline)(0 := b0 ! 3),
                       M1 := (M1 spline)(0 := b0 ! 4) \<rparr>)
         else
           (let A0 = [0, 0, 0, 1,
                      Tl3, Tl2, Tl, 1,
                      3 * Tl2, 2 * Tl, 1, 0,
                      6 * Tl, 2, 0, 0];
                b0 = gauss_solve A0 [spline_y spline 0, spline_y spline 1, M2 spline 2, 0] 4
            in spline\<lparr> M5 := (M5 spline)(0 := 0), M4 := (M4 spline)(0 := b0 ! 0),
                       M3 := (M3 spline)(0 := b0 ! 1), M2 := (M2 spline)(0 := b0 ! 2),
                       M1 := (M1 spline)(0 := b0 ! 3) \<rparr>))"

text \<open>The shoulder: a polynomial of order 3 or 4 through the white node.\<close>

definition spline_shoulder ::
  "gauss_solver \<Rightarrow> dt_iop_filmicrgb_params_t \<Rightarrow> dt_iop_filmic_rgb_spline_t
     \<Rightarrow> dt_iop_filmic_rgb_spline_t" where
  "spline_shoulder gauss_solve p spline =
     (let Sl = spline_x spline 3; Sl2 = Sl * Sl; Sl3 = Sl2 * Sl; Sl4 = Sl3 * Sl
      in if p_highlights p = DT_FILMIC_CURVE_POLY_3
         then
           (let A1 = [1, 1, 1, 1,
                      Sl3, Sl2, Sl, 1,
                      3 * Sl2, 2 * Sl, 1, 0,
                      6 * Sl, 2, 0, 0];
                b1 = gauss_solve A1 [spline_y spline 4, spline_y spline 3, M2 spline 2, 0] 4
            in spline\<lparr> M5 := (M5 spline)(1 := 0), M4 := (M4 spline)(1 := b1 ! 0),
                       M3 := (M3 spline)(1 := b1 ! 1), M2 := (M2 spline)(1 := b1 ! 2),
                       M1 := (M1 spline)(1 := b1 ! 3) \<rparr>)
         else
           (let A1 = [1, 1, 1, 1, 1,
                      4, 3, 2, 1, 0,
                      Sl4, Sl3, Sl2, Sl, 1,
                      4 * Sl3, 3 * Sl2, 2 * Sl, 1, 0,
                      12 * Sl2, 6 * Sl, 2, 0, 0];
                b1 = gauss_solve A1 [spline_y spline 4, 0, spline_y spline 3, M2 spline 2, 0] 5
            in spline\<lparr> M5 := (M5 spline)(1 := b1 ! 0), M4 := (M4 spline)(1 := b1 ! 1),
                       M3 := (M3 spline)(1 := b1 ! 2), M2 := (M2 spline)(1 := b1 ! 3),
                       M1 := (M1 spline)(1 := b1 ! 4) \<rparr>))"

definition dt_iop_filmic_rgb_compute_spline ::
  "gauss_solver \<Rightarrow> dt_iop_filmicrgb_params_t \<Rightarrow> dt_iop_filmic_rgb_spline_t
     \<Rightarrow> dt_iop_filmic_rgb_spline_t" where
  "dt_iop_filmic_rgb_compute_spline gauss_solve p spline =
     spline_shoulder gauss_solve p (spline_toe gauss_solve p (spline_central p (spline_nodes p spline)))"

text \<open>Evaluation of a spline structure, as every caller of \<^verbatim>\<open>filmic_spline\<close> does it.\<close>

definition spline_eval :: "dt_iop_filmic_rgb_spline_t \<Rightarrow> real \<Rightarrow> real" where
  "spline_eval spline x =
     filmic_spline x (M1 spline) (M2 spline) (M3 spline) (M4 spline) (M5 spline)
       (latitude_min spline) (latitude_max spline)"

subsection \<open>Committing the parameters\<close>

definition commit_grey_display :: "dt_iop_filmicrgb_params_t \<Rightarrow> real" where
  "commit_grey_display p =
     (if p_custom_grey p \<noteq> 0
      then powf (p_grey_point_target p / 100) (1 / p_output_power p)
      else powf 0.1845 (1 / p_output_power p))"

definition commit_grey_source :: "dt_iop_filmicrgb_params_t \<Rightarrow> real" where
  "commit_grey_source p = (if p_custom_grey p \<noteq> 0 then p_grey_point_source p / 100 else 0.1845)"

definition commit_grey_log :: "dt_iop_filmicrgb_params_t \<Rightarrow> real" where
  "commit_grey_log p =
     \<bar>p_black_point_source p\<bar> / (p_white_point_source p - p_black_point_source p)"

text \<open>
  \<^verbatim>\<open>commit_params\<close> writes the committed data and may clear the flag
  \<^verbatim>\<open>piece->process_cl_ready\<close>; both are passed in and returned. The two calls
  \<^verbatim>\<open>powf(x, 2.0f)\<close> for the sigmas are squares.
\<close>

definition commit_params ::
  "gauss_solver \<Rightarrow> dt_iop_filmicrgb_params_t \<Rightarrow> dt_iop_filmicrgb_data_t \<times> bool
     \<Rightarrow> dt_iop_filmicrgb_data_t \<times> bool" where
  "commit_params gauss_solve p piece =
     (let d = fst piece;
          grey_source = commit_grey_source p;
          grey_display = commit_grey_display p;
          white_source = p_white_point_source p;
          black_source = p_black_point_source p;
          dynamic_range = white_source - black_source;
          grey_log = commit_grey_log p;
          contrast = (if p_contrast p < grey_display / grey_log
                      then 1.0001 * grey_display / grey_log else p_contrast p);
          process_cl_ready = (if p_version p = DT_FILMIC_COLORSCIENCE_V2 then False else snd piece);
          spline = dt_iop_filmic_rgb_compute_spline gauss_solve p (d_spline d)
      in (d\<lparr> d_dynamic_range := dynamic_range,
              d_black_source := black_source,
              d_grey_source := grey_source,
              d_output_power := p_output_power p,
              d_contrast := contrast,
              d_version := p_version p,
              d_preserve_color := p_preserve_color p,
              d_high_quality_reconstruction := p_high_quality_reconstruction p,
              d_spline := spline,
              d_saturation := 2 * p_saturation p / 100 + 1,
              d_sigma_toe := (latitude_min spline / 3)\<^sup>2,
              d_sigma_shoulder := ((1 - latitude_max spline) / 3)\<^sup>2,
              d_reconstruct_threshold := powf 2 (white_source + p_reconstruct_threshold p) * grey_source,
              d_reconstruct_feather := exp2f (12 / p_reconstruct_feather p),
              d_reconstruct_structure_vs_texture :=
                (p_reconstruct_structure_vs_texture p / 100 + 1) / 2,
              d_reconstruct_bloom_vs_details := (p_reconstruct_bloom_vs_details p / 100 + 1) / 2,
              d_reconstruct_grey_vs_color := (p_reconstruct_grey_vs_color p / 100 + 1) / 2 \<rparr>,
          process_cl_ready))"

subsection \<open>Region of interest and pipeline piece\<close>

text \<open>
  The structures \<^verbatim>\<open>dt_iop_roi_t\<close> and \<^verbatim>\<open>dt_dev_pixelpipe_iop_t\<close> are declared outside
  the file; the records hold the fields the file reads. \<open>pipe_type_full\<close> is the test
  \<^verbatim>\<open>piece->pipe->type == DT_DEV_PIXELPIPE_FULL\<close> and \<open>pipe_mask_display\<close> the test
  \<^verbatim>\<open>piece->pipe->mask_display & DT_DEV_PIXELPIPE_DISPLAY_MASK\<close>.
\<close>

record dt_iop_roi_t =
  roi_width :: nat
  roi_height :: nat
  roi_scale :: real

record dt_dev_pixelpipe_iop_t =
  iscale :: real
  buf_in_width :: nat
  buf_in_height :: nat
  colors :: int
  pipe_type_full :: bool
  pipe_mask_display :: bool

definition MAX_NUM_SCALES :: int where
  "MAX_NUM_SCALES = 12"

text \<open>
  \<^verbatim>\<open>get_scales\<close>. Where the argument of \<^verbatim>\<open>log2f\<close> is not positive the conversion of the
  result to \<^verbatim>\<open>int\<close> is not defined by C; the result is clamped to 1..12 in any case.
\<close>

definition get_scales :: "dt_iop_roi_t \<Rightarrow> dt_dev_pixelpipe_iop_t \<Rightarrow> int" where
  "get_scales roi_in piece =
     (let scale = roi_scale roi_in / iscale piece;
          size = nat \<lfloor>max (real (buf_in_height piece) * iscale piece)
                          (real (buf_in_width piece) * iscale piece)\<rfloor>;
          scales = \<lfloor>log2f ((2 * real size * scale / real ((fsize - 1) * fsize)) - 1)\<rfloor>
      in if scales > MAX_NUM_SCALES then MAX_NUM_SCALES else if scales < 1 then 1 else scales)"

subsection \<open>Highlight reconstruction\<close>

text \<open>The five scratch allocations of \<^verbatim>\<open>reconstruct_highlights\<close>, in source order.\<close>

record wavelet_allocations =
  alloc_LF_even :: "buffer option"
  alloc_LF_odd :: "buffer option"
  alloc_HF_RGB :: "buffer option"
  alloc_HF_grey :: "buffer option"
  alloc_temp :: "buffer option"

record wavelet_state =
  LF_even :: buffer
  LF_odd :: buffer
  HF_RGB :: buffer
  HF_grey :: buffer
  temp :: buffer
  reconstructed_acc :: buffer

definition allocation_diagnostic :: string where
  "allocation_diagnostic =
     ''filmic highlights reconstruction failed to allocate memory, check your RAM settings''"

text \<open>One iteration of the loop over the wavelet scales.\<close>

definition reconstruct_scale ::
  "buffer \<Rightarrow> buffer \<Rightarrow> int \<Rightarrow> dt_iop_filmicrgb_data_t \<Rightarrow> nat \<Rightarrow> nat \<Rightarrow> nat \<Rightarrow> nat
     \<Rightarrow> wavelet_state \<Rightarrow> wavelet_state" where
  "reconstruct_scale inb maskbuf variant data width height scales s st =
     (let gamma = d_reconstruct_structure_vs_texture data;
          gamma_comp = 1 - d_reconstruct_structure_vs_texture data;
          beta = d_reconstruct_grey_vs_color data;
          beta_comp = 1 - d_reconstruct_grey_vs_color data;
          delta = d_reconstruct_bloom_vs_details data;
          bound_left = 0;
          bound_right = int width - 1;
          bound_top = 0;
          bound_bot = int height - 1;
          LF_is_even = (s \<noteq> 0 \<and> s mod 2 \<noteq> 0);
          detail = (if s = 0 then inb else if s mod 2 \<noteq> 0 then LF_odd st else LF_even st);
          mult = 2 ^ s;
          temp1 = blur_2D_Bspline_vertical detail (temp st) width height 4 mult
                    bound_left bound_right;
          LF = blur_2D_Bspline_horizontal temp1 (if LF_is_even then LF_even st else LF_odd st)
                 width height 4 mult bound_top bound_bot;
          hf = (if variant = 0
                then wavelets_detail_level_RGB detail LF (HF_RGB st) (HF_grey st) width height 4
                else if variant = 1
                then wavelets_detail_level_ratios detail LF (HF_RGB st) (HF_grey st) width height 4
                else (HF_RGB st, HF_grey st));
          temp2 = blur_2D_Bspline_vertical (fst hf) temp1 width height 4 mult
                    bound_left bound_right;
          HF2 = blur_2D_Bspline_horizontal temp2 (fst hf) width height 4 mult bound_top bound_bot;
          rec = (if variant = 0
                 then wavelets_reconstruct_RGB HF2 LF (snd hf) maskbuf (reconstructed_acc st)
                        width height 4 gamma gamma_comp beta beta_comp delta s scales
                 else if variant = 1
                 then wavelets_reconstruct_ratios HF2 LF (snd hf) maskbuf (reconstructed_acc st)
                        width height 4 gamma gamma_comp beta beta_comp delta s scales
                 else reconstructed_acc st)
      in st\<lparr> LF_even := (if LF_is_even then LF else LF_even st),
              LF_odd := (if LF_is_even then LF_odd st else LF),
              HF_RGB := HF2, HF_grey := snd hf, temp := temp2, reconstructed_acc := rec \<rparr>)"

text \<open>The loop \<^verbatim>\<open>for(int s = 0; s < scales; ++s)\<close> for a given number of scales.\<close>

definition reconstruct_scales ::
  "buffer \<Rightarrow> buffer \<Rightarrow> int \<Rightarrow> dt_iop_filmicrgb_data_t \<Rightarrow> nat \<Rightarrow> nat \<Rightarrow> nat
     \<Rightarrow> wavelet_state \<Rightarrow> wavelet_state" where
  "reconstruct_scales inb maskbuf variant data width height scales st =
     fold (reconstruct_scale inb maskbuf variant data width height scales) [0..<scales] st"

text \<open>The test \<^verbatim>\<open>!LF_even || !LF_odd || !HF_RGB || !HF_grey || !temp\<close>.\<close>

definition scratch_allocation_failed :: "wavelet_allocations \<Rightarrow> bool" where
  "scratch_allocation_failed allocs \<longleftrightarrow>
     alloc_LF_even allocs = None \<or> alloc_LF_odd allocs = None \<or> alloc_HF_RGB allocs = None
     \<or> alloc_HF_grey allocs = None \<or> alloc_temp allocs = None"

text \<open>
  \<^verbatim>\<open>reconstruct_highlights\<close> returns the accumulator, its \<^verbatim>\<open>gint\<close> result and the
  messages it has passed to \<^verbatim>\<open>dt_control_log\<close>.
\<close>

definition reconstruct_highlights ::
  "buffer \<Rightarrow> buffer \<Rightarrow> buffer \<Rightarrow> int \<Rightarrow> dt_iop_filmicrgb_data_t \<Rightarrow> dt_dev_pixelpipe_iop_t
     \<Rightarrow> dt_iop_roi_t \<Rightarrow> dt_iop_roi_t \<Rightarrow> wavelet_allocations \<Rightarrow> buffer \<times> bool \<times> string list" where
  "reconstruct_highlights inb maskbuf reconstructed variant data piece roi_in roi_out allocs =
     (let scales = get_scales roi_in piece
      in if scratch_allocation_failed allocs
         then (reconstructed, False, [allocation_diagnostic])
         else
           (let rec0 = init_reconstruct inb maskbuf reconstructed (roi_width roi_out)
                         (roi_height roi_out) 4;
                st = reconstruct_scales inb maskbuf variant data (roi_width roi_out)
                       (roi_height roi_out) (nat scales)
                       \<lparr> LF_even = the (alloc_LF_even allocs), LF_odd = the (alloc_LF_odd allocs),
                         HF_RGB = the (alloc_HF_RGB allocs), HF_grey = the (alloc_HF_grey allocs),
                         temp = the (alloc_temp allocs), reconstructed_acc = rec0 \<rparr>
            in (reconstructed_acc st, True, [])))"

subsection \<open>Colour norms\<close>

text \<open>
  The luminance functions \<^verbatim>\<open>dt_ioppr_get_rgb_matrix_luminance\<close> and
  \<^verbatim>\<open>dt_camera_rgb_luminance\<close> are defined outside the file. A parameter \<open>lum\<close> of
  type \<open>luminance\<close> stands for the expression
  \<^verbatim>\<open>(work_profile) ? dt_ioppr_get_rgb_matrix_luminance(px, ...) : dt_camera_rgb_luminance(px)\<close>
  as a function of the three colour channels of \<^verbatim>\<open>px\<close>.
\<close>

type_synonym luminance = "real \<Rightarrow> real \<Rightarrow> real \<Rightarrow> real"

definition pixel_rgb_norm_power :: "real \<Rightarrow> real \<Rightarrow> real \<Rightarrow> real" where
  "pixel_rgb_norm_power r g b =
     (let cube = (\<lambda>v. (\<bar>v\<bar> * \<bar>v\<bar>) * \<bar>v\<bar>);
          square = (\<lambda>v. \<bar>v\<bar> * \<bar>v\<bar>);
          numerator = 0 + cube r + cube g + cube b;
          denominator = 0 + square r + square g + square b
      in numerator / max denominator (1 / 10 ^ 12))"

definition get_pixel_norm :: "buffer \<Rightarrow> nat \<Rightarrow> int \<Rightarrow> luminance \<Rightarrow> real" where
  "get_pixel_norm pixel k variant lum =
     (if variant = DT_FILMIC_METHOD_MAX_RGB
      then max (max (pixel ! k) (pixel ! (k + 1))) (pixel ! (k + 2))
      else if variant = DT_FILMIC_METHOD_LUMINANCE
      then lum (pixel ! k) (pixel ! (k + 1)) (pixel ! (k + 2))
      else if variant = DT_FILMIC_METHOD_POWER_NORM
      then pixel_rgb_norm_power (pixel ! k) (pixel ! (k + 1)) (pixel ! (k + 2))
      else lum (pixel ! k) (pixel ! (k + 1)) (pixel ! (k + 2)))"

text \<open>The norm of a pixel, kept at or above \<open>2\<^sup>-\<^sup>1\<^sup>6\<close>.\<close>

definition floored_norm :: "buffer \<Rightarrow> nat \<Rightarrow> int \<Rightarrow> luminance \<Rightarrow> real" where
  "floored_norm pixel k variant lum =
     (let nrm = get_pixel_norm pixel k variant lum
      in if nrm < norm_floor then norm_floor else nrm)"

subsection \<open>Tone mapping kernels\<close>

text \<open>
  Each kernel stores three values per pixel; the value for channel \<open>c\<close> of the pixel at
  offset \<open>k\<close> is a function of its own, and the loop body stores the three of them.
\<close>

definition filmic_split_v1_value ::
  "buffer \<Rightarrow> luminance \<Rightarrow> dt_iop_filmicrgb_data_t \<Rightarrow> dt_iop_filmic_rgb_spline_t \<Rightarrow> nat \<Rightarrow> nat
     \<Rightarrow> real" where
  "filmic_split_v1_value inb lum data spline k c =
     (let tmp = (\<lambda>c. log_tonemapping_v1
                        (if inb ! (k + c) < norm_floor then norm_floor else inb ! (k + c))
                        (d_grey_source data) (d_black_source data) (d_dynamic_range data));
          lm = lum (tmp 0) (tmp 1) (tmp 2);
          desaturation = filmic_desaturate_v1 lm (d_sigma_toe data) (d_sigma_shoulder data)
                           (d_saturation data)
      in powf (clamp_simd (spline_eval spline (linear_saturation (tmp c) lm desaturation)))
           (d_output_power data))"

definition filmic_split_v1_pixel ::
  "buffer \<Rightarrow> luminance \<Rightarrow> dt_iop_filmicrgb_data_t \<Rightarrow> dt_iop_filmic_rgb_spline_t \<Rightarrow> nat
     \<Rightarrow> buffer \<Rightarrow> buffer" where
  "filmic_split_v1_pixel inb lum data spline k out =
     out[k := filmic_split_v1_value inb lum data spline k 0,
         k + 1 := filmic_split_v1_value inb lum data spline k 1,
         k + 2 := filmic_split_v1_value inb lum data spline k 2]"

definition filmic_split_v1 ::
  "buffer \<Rightarrow> buffer \<Rightarrow> luminance \<Rightarrow> dt_iop_filmicrgb_data_t \<Rightarrow> dt_iop_filmic_rgb_spline_t
     \<Rightarrow> nat \<Rightarrow> nat \<Rightarrow> nat \<Rightarrow> buffer" where
  "filmic_split_v1 inb out lum data spline width height ch =
     fold (filmic_split_v1_pixel inb lum data spline) (pixel_offsets width height ch) out"

definition filmic_split_v2_value ::
  "buffer \<Rightarrow> luminance \<Rightarrow> dt_iop_filmicrgb_data_t \<Rightarrow> dt_iop_filmic_rgb_spline_t \<Rightarrow> nat \<Rightarrow> nat
     \<Rightarrow> real" where
  "filmic_split_v2_value inb lum data spline k c =
     (let tmp = (\<lambda>c. log_tonemapping_v2
                        (if inb ! (k + c) < norm_floor then norm_floor else inb ! (k + c))
                        (d_grey_source data) (d_black_source data) (d_dynamic_range data));
          lm = lum (tmp 0) (tmp 1) (tmp 2);
          desaturation = filmic_desaturate_v2 lm (d_sigma_toe data) (d_sigma_shoulder data)
                           (d_saturation data)
      in powf (clamp_simd (spline_eval spline (linear_saturation (tmp c) lm desaturation)))
           (d_output_power data))"

definition filmic_split_v2_pixel ::
  "buffer \<Rightarrow> luminance \<Rightarrow> dt_iop_filmicrgb_data_t \<Rightarrow> dt_iop_filmic_rgb_spline_t \<Rightarrow> nat
     \<Rightarrow> buffer \<Rightarrow> buffer" where
  "filmic_split_v2_pixel inb lum data spline k out =
     out[k := filmic_split_v2_value inb lum data spline k 0,
         k + 1 := filmic_split_v2_value inb lum data spline k 1,
         k + 2 := filmic_split_v2_value inb lum data spline k 2]"

definition filmic_split_v2 ::
  "buffer \<Rightarrow> buffer \<Rightarrow> luminance \<Rightarrow> dt_iop_filmicrgb_data_t \<Rightarrow> dt_iop_filmic_rgb_spline_t
     \<Rightarrow> nat \<Rightarrow> nat \<Rightarrow> nat \<Rightarrow> buffer" where
  "filmic_split_v2 inb out lum data spline width height ch =
     fold (filmic_split_v2_pixel inb lum data spline) (pixel_offsets width height ch) out"

definition filmic_chroma_v1_value ::
  "buffer \<Rightarrow> luminance \<Rightarrow> dt_iop_filmicrgb_data_t \<Rightarrow> dt_iop_filmic_rgb_spline_t \<Rightarrow> int \<Rightarrow> nat
     \<Rightarrow> nat \<Rightarrow> real" where
  "filmic_chroma_v1_value inb lum data spline variant k c =
     (let nrm = floored_norm inb k variant lum;
          ratios0 = (\<lambda>c. inb ! (k + c) / nrm);
          min_ratios = min (min (ratios0 0) (ratios0 1)) (ratios0 2);
          ratios1 = (\<lambda>c. if min_ratios < 0 then ratios0 c - min_ratios else ratios0 c);
          nrm1 = log_tonemapping_v1 nrm (d_grey_source data) (d_black_source data)
                   (d_dynamic_range data);
          desaturation = filmic_desaturate_v1 nrm1 (d_sigma_toe data) (d_sigma_shoulder data)
                           (d_saturation data);
          ratios2 = (\<lambda>c. ratios1 c * nrm1);
          lm = lum (ratios2 0) (ratios2 1) (ratios2 2);
          ratios3 = (\<lambda>c. linear_saturation (ratios2 c) lm desaturation / nrm1);
          nrm2 = powf (clamp_simd (spline_eval spline nrm1)) (d_output_power data)
      in ratios3 c * nrm2)"

definition filmic_chroma_v1_pixel ::
  "buffer \<Rightarrow> luminance \<Rightarrow> dt_iop_filmicrgb_data_t \<Rightarrow> dt_iop_filmic_rgb_spline_t \<Rightarrow> int \<Rightarrow> nat
     \<Rightarrow> buffer \<Rightarrow> buffer" where
  "filmic_chroma_v1_pixel inb lum data spline variant k out =
     out[k := filmic_chroma_v1_value inb lum data spline variant k 0,
         k + 1 := filmic_chroma_v1_value inb lum data spline variant k 1,
         k + 2 := filmic_chroma_v1_value inb lum data spline variant k 2]"

definition filmic_chroma_v1 ::
  "buffer \<Rightarrow> buffer \<Rightarrow> luminance \<Rightarrow> dt_iop_filmicrgb_data_t \<Rightarrow> dt_iop_filmic_rgb_spline_t
     \<Rightarrow> int \<Rightarrow> nat \<Rightarrow> nat \<Rightarrow> nat \<Rightarrow> buffer" where
  "filmic_chroma_v1 inb out lum data spline variant width height ch =
     fold (filmic_chroma_v1_pixel inb lum data spline variant) (pixel_offsets width height ch) out"

text \<open>
  In \<^verbatim>\<open>filmic_chroma_v2\<close> the gamut mapping reads back the three values just stored in
  \<^verbatim>\<open>pix_out\<close>; \<open>filmic_chroma_v2_value\<close> is the value finally stored for channel \<open>c\<close>.
\<close>

definition filmic_chroma_v2_value ::
  "buffer \<Rightarrow> luminance \<Rightarrow> dt_iop_filmicrgb_data_t \<Rightarrow> dt_iop_filmic_rgb_spline_t \<Rightarrow> int \<Rightarrow> nat
     \<Rightarrow> nat \<Rightarrow> real" where
  "filmic_chroma_v2_value inb lum data spline variant k c =
     (let nrm = floored_norm inb k variant lum;
          ratios0 = (\<lambda>c. inb ! (k + c) / nrm);
          min_ratios = min (min (ratios0 0) (ratios0 1)) (ratios0 2);
          sanitize = (min_ratios < 0);
          ratios1 = (\<lambda>c. if sanitize then ratios0 c - min_ratios else ratios0 c);
          nrm1 = log_tonemapping_v2 nrm (d_grey_source data) (d_black_source data)
                   (d_dynamic_range data);
          desaturation = filmic_desaturate_v2 nrm1 (d_sigma_toe data) (d_sigma_shoulder data)
                           (d_saturation data);
          nrm2 = powf (clamp_simd (spline_eval spline nrm1)) (d_output_power data);
          ratios2 = (\<lambda>c. max (ratios1 c + (1 - ratios1 c) * (1 - desaturation)) 0);
          pix_out = (\<lambda>c. ratios2 c * nrm2);
          max_pix = max (max (pix_out 0) (pix_out 1)) (pix_out 2);
          penalize = (max_pix > 1);
          ratios3 = (\<lambda>c. max (ratios2 c + (1 - max_pix)) 0)
      in if penalize then clamp_simd (ratios3 c * nrm2) else pix_out c)"

definition filmic_chroma_v2_pixel ::
  "buffer \<Rightarrow> luminance \<Rightarrow> dt_iop_filmicrgb_data_t \<Rightarrow> dt_iop_filmic_rgb_spline_t \<Rightarrow> int \<Rightarrow> nat
     \<Rightarrow> buffer \<Rightarrow> buffer" where
  "filmic_chroma_v2_pixel inb lum data spline variant k out =
     out[k := filmic_chroma_v2_value inb lum data spline variant k 0,
         k + 1 := filmic_chroma_v2_value inb lum data spline variant k 1,
         k + 2 := filmic_chroma_v2_value inb lum data spline variant k 2]"

definition filmic_chroma_v2 ::
  "buffer \<Rightarrow> buffer \<Rightarrow> luminance \<Rightarrow> dt_iop_filmicrgb_data_t \<Rightarrow> dt_iop_filmic_rgb_spline_t
     \<Rightarrow> int \<Rightarrow> nat \<Rightarrow> nat \<Rightarrow> nat \<Rightarrow> buffer" where
  "filmic_chroma_v2 inb out lum data spline variant width height ch =
     fold (filmic_chroma_v2_pixel inb lum data spline variant) (pixel_offsets width height ch) out"

definition display_mask :: "buffer \<Rightarrow> buffer \<Rightarrow> nat \<Rightarrow> nat \<Rightarrow> nat \<Rightarrow> buffer" where
  "display_mask maskbuf out width height ch =
     fold (\<lambda>k buf. buf[k := maskbuf ! (k div ch)]) [0..<height * width * ch] out"

subsection \<open>Ratios\<close>

text \<open>\<^verbatim>\<open>compute_ratios\<close> writes the buffers \<^verbatim>\<open>norms\<close> and \<^verbatim>\<open>ratios\<close>.\<close>

definition compute_ratios_pixel ::
  "buffer \<Rightarrow> luminance \<Rightarrow> int \<Rightarrow> nat \<Rightarrow> nat \<Rightarrow> buffer \<times> buffer \<Rightarrow> buffer \<times> buffer" where
  "compute_ratios_pixel inb lum variant ch k st =
     (let nrm = floored_norm inb k variant lum
      in ((fst st)[k div ch := nrm],
          (snd st)[k := inb ! k / nrm, k + 1 := inb ! (k + 1) / nrm, k + 2 := inb ! (k + 2) / nrm]))"

definition compute_ratios ::
  "buffer \<Rightarrow> buffer \<Rightarrow> buffer \<Rightarrow> luminance \<Rightarrow> int \<Rightarrow> nat \<Rightarrow> nat \<Rightarrow> nat \<Rightarrow> buffer \<times> buffer" where
  "compute_ratios inb norms ratios lum variant width height ch =
     fold (compute_ratios_pixel inb lum variant ch) (pixel_offsets width height ch) (norms, ratios)"

definition restore_ratios_pixel :: "buffer \<Rightarrow> nat \<Rightarrow> nat \<Rightarrow> buffer \<Rightarrow> buffer" where
  "restore_ratios_pixel norms ch k ratios =
     ratios[k := ratios ! k * norms ! (k div ch),
            k + 1 := ratios ! (k + 1) * norms ! (k div ch),
            k + 2 := ratios ! (k + 2) * norms ! (k div ch)]"

definition restore_ratios :: "buffer \<Rightarrow> buffer \<Rightarrow> nat \<Rightarrow> nat \<Rightarrow> nat \<Rightarrow> buffer" where
  "restore_ratios ratios norms width height ch =
     fold (restore_ratios_pixel norms ch) (pixel_offsets width height ch) ratios"

subsection \<open>The render entry point\<close>

text \<open>
  The pointer \<^verbatim>\<open>in\<close> of \<^verbatim>\<open>process\<close> points either to the input buffer \<^verbatim>\<open>ivoid\<close> or,
  after \<^verbatim>\<open>in = reconstructed\<close>, to the reconstructed buffer.
\<close>

datatype tonemap_input = Ivoid | Reconstructed

datatype process_exit = Not_RGB | Mask_displayed | Tone_mapped

text \<open>
  \<^verbatim>\<open>process\<close> calls \<^verbatim>\<open>mask_clipped_pixels\<close> before it tests the mask pointer: with a
  failed mask allocation and at least one pixel the call writes through NULL.
\<close>

datatype process_fault = Null_mask_write

record process_result =
  pr_out :: buffer
  pr_exit :: process_exit
  pr_in :: tonemap_input
  pr_in_buffer :: buffer
  pr_log :: "string list"

text \<open>The results of the calls of \<^verbatim>\<open>dt_alloc_sse_ps\<close>, in the order of the source.\<close>

record process_allocations =
  alloc_mask :: "buffer option"
  alloc_reconstructed :: "buffer option"
  alloc_pass1 :: wavelet_allocations
  alloc_norms :: "buffer option"
  alloc_ratios :: "buffer option"
  alloc_pass2 :: wavelet_allocations

text \<open>
  What \<^verbatim>\<open>process\<close> reads of the module: \<^verbatim>\<open>self->dev->gui_attached\<close> and the flag
  \<^verbatim>\<open>show_mask\<close> of the GUI data.
\<close>

record dt_iop_module_t =
  gui_attached :: bool
  show_mask :: bool

text \<open>
  Modelled from the spec: \<^verbatim>\<open>dt_iop_alpha_copy\<close> is missing from the sources; the spec
  says of it ``alpha channel copied through unmodified when a separate display-mask
  overlay flag is set by the caller''.
\<close>

definition dt_iop_alpha_copy :: "buffer \<Rightarrow> buffer \<Rightarrow> nat \<Rightarrow> nat \<Rightarrow> buffer" where
  "dt_iop_alpha_copy ivoid ovoid width height =
     fold (\<lambda>k buf. buf[k + 3 := ivoid ! (k + 3)]) (pixel_offsets width height 4) ovoid"

text \<open>The last statement of \<^verbatim>\<open>process\<close>: the alpha copy under the mask display flag.\<close>

definition process_alpha_copy ::
  "dt_dev_pixelpipe_iop_t \<Rightarrow> buffer \<Rightarrow> buffer \<Rightarrow> dt_iop_roi_t \<Rightarrow> buffer" where
  "process_alpha_copy piece ivoid out roi_out =
     (if pipe_mask_display piece
      then dt_iop_alpha_copy ivoid out (roi_width roi_out) (roi_height roi_out)
      else out)"

text \<open>The dispatch to the four tone mapping kernels at the end of \<^verbatim>\<open>process\<close>.\<close>

definition process_tonemap ::
  "buffer \<Rightarrow> buffer \<Rightarrow> luminance \<Rightarrow> dt_iop_filmicrgb_data_t \<Rightarrow> dt_iop_roi_t \<Rightarrow> dt_iop_roi_t
     \<Rightarrow> buffer" where
  "process_tonemap inb out lum data roi_in roi_out =
     (let variant = d_preserve_color data;
          spline = d_spline data
      in if variant = DT_FILMIC_METHOD_NONE
         then (if d_version data = DT_FILMIC_COLORSCIENCE_V1
               then filmic_split_v1 inb out lum data spline (roi_width roi_out) (roi_height roi_in) 4
               else if d_version data = DT_FILMIC_COLORSCIENCE_V2
               then filmic_split_v2 inb out lum data spline (roi_width roi_out) (roi_height roi_in) 4
               else out)
         else (if d_version data = DT_FILMIC_COLORSCIENCE_V1
               then filmic_chroma_v1 inb out lum data spline variant
                      (roi_width roi_out) (roi_height roi_out) 4
               else if d_version data = DT_FILMIC_COLORSCIENCE_V2
               then filmic_chroma_v2 inb out lum data spline variant
                      (roi_width roi_out) (roi_height roi_out) 4
               else out))"

text \<open>
  The block guarded by \<^verbatim>\<open>recover_highlights && mask && reconstructed\<close>: the first pass,
  the optional second pass on ratios, and the choice of the tone mapping input.
\<close>

definition process_reconstruct ::
  "dt_dev_pixelpipe_iop_t \<Rightarrow> dt_iop_filmicrgb_data_t \<Rightarrow> luminance \<Rightarrow> buffer \<Rightarrow> buffer \<Rightarrow> buffer
     \<Rightarrow> dt_iop_roi_t \<Rightarrow> dt_iop_roi_t \<Rightarrow> process_allocations
     \<Rightarrow> tonemap_input \<times> buffer \<times> string list" where
  "process_reconstruct piece data lum ivoid maskbuf reconstructed roi_in roi_out allocs =
     (let variant = d_preserve_color data;
          pass1 = reconstruct_highlights ivoid maskbuf reconstructed 0 data piece roi_in roi_out
                    (alloc_pass1 allocs);
          success_1 = fst (snd pass1);
          pass2 =
            (if d_high_quality_reconstruction data \<noteq> 0 \<and> success_1
             then (case (alloc_norms allocs, alloc_ratios allocs) of
                     (Some norms, Some ratios) \<Rightarrow>
                       (let nr = compute_ratios (fst pass1) norms ratios lum variant
                                   (roi_width roi_out) (roi_height roi_out) 4;
                            second = reconstruct_highlights (snd nr) maskbuf (fst pass1) 1 data piece
                                       roi_in roi_out (alloc_pass2 allocs);
                            success_2 = fst (snd second)
                        in (if success_2
                            then restore_ratios (fst second) (fst nr)
                                   (roi_width roi_out) (roi_height roi_out) 4
                            else fst second,
                            snd (snd pass1) @ snd (snd second)))
                   | _ \<Rightarrow> (fst pass1, snd (snd pass1)))
             else (fst pass1, snd (snd pass1)))
      in if success_1 then (Reconstructed, fst pass2, snd pass2) else (Ivoid, ivoid, snd pass2))"

text \<open>\<^verbatim>\<open>process\<close> from the allocation of \<^verbatim>\<open>reconstructed\<close> to its end.\<close>

definition process_render ::
  "dt_dev_pixelpipe_iop_t \<Rightarrow> dt_iop_filmicrgb_data_t \<Rightarrow> luminance \<Rightarrow> buffer \<Rightarrow> buffer
     \<Rightarrow> dt_iop_roi_t \<Rightarrow> dt_iop_roi_t \<Rightarrow> process_allocations \<Rightarrow> buffer option \<Rightarrow> bool
     \<Rightarrow> process_result" where
  "process_render piece data lum ivoid ovoid roi_in roi_out allocs maskopt recover_highlights =
     (let chosen =
            (case (maskopt, alloc_reconstructed allocs) of
               (Some maskbuf, Some reconstructed) \<Rightarrow>
                 if recover_highlights
                 then process_reconstruct piece data lum ivoid maskbuf reconstructed roi_in roi_out
                        allocs
                 else (Ivoid, ivoid, [])
             | _ \<Rightarrow> (Ivoid, ivoid, []));
          inb = fst (snd chosen);
          out = process_tonemap inb ovoid lum data roi_in roi_out
      in \<lparr> pr_out = process_alpha_copy piece ivoid out roi_out, pr_exit = Tone_mapped, pr_in = fst chosen, pr_in_buffer = inb,
           pr_log = snd (snd chosen) \<rparr>)"

definition process ::
  "dt_iop_module_t \<Rightarrow> dt_dev_pixelpipe_iop_t \<Rightarrow> dt_iop_filmicrgb_data_t \<Rightarrow> luminance
     \<Rightarrow> buffer \<Rightarrow> buffer \<Rightarrow> dt_iop_roi_t \<Rightarrow> dt_iop_roi_t \<Rightarrow> process_allocations
     \<Rightarrow> process_fault + process_result" where
  "process self piece data lum ivoid ovoid roi_in roi_out allocs =
     (if colors piece \<noteq> 4
      then Inr \<lparr> pr_out = ovoid, pr_exit = Not_RGB, pr_in = Ivoid, pr_in_buffer = ivoid,
                 pr_log = [''filmic works only on RGB input''] \<rparr>
      else
        (let normalize' = d_reconstruct_feather data / d_reconstruct_threshold data
         in case alloc_mask allocs of
              None \<Rightarrow>
                if pixel_offsets (roi_width roi_out) (roi_height roi_out) 4 \<noteq> []
                then Inl Null_mask_write
                else Inr (process_render piece data lum ivoid ovoid roi_in roi_out allocs None False)
            | Some mask0 \<Rightarrow>
                (let m = mask_clipped_pixels ivoid mask0 normalize' (d_reconstruct_feather data)
                           (roi_width roi_out) (roi_height roi_out) 4
                 in if gui_attached self \<and> pipe_type_full piece \<and> show_mask self
                    then Inr \<lparr> pr_out = display_mask (fst m) ovoid (roi_width roi_out)
                                           (roi_height roi_out) 4,
                               pr_exit = Mask_displayed, pr_in = Ivoid, pr_in_buffer = ivoid,
                               pr_log = [] \<rparr>
                    else Inr (process_render piece data lum ivoid ovoid roi_in roi_out allocs
                                (Some (fst m)) (snd m)))))"

subsection \<open>A model of the linear solver\<close>

text \<open>
  Modelled from the spec: \<^verbatim>\<open>gauss_solve\<close> itself is missing from the sources; the
  spec says of it that each system is ``solved once via Gaussian elimination''. The
  model eliminates on the augmented rows, taking the first row with a non-zero leading
  entry as the pivot, and substitutes back. What the C function leaves in \<^verbatim>\<open>b\<close> for a
  singular matrix is not specified; the model leaves \<^verbatim>\<open>b\<close> as it was. It is used
  only to run the curve solver on concrete parameters.
\<close>

fun pick_pivot :: "real list list \<Rightarrow> (real list \<times> real list list) option" where
  "pick_pivot [] = None"
| "pick_pivot (r # rs) =
     (if hd r \<noteq> 0 then Some (r, rs)
      else (case pick_pivot rs of None \<Rightarrow> None | Some (q, rest) \<Rightarrow> Some (q, r # rest)))"

fun eliminate :: "nat \<Rightarrow> real list list \<Rightarrow> real list option" where
  "eliminate 0 rows = Some []"
| "eliminate (Suc n) rows =
     (case pick_pivot rows of
        None \<Rightarrow> None
      | Some (r, rest) \<Rightarrow>
          (let r' = map (\<lambda>v. v / hd r) (tl r);
               rest' = map (\<lambda>q. map2 (\<lambda>a b. a - hd q * b) (tl q) r') rest
           in case eliminate n rest' of
                None \<Rightarrow> None
              | Some xs \<Rightarrow> Some ((last r' - sum_list (map2 (*) (butlast r') xs)) # xs)))"

definition augmented_rows :: "real list \<Rightarrow> real list \<Rightarrow> nat \<Rightarrow> real list list" where
  "augmented_rows A b n = map (\<lambda>i. take n (drop (i * n) A) @ [b ! i]) [0..<n]"

definition gauss_solve :: gauss_solver where
  "gauss_solve A b n = (case eliminate n (augmented_rows A b n) of None \<Rightarrow> b | Some x \<Rightarrow> x)"

subsection \<open>Concrete parameter sets\<close>

text \<open>
  A parameter set inside the ranges of the module's sliders, with the balance at 0, and
  the same set with the balance at its lower end -50.
\<close>

definition params_centered :: dt_iop_filmicrgb_params_t where
  "params_centered =
     \<lparr> p_grey_point_source = 18.45, p_black_point_source = - 6, p_white_point_source = 6,
       p_reconstruct_threshold = 0, p_reconstruct_feather = 3,
       p_reconstruct_bloom_vs_details = 100, p_reconstruct_grey_vs_color = 0,
       p_reconstruct_structure_vs_texture = 50, p_security_factor = 0,
       p_grey_point_target = 20, p_black_point_target = 0, p_white_point_target = 100,
       p_output_power = 1, p_latitude = 25, p_contrast = 0.75, p_saturation = 0,
       p_balance = 0, p_preserve_color = DT_FILMIC_METHOD_POWER_NORM,
       p_version = DT_FILMIC_COLORSCIENCE_V2, p_auto_hardness = 1, p_custom_grey = 1,
       p_high_quality_reconstruction = 0,
       p_shadows = DT_FILMIC_CURVE_POLY_4, p_highlights = DT_FILMIC_CURVE_POLY_4 \<rparr>"

definition params_shifted :: dt_iop_filmicrgb_params_t where
  "params_shifted = params_centered\<lparr> p_balance := - 50 \<rparr>"

text \<open>The centered set with the contrast slider at 0.3, below \<open>grey_display / grey_log = 0.4\<close>.\<close>

definition params_low_contrast :: dt_iop_filmicrgb_params_t where
  "params_low_contrast = params_centered\<lparr> p_contrast := 0.3 \<rparr>"

text \<open>The spline of a freshly \<^verbatim>\<open>calloc\<close>ed data block.\<close>

definition zero_spline :: dt_iop_filmic_rgb_spline_t where
  "zero_spline =
     \<lparr> M1 = (\<lambda>_. 0), M2 = (\<lambda>_. 0), M3 = (\<lambda>_. 0), M4 = (\<lambda>_. 0), M5 = (\<lambda>_. 0),
       latitude_min = 0, latitude_max = 0, spline_y = (\<lambda>_. 0), spline_x = (\<lambda>_. 0) \<rparr>"

text \<open>The data block of a freshly initialised pipe (\<^verbatim>\<open>calloc\<close> in \<^verbatim>\<open>init_pipe\<close>).\<close>

definition zero_data :: dt_iop_filmicrgb_data_t where
  "zero_data =
     \<lparr> d_max_grad = 0, d_white_source = 0, d_grey_source = 0, d_black_source = 0,
       d_reconstruct_threshold = 0, d_reconstruct_feather = 0,
       d_reconstruct_bloom_vs_details = 0, d_reconstruct_grey_vs_color = 0,
       d_reconstruct_structure_vs_texture = 0, d_dynamic_range = 0, d_saturation = 0,
       d_output_power = 0, d_contrast = 0, d_sigma_toe = 0, d_sigma_shoulder = 0,
       d_preserve_color = 0, d_version = 0, d_high_quality_reconstruction = 0,
       d_spline = zero_spline \<rparr>"

text \<open>The data committed from the centered parameter set.\<close>

definition data_centered :: dt_iop_filmicrgb_data_t where
  "data_centered = fst (commit_params gauss_solve params_centered (zero_data, True))"

subsection \<open>A concrete render\<close>

text \<open>
  A row of ten pixels (12, 0, 0, 1), all beyond the reconstruction threshold, rendered
  with the high-quality reconstruction switched on, outside the GUI. Every allocation
  succeeds except the last one of the second wavelet pass.
\<close>

definition data_high_quality :: dt_iop_filmicrgb_data_t where
  "data_high_quality =
     fst (commit_params gauss_solve (params_centered\<lparr> p_high_quality_reconstruction := 1 \<rparr>)
            (zero_data, True))"

definition row_of_ten :: buffer where
  "row_of_ten = concat (replicate 10 [12, 0, 0, 1])"

definition roi_row :: dt_iop_roi_t where
  "roi_row = \<lparr> roi_width = 10, roi_height = 1, roi_scale = 1 \<rparr>"

definition piece_row :: dt_dev_pixelpipe_iop_t where
  "piece_row = \<lparr> iscale = 1, buf_in_width = 10, buf_in_height = 1, colors = 4,
                 pipe_type_full = False, pipe_mask_display = False \<rparr>"

definition module_headless :: dt_iop_module_t where
  "module_headless = \<lparr> gui_attached = False, show_mask = False \<rparr>"

definition scratch_ok :: wavelet_allocations where
  "scratch_ok = \<lparr> alloc_LF_even = Some (replicate 40 0), alloc_LF_odd = Some (replicate 40 0),
                  alloc_HF_RGB = Some (replicate 40 0), alloc_HF_grey = Some (replicate 10 0),
                  alloc_temp = Some (replicate 40 0) \<rparr>"

definition allocations_second_pass_fails :: process_allocations where
  "allocations_second_pass_fails =
     \<lparr> alloc_mask = Some (replicate 10 0), alloc_reconstructed = Some (replicate 40 0),
       alloc_pass1 = scratch_ok, alloc_norms = Some (replicate 10 0),
       alloc_ratios = Some (replicate 40 0),
       alloc_pass2 = scratch_ok\<lparr> alloc_temp := None \<rparr> \<rparr>"

definition allocations_first_pass_fails :: process_allocations where
  "allocations_first_pass_fails =
     allocations_second_pass_fails\<lparr> alloc_pass1 := scratch_ok\<lparr> alloc_temp := None \<rparr> \<rparr>"

text \<open>A region of a single pixel.\<close>

definition roi_single :: dt_iop_roi_t where
  "roi_single = \<lparr> roi_width = 1, roi_height = 1, roi_scale = 1 \<rparr>"

subsection \<open>The low-frequency combination as claimed\<close>

text \<open>
  The specification says that the ratio pass (variant 1) ``uses min instead of max for
  cross-channel combination of the residual term''. The two functions below are the
  increments of the two passes written after these words: \<open>min\<close> in the ratio pass,
  \<open>max\<close> in the RGB pass. They are compared with the increments taken from the source.
\<close>

definition claimed_ratios_increment ::
  "buffer \<Rightarrow> buffer \<Rightarrow> buffer \<Rightarrow> buffer \<Rightarrow> nat \<Rightarrow> real \<Rightarrow> real \<Rightarrow> real \<Rightarrow> real \<Rightarrow> real \<Rightarrow> nat
     \<Rightarrow> nat \<Rightarrow> nat \<Rightarrow> real" where
  "claimed_ratios_increment HF LF texture maskbuf ch gamma gamma_comp beta beta_comp delta
       scales k c =
     maskbuf ! (k div ch)
       * (delta * (grey_HF_term HF texture gamma gamma_comp beta_comp ch k
                   + HF ! (k + c) * beta * gamma_comp)
          + (beta_comp * min (min (LF ! k) (LF ! (k + 1))) (LF ! (k + 2)) + LF ! (k + c) * beta)
            / real scales)"

definition claimed_RGB_increment ::
  "buffer \<Rightarrow> buffer \<Rightarrow> buffer \<Rightarrow> buffer \<Rightarrow> nat \<Rightarrow> real \<Rightarrow> real \<Rightarrow> real \<Rightarrow> real \<Rightarrow> real \<Rightarrow> nat
     \<Rightarrow> nat \<Rightarrow> nat \<Rightarrow> real" where
  "claimed_RGB_increment HF LF texture maskbuf ch gamma gamma_comp beta beta_comp delta
       scales k c =
     maskbuf ! (k div ch)
       * (delta * (grey_HF_term HF texture gamma gamma_comp beta_comp ch k
                   + HF ! (k + c) * beta * gamma_comp)
          + (beta_comp * max (max (LF ! k) (LF ! (k + 1))) (LF ! (k + 2)) + LF ! (k + c) * beta)
            / real scales)"


subsection \<open>Theorems\<close>

text \<open>
  C2. For every input, grey point, black point and dynamic range, both log encoders
  compute \<open>(log2 (x / grey) - black) / dynamic_range\<close> and clamp it: version 1 returns
  a value between the floor \<open>2\<^sup>-\<^sup>1\<^sup>6\<close> (1.52587890625e-05) and 1, version 2 a value
  between 0 and 1.
\<close>

theorem log_tonemapping_ranges:
  "log_tonemapping_v1 x grey black dr = max (min ((log 2 (x / grey) - black) / dr) 1) (1 / 65536)
   \<and> 1 / 65536 \<le> log_tonemapping_v1 x grey black dr
   \<and> log_tonemapping_v1 x grey black dr \<le> 1
   \<and> log_tonemapping_v2 x grey black dr = min (max ((log 2 (x / grey) - black) / dr) 0) 1
   \<and> 0 \<le> log_tonemapping_v2 x grey black dr
   \<and> log_tonemapping_v2 x grey black dr \<le> 1"
  by (simp add: log_tonemapping_v1_def log_tonemapping_v2_def clamp_simd_def log2f_def
      norm_floor_def Let_def)

subsection \<open>The committed contrast\<close>

lemma powf_nonneg: "0 \<le> powf x y"
  by (simp add: powf_def)

lemma commit_contrast_eq:
  "d_contrast (fst (commit_params gs p piece)) =
     (if p_contrast p < commit_grey_display p / commit_grey_log p
      then 1.0001 * commit_grey_display p / commit_grey_log p else p_contrast p)"
  by (simp add: commit_params_def Let_def)

lemma commit_grey_display_nonneg: "0 \<le> commit_grey_display p"
  by (simp add: commit_grey_display_def powf_nonneg)

text \<open>
  The field \<^verbatim>\<open>d->contrast\<close>. When the user's contrast is below \<open>grey_display / grey_log\<close>
  the local variable \<^verbatim>\<open>contrast\<close> of \<^verbatim>\<open>commit_params\<close> becomes
  \<open>1.0001 * grey_display / grey_log\<close>, and its only use is the store into
  \<^verbatim>\<open>d->contrast\<close>. Stated for parameter sets whose black point is non-zero and below the
  white point and whose output power is non-zero, as the slider ranges guarantee.
\<close>

lemma commit_contrast_field:
  assumes "p_black_point_source p < p_white_point_source p"
    and "p_black_point_source p \<noteq> 0"
    and "p_output_power p \<noteq> 0"
  shows "commit_grey_display p / commit_grey_log p \<le> d_contrast (fst (commit_params gs p piece))"
proof -
  have gl: "0 < commit_grey_log p"
    using assms by (simp add: commit_grey_log_def)
  have q: "0 \<le> commit_grey_display p / commit_grey_log p"
    using gl commit_grey_display_nonneg [of p] by simp
  have "commit_grey_display p / commit_grey_log p
          \<le> 1.0001 * (commit_grey_display p / commit_grey_log p)"
    using q by simp
  then show ?thesis
    by (simp add: commit_contrast_eq)
qed

text \<open>
  The spline is computed from the parameter set, not from the committed data:
  \<^verbatim>\<open>dt_iop_filmic_rgb_compute_spline(p, &d->spline)\<close>.
\<close>

lemma commit_spline_eq:
  "d_spline (fst (commit_params gs p piece))
     = dt_iop_filmic_rgb_compute_spline gs p (d_spline (fst piece))"
  by (simp add: commit_params_def Let_def)


subsection \<open>Node fidelity of the spline\<close>

lemma mul_div_self_nonneg: "0 \<le> (a::real) \<Longrightarrow> 0 \<le> a * d / d"
  by (cases "d = 0") simp_all

lemma order_abs: "0 \<le> a \<Longrightarrow> g - a * \<bar>u\<bar> + c \<le> g + a * \<bar>v\<bar> + (c::real)"
proof -
  assume a: "0 \<le> a"
  have "0 \<le> a * \<bar>u\<bar>" "0 \<le> a * \<bar>v\<bar>" using a by simp_all
  then show ?thesis by linarith
qed

lemma toe_le_shoulder: "spline_toe_log p \<le> spline_shoulder_log p"
proof -
  have "0 \<le> CLAMP (p_latitude p) 0 100 / 100" by (simp add: CLAMP_def)
  then have "0 \<le> spline_latitude p / spline_dynamic_range p"
    unfolding spline_latitude_def by (rule mul_div_self_nonneg)
  then show ?thesis
    unfolding spline_toe_log_def spline_shoulder_log_def spline_toe_log0_def
      spline_shoulder_log0_def
    by (rule order_abs)
qed

lemma shift_cancel: "(t * c + i) + k * c / n - c * (t + k / n) = (i::real)"
  by (simp add: algebra_simps)

lemma toe_on_line:
  "spline_toe_display p - spline_contrast p * spline_toe_log p = spline_linear_intercept p"
  unfolding spline_toe_display_def spline_toe_display0_def spline_toe_log_def
  by (rule shift_cancel)

lemma shoulder_on_line:
  "spline_shoulder_display p - spline_contrast p * spline_shoulder_log p = spline_linear_intercept p"
  unfolding spline_shoulder_display_def spline_shoulder_display0_def spline_shoulder_log_def
  by (rule shift_cancel)

lemma grey_on_line:
  "spline_grey_display p - spline_contrast p * spline_grey_log p = spline_linear_intercept p"
  by (simp add: spline_linear_intercept_def)

lemma toe_frame:
  "spline_x (spline_toe gs p s) = spline_x s"
  "spline_y (spline_toe gs p s) = spline_y s"
  "latitude_min (spline_toe gs p s) = latitude_min s"
  "latitude_max (spline_toe gs p s) = latitude_max s"
  "M1 (spline_toe gs p s) 2 = M1 s 2"
  "M2 (spline_toe gs p s) 2 = M2 s 2"
  "M3 (spline_toe gs p s) 2 = M3 s 2"
  "M4 (spline_toe gs p s) 2 = M4 s 2"
  "M5 (spline_toe gs p s) 2 = M5 s 2"
  by (simp_all add: spline_toe_def Let_def)

lemma shoulder_frame:
  "spline_x (spline_shoulder gs p s) = spline_x s"
  "spline_y (spline_shoulder gs p s) = spline_y s"
  "latitude_min (spline_shoulder gs p s) = latitude_min s"
  "latitude_max (spline_shoulder gs p s) = latitude_max s"
  "M1 (spline_shoulder gs p s) 2 = M1 s 2"
  "M2 (spline_shoulder gs p s) 2 = M2 s 2"
  "M3 (spline_shoulder gs p s) 2 = M3 s 2"
  "M4 (spline_shoulder gs p s) 2 = M4 s 2"
  "M5 (spline_shoulder gs p s) 2 = M5 s 2"
  by (simp_all add: spline_shoulder_def Let_def)

lemma central_fields:
  "spline_x (spline_central p s) = spline_x s"
  "spline_y (spline_central p s) = spline_y s"
  "latitude_min (spline_central p s) = latitude_min s"
  "latitude_max (spline_central p s) = latitude_max s"
  "M1 (spline_central p s) 2 = spline_y s 1 - spline_contrast p * spline_x s 1"
  "M2 (spline_central p s) 2 = spline_contrast p"
  "M3 (spline_central p s) 2 = 0"
  "M4 (spline_central p s) 2 = 0"
  "M5 (spline_central p s) 2 = 0"
  by (simp_all add: spline_central_def Let_def)

lemma nodes_fields:
  "spline_x (spline_nodes p s) 1 = spline_toe_log p"
  "spline_x (spline_nodes p s) 2 = spline_grey_log p"
  "spline_x (spline_nodes p s) 3 = spline_shoulder_log p"
  "spline_y (spline_nodes p s) 1 = spline_toe_display p"
  "spline_y (spline_nodes p s) 2 = spline_grey_display p"
  "spline_y (spline_nodes p s) 3 = spline_shoulder_display p"
  "latitude_min (spline_nodes p s) = spline_toe_log p"
  "latitude_max (spline_nodes p s) = spline_shoulder_log p"
  by (simp_all add: spline_nodes_def)

lemma compute_spline_fields:
  "spline_x (dt_iop_filmic_rgb_compute_spline gs p s) 1 = spline_toe_log p"
  "spline_x (dt_iop_filmic_rgb_compute_spline gs p s) 2 = spline_grey_log p"
  "spline_x (dt_iop_filmic_rgb_compute_spline gs p s) 3 = spline_shoulder_log p"
  "spline_y (dt_iop_filmic_rgb_compute_spline gs p s) 1 = spline_toe_display p"
  "spline_y (dt_iop_filmic_rgb_compute_spline gs p s) 2 = spline_grey_display p"
  "spline_y (dt_iop_filmic_rgb_compute_spline gs p s) 3 = spline_shoulder_display p"
  "latitude_min (dt_iop_filmic_rgb_compute_spline gs p s) = spline_toe_log p"
  "latitude_max (dt_iop_filmic_rgb_compute_spline gs p s) = spline_shoulder_log p"
  "M1 (dt_iop_filmic_rgb_compute_spline gs p s) 2 = spline_linear_intercept p"
  "M2 (dt_iop_filmic_rgb_compute_spline gs p s) 2 = spline_contrast p"
  "M3 (dt_iop_filmic_rgb_compute_spline gs p s) 2 = 0"
  "M4 (dt_iop_filmic_rgb_compute_spline gs p s) 2 = 0"
  "M5 (dt_iop_filmic_rgb_compute_spline gs p s) 2 = 0"
  unfolding dt_iop_filmic_rgb_compute_spline_def shoulder_frame toe_frame central_fields nodes_fields
  by (simp_all add: toe_on_line)

lemma spline_eval_latitude:
  assumes "spline_toe_log p \<le> x" "x \<le> spline_shoulder_log p"
  shows "spline_eval (dt_iop_filmic_rgb_compute_spline gs p s) x
           = spline_linear_intercept p + x * spline_contrast p"
  using assms by (simp add: spline_eval_def filmic_spline_def compute_spline_fields)

text \<open>
  Node fidelity where the nodes are ordered. For every parameter set whose white point
  lies above its black point, and whatever the linear solver returns: the central segment
  of the computed spline is the affine function whose slope is the contrast clamped to
  [0.1, 2] and which passes through the grey node; evaluating the spline at the toe
  abscissa and at the shoulder abscissa gives exactly the toe and shoulder ordinates; and
  evaluating it at the grey abscissa gives exactly the grey ordinate whenever the grey
  abscissa lies between the two latitude bounds.
\<close>

lemma spline_node_fidelity_ordered:
  assumes "p_black_point_source p < p_white_point_source p"
  shows "M2 (dt_iop_filmic_rgb_compute_spline gs p s0) 2 = CLAMP (p_contrast p) 0.1 2
    \<and> M3 (dt_iop_filmic_rgb_compute_spline gs p s0) 2 = 0
    \<and> M4 (dt_iop_filmic_rgb_compute_spline gs p s0) 2 = 0
    \<and> M5 (dt_iop_filmic_rgb_compute_spline gs p s0) 2 = 0
    \<and> M1 (dt_iop_filmic_rgb_compute_spline gs p s0) 2
        + M2 (dt_iop_filmic_rgb_compute_spline gs p s0) 2 * spline_x (dt_iop_filmic_rgb_compute_spline gs p s0) 2
        = spline_y (dt_iop_filmic_rgb_compute_spline gs p s0) 2
    \<and> spline_eval (dt_iop_filmic_rgb_compute_spline gs p s0) (spline_x (dt_iop_filmic_rgb_compute_spline gs p s0) 1)
        = spline_y (dt_iop_filmic_rgb_compute_spline gs p s0) 1
    \<and> spline_eval (dt_iop_filmic_rgb_compute_spline gs p s0) (spline_x (dt_iop_filmic_rgb_compute_spline gs p s0) 3)
        = spline_y (dt_iop_filmic_rgb_compute_spline gs p s0) 3
    \<and> (latitude_min (dt_iop_filmic_rgb_compute_spline gs p s0) \<le> spline_x (dt_iop_filmic_rgb_compute_spline gs p s0) 2
         \<and> spline_x (dt_iop_filmic_rgb_compute_spline gs p s0) 2 \<le> latitude_max (dt_iop_filmic_rgb_compute_spline gs p s0)
        \<longrightarrow> spline_eval (dt_iop_filmic_rgb_compute_spline gs p s0) (spline_x (dt_iop_filmic_rgb_compute_spline gs p s0) 2)
            = spline_y (dt_iop_filmic_rgb_compute_spline gs p s0) 2)"
proof -
  have toe: "spline_eval (dt_iop_filmic_rgb_compute_spline gs p s0) (spline_toe_log p) = spline_toe_display p"
    using spline_eval_latitude [of p "spline_toe_log p" gs s0] toe_le_shoulder [of p] toe_on_line [of p]
    by (simp add: algebra_simps)
  have sh: "spline_eval (dt_iop_filmic_rgb_compute_spline gs p s0) (spline_shoulder_log p) = spline_shoulder_display p"
    using spline_eval_latitude [of p "spline_shoulder_log p" gs s0] toe_le_shoulder [of p] shoulder_on_line [of p]
    by (simp add: algebra_simps)
  have gr: "spline_toe_log p \<le> spline_grey_log p \<and> spline_grey_log p \<le> spline_shoulder_log p
     \<longrightarrow> spline_eval (dt_iop_filmic_rgb_compute_spline gs p s0) (spline_grey_log p) = spline_grey_display p"
    using spline_eval_latitude [of p "spline_grey_log p" gs s0] grey_on_line [of p]
    by (auto simp: algebra_simps)
  have line: "spline_linear_intercept p + spline_contrast p * spline_grey_log p = spline_grey_display p"
    using grey_on_line [of p] by simp
  show ?thesis
    unfolding compute_spline_fields using toe sh gr line by (simp add: spline_contrast_def)
qed

lemma centered_locals:
  "spline_contrast params_centered = 3 / 4"
  "spline_grey_log params_centered = 1 / 2"
  "spline_grey_display params_centered = 1 / 5"
  "spline_toe_log params_centered = 3 / 8"
  "spline_shoulder_log params_centered = 5 / 8"
  by (simp_all add: params_centered_def spline_contrast_def spline_grey_log_def
      spline_grey_display_def spline_toe_log_def spline_shoulder_log_def
      spline_toe_log0_def spline_shoulder_log0_def spline_coeff_def
      spline_norm_def spline_balance_def spline_latitude_def spline_dynamic_range_def
      CLAMP_def powf_def)

text \<open>The centered parameter set has ordered nodes, and the grey node is reproduced.\<close>

lemma spline_node_fidelity_centered:
  "p_black_point_source params_centered < p_white_point_source params_centered
   \<and> latitude_min (dt_iop_filmic_rgb_compute_spline gauss_solve params_centered zero_spline)
       \<le> spline_x (dt_iop_filmic_rgb_compute_spline gauss_solve params_centered zero_spline) 2
   \<and> spline_x (dt_iop_filmic_rgb_compute_spline gauss_solve params_centered zero_spline) 2
       \<le> latitude_max (dt_iop_filmic_rgb_compute_spline gauss_solve params_centered zero_spline)
   \<and> spline_eval (dt_iop_filmic_rgb_compute_spline gauss_solve params_centered zero_spline)
        (spline_x (dt_iop_filmic_rgb_compute_spline gauss_solve params_centered zero_spline) 2)
       = spline_y (dt_iop_filmic_rgb_compute_spline gauss_solve params_centered zero_spline) 2
   \<and> spline_y (dt_iop_filmic_rgb_compute_spline gauss_solve params_centered zero_spline) 2 = 1 / 5
   \<and> M2 (dt_iop_filmic_rgb_compute_spline gauss_solve params_centered zero_spline) 2 = 3 / 4"
  using spline_node_fidelity_ordered [of params_centered gauss_solve zero_spline]
  by (simp add: compute_spline_fields centered_locals)
    (simp add: params_centered_def)


lemma sqrt_25_16: "sqrt (25 / 16) = 5 / 4"
  by (simp add: real_sqrt_divide)

lemma shifted_locals:
  "spline_contrast params_shifted = 3 / 4"
  "spline_grey_log params_shifted = 1 / 2"
  "spline_grey_display params_shifted = 1 / 5"
  "spline_black_display params_shifted = 0"
  "spline_toe_log params_shifted = 23 / 40"
  "spline_toe_display params_shifted = 41 / 160"
  by (simp_all add: params_shifted_def params_centered_def spline_contrast_def spline_grey_log_def
      spline_grey_display_def spline_black_display_def spline_toe_log_def spline_toe_display_def
      spline_toe_display0_def spline_toe_log0_def spline_linear_intercept_def spline_coeff_def
      spline_norm_def spline_balance_def spline_latitude_def spline_dynamic_range_def
      CLAMP_def powf_def sqrt_25_16)

lemma shifted_toe_system:
  "gauss_solve
     [0, 0, 0, 0, 1,
      0, 0, 0, 1, 0,
      23 / 40 * (23 / 40) * (23 / 40) * (23 / 40), 23 / 40 * (23 / 40) * (23 / 40), 23 / 40 * (23 / 40), 23 / 40, 1,
      4 * (23 / 40 * (23 / 40) * (23 / 40)), 3 * (23 / 40 * (23 / 40)), 2 * (23 / 40), 1, 0,
      12 * (23 / 40 * (23 / 40)), 6 * (23 / 40), 2, 0, 0]
     [0, 0, 41 / 160, 3 / 4, 0] 5
   = [- (240000 / 279841), 6800 / 12167, 390 / 529, 0, 0]"
  by (simp add: gauss_solve_def augmented_rows_def eval_nat_numeral upt_rec)

lemma toe_poly4:
  assumes "p_shadows p = DT_FILMIC_CURVE_POLY_4"
  shows "M5 (spline_toe gs p s) 0 = gs [0, 0, 0, 0, 1,
                      0, 0, 0, 1, 0,
                      spline_x s 1 * spline_x s 1 * spline_x s 1 * spline_x s 1, spline_x s 1 * spline_x s 1 * spline_x s 1, spline_x s 1 * spline_x s 1, spline_x s 1, 1,
                      4 * (spline_x s 1 * spline_x s 1 * spline_x s 1), 3 * (spline_x s 1 * spline_x s 1), 2 * spline_x s 1, 1, 0,
                      12 * (spline_x s 1 * spline_x s 1), 6 * spline_x s 1, 2, 0, 0] [spline_y s 0, 0, spline_y s 1, M2 s 2, 0] 5 ! 0"
  using assms by (simp add: spline_toe_def Let_def)

lemma toe_poly4_rest:
  assumes "p_shadows p = DT_FILMIC_CURVE_POLY_4"
  shows "M4 (spline_toe gs p s) 0 = gs [0, 0, 0, 0, 1,
                      0, 0, 0, 1, 0,
                      spline_x s 1 * spline_x s 1 * spline_x s 1 * spline_x s 1, spline_x s 1 * spline_x s 1 * spline_x s 1, spline_x s 1 * spline_x s 1, spline_x s 1, 1,
                      4 * (spline_x s 1 * spline_x s 1 * spline_x s 1), 3 * (spline_x s 1 * spline_x s 1), 2 * spline_x s 1, 1, 0,
                      12 * (spline_x s 1 * spline_x s 1), 6 * spline_x s 1, 2, 0, 0] [spline_y s 0, 0, spline_y s 1, M2 s 2, 0] 5 ! 1"
   "M3 (spline_toe gs p s) 0 = gs [0, 0, 0, 0, 1,
                      0, 0, 0, 1, 0,
                      spline_x s 1 * spline_x s 1 * spline_x s 1 * spline_x s 1, spline_x s 1 * spline_x s 1 * spline_x s 1, spline_x s 1 * spline_x s 1, spline_x s 1, 1,
                      4 * (spline_x s 1 * spline_x s 1 * spline_x s 1), 3 * (spline_x s 1 * spline_x s 1), 2 * spline_x s 1, 1, 0,
                      12 * (spline_x s 1 * spline_x s 1), 6 * spline_x s 1, 2, 0, 0] [spline_y s 0, 0, spline_y s 1, M2 s 2, 0] 5 ! 2"
   "M2 (spline_toe gs p s) 0 = gs [0, 0, 0, 0, 1,
                      0, 0, 0, 1, 0,
                      spline_x s 1 * spline_x s 1 * spline_x s 1 * spline_x s 1, spline_x s 1 * spline_x s 1 * spline_x s 1, spline_x s 1 * spline_x s 1, spline_x s 1, 1,
                      4 * (spline_x s 1 * spline_x s 1 * spline_x s 1), 3 * (spline_x s 1 * spline_x s 1), 2 * spline_x s 1, 1, 0,
                      12 * (spline_x s 1 * spline_x s 1), 6 * spline_x s 1, 2, 0, 0] [spline_y s 0, 0, spline_y s 1, M2 s 2, 0] 5 ! 3"
   "M1 (spline_toe gs p s) 0 = gs [0, 0, 0, 0, 1,
                      0, 0, 0, 1, 0,
                      spline_x s 1 * spline_x s 1 * spline_x s 1 * spline_x s 1, spline_x s 1 * spline_x s 1 * spline_x s 1, spline_x s 1 * spline_x s 1, spline_x s 1, 1,
                      4 * (spline_x s 1 * spline_x s 1 * spline_x s 1), 3 * (spline_x s 1 * spline_x s 1), 2 * spline_x s 1, 1, 0,
                      12 * (spline_x s 1 * spline_x s 1), 6 * spline_x s 1, 2, 0, 0] [spline_y s 0, 0, spline_y s 1, M2 s 2, 0] 5 ! 4"
  using assms by (simp_all add: spline_toe_def Let_def)

lemma shoulder_frame0:
  "M1 (spline_shoulder gs p s) 0 = M1 s 0"
  "M2 (spline_shoulder gs p s) 0 = M2 s 0"
  "M3 (spline_shoulder gs p s) 0 = M3 s 0"
  "M4 (spline_shoulder gs p s) 0 = M4 s 0"
  "M5 (spline_shoulder gs p s) 0 = M5 s 0"
  by (simp_all add: spline_shoulder_def Let_def)

lemma central_nodes_shifted:
  "spline_x (spline_central params_shifted (spline_nodes params_shifted zero_spline)) 1 = 23 / 40"
  "spline_y (spline_central params_shifted (spline_nodes params_shifted zero_spline)) 0 = 0"
  "spline_y (spline_central params_shifted (spline_nodes params_shifted zero_spline)) 1 = 41 / 160"
  "M2 (spline_central params_shifted (spline_nodes params_shifted zero_spline)) 2 = 3 / 4"
  by (simp_all add: central_fields nodes_fields shifted_locals, simp_all add: spline_nodes_def shifted_locals)

lemma shifted_toe_coefficients:
  "M5 (dt_iop_filmic_rgb_compute_spline gauss_solve params_shifted zero_spline) 0 = - (240000 / 279841)"
  "M4 (dt_iop_filmic_rgb_compute_spline gauss_solve params_shifted zero_spline) 0 = 6800 / 12167"
  "M3 (dt_iop_filmic_rgb_compute_spline gauss_solve params_shifted zero_spline) 0 = 390 / 529"
  "M2 (dt_iop_filmic_rgb_compute_spline gauss_solve params_shifted zero_spline) 0 = 0"
  "M1 (dt_iop_filmic_rgb_compute_spline gauss_solve params_shifted zero_spline) 0 = 0"
proof -
  have sh: "p_shadows params_shifted = DT_FILMIC_CURVE_POLY_4"
    by (simp add: params_shifted_def params_centered_def)
  show "M5 (dt_iop_filmic_rgb_compute_spline gauss_solve params_shifted zero_spline) 0 = - (240000 / 279841)"
    "M4 (dt_iop_filmic_rgb_compute_spline gauss_solve params_shifted zero_spline) 0 = 6800 / 12167"
    "M3 (dt_iop_filmic_rgb_compute_spline gauss_solve params_shifted zero_spline) 0 = 390 / 529"
    "M2 (dt_iop_filmic_rgb_compute_spline gauss_solve params_shifted zero_spline) 0 = 0"
    "M1 (dt_iop_filmic_rgb_compute_spline gauss_solve params_shifted zero_spline) 0 = 0"
    unfolding dt_iop_filmic_rgb_compute_spline_def shoulder_frame0 toe_poly4 [OF sh]
      toe_poly4_rest [OF sh] central_nodes_shifted shifted_toe_system
    by simp_all
qed

lemma shifted_black_node:
  "spline_y (dt_iop_filmic_rgb_compute_spline gauss_solve params_shifted zero_spline) 0 = 0"
  by (simp add: dt_iop_filmic_rgb_compute_spline_def shoulder_frame toe_frame central_fields
      spline_nodes_def shifted_locals)

text \<open>
  C1. Node fidelity at the grey node, evaluated on the parameter set with the balance at
  -50 (black -6 EV, white 6 EV, latitude 25, contrast 0.75, all inside the slider
  ranges). The comment in \<^verbatim>\<open>dt_iop_filmic_rgb_compute_spline\<close> describes the linear part
  as \<^verbatim>\<open>[toe_log ; grey_log ; shoulder_log]\<close> and says that overlapping nodes need to be
  removed ``to avoid degenerating of the curve''; no statement of the function removes or
  reorders them. Here the balance shift moves the toe node to 23/40, right of the grey
  node at 1/2, so \<^verbatim>\<open>filmic_spline\<close> evaluates the toe polynomial at the grey abscissa, and
  the result differs from the grey ordinate 1/5 by more than 1e-5. The toe coefficients
  are a solution of the five constraints of the source: position and slope at 0,
  position, slope and second derivative at the toe node.
\<close>

theorem spline_grey_node_missed:
  "p_black_point_source params_shifted < p_white_point_source params_shifted
   \<and> spline_x (dt_iop_filmic_rgb_compute_spline gauss_solve params_shifted zero_spline) 1 = 23 / 40
   \<and> spline_x (dt_iop_filmic_rgb_compute_spline gauss_solve params_shifted zero_spline) 2 = 1 / 2
   \<and> spline_y (dt_iop_filmic_rgb_compute_spline gauss_solve params_shifted zero_spline) 2 = 1 / 5
   \<and> M1 (dt_iop_filmic_rgb_compute_spline gauss_solve params_shifted zero_spline) 0
       = spline_y (dt_iop_filmic_rgb_compute_spline gauss_solve params_shifted zero_spline) 0
   \<and> M2 (dt_iop_filmic_rgb_compute_spline gauss_solve params_shifted zero_spline) 0 = 0
   \<and> M1 (dt_iop_filmic_rgb_compute_spline gauss_solve params_shifted zero_spline) 0
       + 23 / 40 * (M2 (dt_iop_filmic_rgb_compute_spline gauss_solve params_shifted zero_spline) 0
       + 23 / 40 * (M3 (dt_iop_filmic_rgb_compute_spline gauss_solve params_shifted zero_spline) 0
       + 23 / 40 * (M4 (dt_iop_filmic_rgb_compute_spline gauss_solve params_shifted zero_spline) 0
       + 23 / 40 * M5 (dt_iop_filmic_rgb_compute_spline gauss_solve params_shifted zero_spline) 0)))
       = spline_y (dt_iop_filmic_rgb_compute_spline gauss_solve params_shifted zero_spline) 1
   \<and> M2 (dt_iop_filmic_rgb_compute_spline gauss_solve params_shifted zero_spline) 0
       + 2 * (23 / 40) * M3 (dt_iop_filmic_rgb_compute_spline gauss_solve params_shifted zero_spline) 0
       + 3 * (23 / 40)\<^sup>2 * M4 (dt_iop_filmic_rgb_compute_spline gauss_solve params_shifted zero_spline) 0
       + 4 * (23 / 40) ^ 3 * M5 (dt_iop_filmic_rgb_compute_spline gauss_solve params_shifted zero_spline) 0
       = M2 (dt_iop_filmic_rgb_compute_spline gauss_solve params_shifted zero_spline) 2
   \<and> 2 * M3 (dt_iop_filmic_rgb_compute_spline gauss_solve params_shifted zero_spline) 0
       + 6 * (23 / 40) * M4 (dt_iop_filmic_rgb_compute_spline gauss_solve params_shifted zero_spline) 0
       + 12 * (23 / 40)\<^sup>2 * M5 (dt_iop_filmic_rgb_compute_spline gauss_solve params_shifted zero_spline) 0
       = 0
   \<and> \<not> \<bar>spline_eval (dt_iop_filmic_rgb_compute_spline gauss_solve params_shifted zero_spline)
          (spline_x (dt_iop_filmic_rgb_compute_spline gauss_solve params_shifted zero_spline) 2)
        - spline_y (dt_iop_filmic_rgb_compute_spline gauss_solve params_shifted zero_spline) 2\<bar>
      \<le> 1 / 100000"
  unfolding compute_spline_fields shifted_locals shifted_toe_coefficients shifted_black_node
  by (simp add: spline_eval_def filmic_spline_def compute_spline_fields shifted_locals
      shifted_toe_coefficients power2_eq_square power3_eq_cube)
    (simp add: params_shifted_def params_centered_def)


subsection \<open>The contrast of the committed spline\<close>

lemma low_contrast_locals:
  "spline_contrast params_low_contrast = 3 / 10"
  "spline_grey_log params_low_contrast = 1 / 2"
  "spline_grey_display params_low_contrast = 1 / 5"
  "spline_linear_intercept params_low_contrast = 1 / 20"
  "commit_grey_display params_low_contrast = 1 / 5"
  "commit_grey_log params_low_contrast = 1 / 2"
  "p_contrast params_low_contrast = 3 / 10"
  by (simp_all add: params_low_contrast_def params_centered_def spline_contrast_def spline_grey_log_def
      spline_grey_display_def spline_linear_intercept_def spline_dynamic_range_def
      commit_grey_display_def commit_grey_log_def CLAMP_def powf_def)

text \<open>
  C7. The contrast invariant, evaluated on the centered parameter set with the contrast
  slider at 0.3 (inside its range), whatever the linear solver returns. Here
  \<open>grey_display / grey_log = 0.2 / 0.5 = 0.4\<close>, so the user's contrast is below the bound
  and \<^verbatim>\<open>commit_params\<close> stores \<open>1.0001 * 0.4\<close> in \<^verbatim>\<open>d->contrast\<close>, after the comment
  ``We need grey_display - (contrast * grey_log) <= 0.0''. The committed spline, the only
  thing the tone mapping reads, is computed from the parameter set and keeps the user's
  contrast: its central segment has slope 0.3, below 0.4, and intercept
  \<open>0.2 - 0.3 * 0.5 = 0.05\<close>, which is positive.
\<close>

theorem commit_params_spline_contrast_unclamped:
  "p_contrast params_low_contrast
     < commit_grey_display params_low_contrast / commit_grey_log params_low_contrast
   \<and> commit_grey_display params_low_contrast / commit_grey_log params_low_contrast = 2 / 5
   \<and> d_contrast (fst (commit_params gs params_low_contrast (zero_data, True))) = 0.40004
   \<and> M2 (d_spline (fst (commit_params gs params_low_contrast (zero_data, True)))) 2 = 3 / 10
   \<and> M1 (d_spline (fst (commit_params gs params_low_contrast (zero_data, True)))) 2 = 1 / 20
   \<and> spline_x (d_spline (fst (commit_params gs params_low_contrast (zero_data, True)))) 2 = 1 / 2
   \<and> spline_y (d_spline (fst (commit_params gs params_low_contrast (zero_data, True)))) 2 = 1 / 5
   \<and> M2 (d_spline (fst (commit_params gs params_low_contrast (zero_data, True)))) 2
       < commit_grey_display params_low_contrast / commit_grey_log params_low_contrast
   \<and> 0 < commit_grey_display params_low_contrast
           - M2 (d_spline (fst (commit_params gs params_low_contrast (zero_data, True)))) 2
             * commit_grey_log params_low_contrast"
  unfolding commit_spline_eq compute_spline_fields commit_contrast_eq low_contrast_locals
  by simp


subsection \<open>Iteration over pixels\<close>

lemma fold_nth_frame:
  assumes "\<And>k b. k \<in> set ks \<Longrightarrow> f k b ! j = b ! j"
  shows "fold f ks b ! j = b ! j"
  using assms by (induction ks arbitrary: b) simp_all

lemma fold_length_preserved:
  assumes "\<And>k b. length (f k b) = length b"
  shows "length (fold f ks b) = length b"
  using assms by (induction ks arbitrary: b) simp_all

lemma fold_fixed:
  assumes "\<And>k. k \<in> set ks \<Longrightarrow> f k b = b"
  shows "fold f ks b = b"
  using assms by (induction ks) simp_all

lemma fold_pair:
  "fold (\<lambda>k st. (g k (fst st), h k (snd st))) ks (a, b) = (fold g ks a, fold h ks b)"
  by (induction ks arbitrary: a b) simp_all

lemma fold_nth_region:
  fixes f :: "nat \<Rightarrow> 'a list \<Rightarrow> 'a list" and region :: "nat \<Rightarrow> nat set"
  assumes len: "\<And>k b. length (f k b) = length b"
    and frame: "\<And>k b j. j \<notin> region k \<Longrightarrow> f k b ! j = b ! j"
    and local: "\<And>k b b' j. j \<in> region k \<Longrightarrow> length b = length b'
                  \<Longrightarrow> (\<forall>j'\<in>region k. b ! j' = b' ! j') \<Longrightarrow> f k b ! j = f k b' ! j"
    and disj: "\<And>k k'. k \<in> set ks \<Longrightarrow> k' \<in> set ks \<Longrightarrow> k \<noteq> k' \<Longrightarrow> region k \<inter> region k' = {}"
    and dist: "distinct ks"
    and k: "k \<in> set ks" and j: "j \<in> region k"
  shows "fold f ks b ! j = f k b ! j"
  using disj dist k
proof (induction ks arbitrary: b)
  case Nil
  then show ?case by simp
next
  case (Cons k0 rest)
  show ?case
  proof (cases "k = k0")
    case True
    have "fold f rest (f k0 b) ! j = f k0 b ! j"
    proof (rule fold_nth_frame)
      fix k' b'
      assume k': "k' \<in> set rest"
      then have "k' \<noteq> k0" using Cons.prems(2) by auto
      then have "region k0 \<inter> region k' = {}"
        using Cons.prems(1) [of k0 k'] k' by simp
      then have "j \<notin> region k'" using j True by auto
      then show "f k' b' ! j = b' ! j" by (rule frame)
    qed
    then show ?thesis using True by simp
  next
    case False
    then have kin: "k \<in> set rest" using Cons.prems(3) by simp
    have d: "region k \<inter> region k0 = {}"
      using Cons.prems(1) [of k k0] False kin by simp
    have "fold f rest (f k0 b) ! j = f k (f k0 b) ! j"
    proof (rule Cons.IH)
      show "\<And>k k'. k \<in> set rest \<Longrightarrow> k' \<in> set rest \<Longrightarrow> k \<noteq> k' \<Longrightarrow> region k \<inter> region k' = {}"
        using Cons.prems(1) by simp
      show "distinct rest" using Cons.prems(2) by simp
      show "k \<in> set rest" by (rule kin)
    qed
    also have "f k (f k0 b) ! j = f k b ! j"
    proof (rule local [OF j])
      show "length (f k0 b) = length b" by (rule len)
      show "\<forall>j'\<in>region k. f k0 b ! j' = b ! j'"
      proof
        fix j' assume "j' \<in> region k"
        then have "j' \<notin> region k0" using d by auto
        then show "f k0 b ! j' = b ! j'" by (rule frame)
      qed
    qed
    finally show ?thesis by simp
  qed
qed

text \<open>Offsets of a four-channel buffer.\<close>

lemma pixel_offsets_4: "pixel_offsets width height 4 = map (\<lambda>i. i * 4) [0..<height * width]"
  by (simp add: pixel_offsets_def)

lemma offsets_distinct: "distinct (pixel_offsets width height 4)"
  by (simp add: pixel_offsets_4 distinct_map inj_on_def)

lemma offset_member: "i < width * height \<Longrightarrow> i * 4 \<in> set (pixel_offsets width height 4)"
  by (simp add: pixel_offsets_4 mult.commute)

lemma offset_multiple: "k \<in> set (pixel_offsets width height 4) \<Longrightarrow> k mod 4 = 0"
  by (auto simp: pixel_offsets_4)

lemma rgb_regions_disjoint:
  assumes "k \<in> set (pixel_offsets width height 4)" "k' \<in> set (pixel_offsets width height 4)" "k \<noteq> k'"
  shows "{k, k + 1, k + 2} \<inter> {k', k' + 1, k' + 2} = {}"
proof -
  have "k mod 4 = 0" "k' mod 4 = 0" using assms offset_multiple by blast+
  then show ?thesis using assms(3) by auto presburger+
qed

lemma alpha_not_in_region:
  assumes "k \<in> set (pixel_offsets width height 4)"
  shows "i * 4 + 3 \<notin> {k, k + 1, k + 2}"
proof -
  have "k mod 4 = 0" using assms offset_multiple by blast
  then show ?thesis by auto presburger+
qed

lemma upd_nth_cong:
  "length b = length b' \<Longrightarrow> b ! j = b' ! j \<Longrightarrow> b[i := v] ! j = b'[i := v] ! j"
  by (cases "i = j"; cases "j < length b") (simp_all add: list_update_beyond)

lemma upd3_nth_cong:
  "length b = length b' \<Longrightarrow> b ! j = b' ! j
     \<Longrightarrow> b[i1 := v1, i2 := v2, i3 := v3] ! j = b'[i1 := v1, i2 := v2, i3 := v3] ! j"
  by (intro upd_nth_cong) simp_all

text \<open>A loop whose body rewrites the three colour channels of its pixel.\<close>

lemma rgb_loop_alpha:
  "fold (\<lambda>k b. b[k := g0 k b, k + 1 := g1 k b, k + 2 := g2 k b])
     (pixel_offsets width height 4) b ! (i * 4 + 3) = b ! (i * 4 + 3)"
proof (rule fold_nth_frame)
  fix k b'
  assume "k \<in> set (pixel_offsets width height 4)"
  then have "i * 4 + 3 \<notin> {k, k + 1, k + 2}" by (rule alpha_not_in_region)
  then show "b'[k := g0 k b', k + 1 := g1 k b', k + 2 := g2 k b'] ! (i * 4 + 3) = b' ! (i * 4 + 3)"
    by simp
qed

lemma rgb_loop_length:
  "length (fold (\<lambda>k b. b[k := g0 k b, k + 1 := g1 k b, k + 2 := g2 k b]) ks b) = length b"
  by (rule fold_length_preserved) simp

lemma rgb_loop_nth:
  fixes g :: "nat \<Rightarrow> nat \<Rightarrow> real \<Rightarrow> real"
  assumes i: "i < width * height" and c: "c < 3" and len: "i * 4 + 2 < length b"
  shows "fold (\<lambda>k b. b[k := g k 0 (b ! k), k + 1 := g k 1 (b ! (k + 1)), k + 2 := g k 2 (b ! (k + 2))])
           (pixel_offsets width height 4) b ! (i * 4 + c)
         = g (i * 4) c (b ! (i * 4 + c))"
proof -
  let ?f = "\<lambda>k b. b[k := g k 0 (b ! k), k + 1 := g k 1 (b ! (k + 1)), k + 2 := g k 2 (b ! (k + 2))]"
  have "fold ?f (pixel_offsets width height 4) b ! (i * 4 + c) = ?f (i * 4) b ! (i * 4 + c)"
  proof (rule fold_nth_region [where region = "\<lambda>k. {k, k + 1, k + 2}"])
    show "\<And>k b. length (?f k b) = length b" by simp
    show "\<And>k b j. j \<notin> {k, k + 1, k + 2} \<Longrightarrow> ?f k b ! j = b ! j" by simp
    show "?f k b ! j = ?f k b' ! j"
      if "j \<in> {k, k + 1, k + 2}" "length b = length b'" "\<forall>j'\<in>{k, k + 1, k + 2}. b ! j' = b' ! j'"
      for k b b' j
    proof -
      have e: "b ! k = b' ! k" "b ! (k + 1) = b' ! (k + 1)" "b ! (k + 2) = b' ! (k + 2)"
        and j: "b ! j = b' ! j"
        using that by auto
      show ?thesis unfolding e using that(2) j by (rule upd3_nth_cong)
    qed
    show "\<And>k k'. k \<in> set (pixel_offsets width height 4) \<Longrightarrow> k' \<in> set (pixel_offsets width height 4)
            \<Longrightarrow> k \<noteq> k' \<Longrightarrow> {k, k + 1, k + 2} \<inter> {k', k' + 1, k' + 2} = {}"
      by (rule rgb_regions_disjoint)
    show "distinct (pixel_offsets width height 4)" by (rule offsets_distinct)
    show "i * 4 \<in> set (pixel_offsets width height 4)" using i by (rule offset_member)
    show "i * 4 + c \<in> {i * 4, i * 4 + 1, i * 4 + 2}" using c by auto
  qed
  also have "?f (i * 4) b ! (i * 4 + c) = g (i * 4) c (b ! (i * 4 + c))"
  proof -
    consider "c = 0" | "c = 1" | "c = 2" using c by linarith
    then show ?thesis using len by cases simp_all
  qed
  finally show ?thesis .
qed

text \<open>A loop whose body writes one entry per pixel, as for the mask and the norms.\<close>

lemma scalar_loop_nth:
  assumes i: "i < width * height" and len: "i < length m"
  shows "fold (\<lambda>k m. m[k div 4 := w k]) (pixel_offsets width height 4) m ! i = w (i * 4)"
proof -
  let ?f = "\<lambda>k (m::'a list). m[k div 4 := w k]"
  have "fold ?f (pixel_offsets width height 4) m ! i = ?f (i * 4) m ! i"
  proof (rule fold_nth_region [where region = "\<lambda>k. {k div 4}"])
    show "\<And>k b. length (?f k b) = length b" by simp
    show "\<And>k b j. j \<notin> {k div 4} \<Longrightarrow> ?f k b ! j = b ! j" by simp
    show "\<And>k b b' j. j \<in> {k div 4} \<Longrightarrow> length b = length b'
            \<Longrightarrow> (\<forall>j'\<in>{k div 4}. b ! j' = b' ! j') \<Longrightarrow> ?f k b ! j = ?f k b' ! j"
      by (auto intro: upd_nth_cong)
    show "\<And>k k'. k \<in> set (pixel_offsets width height 4) \<Longrightarrow> k' \<in> set (pixel_offsets width height 4)
            \<Longrightarrow> k \<noteq> k' \<Longrightarrow> {k div 4} \<inter> {k' div 4} = {}"
      by (auto simp: pixel_offsets_4)
    show "distinct (pixel_offsets width height 4)" by (rule offsets_distinct)
    show "i * 4 \<in> set (pixel_offsets width height 4)" using i by (rule offset_member)
    show "i \<in> {i * 4 div 4}" by simp
  qed
  then show ?thesis using len by simp
qed

lemma scalar_loop_length:
  "length (fold (\<lambda>k m. m[k div 4 := w k]) ks m) = length m"
  by (rule fold_length_preserved) simp

text \<open>A loop over every entry of a buffer.\<close>

lemma index_loop_length: "length (fold (\<lambda>k b. b[k := g k]) ks b) = length b"
  by (rule fold_length_preserved) simp

lemma index_loop_nth:
  assumes "j < length b"
  shows "fold (\<lambda>k b. b[k := g k]) [0..<n] b ! j = (if j < n then g j else b ! j)"
  using assms by (induction n) (auto simp: nth_list_update index_loop_length less_Suc_eq)

subsection \<open>The tone mapping kernels\<close>

lemma split_v1_body:
  "filmic_split_v1_pixel inb lum data spline =
     (\<lambda>k b. b[k := filmic_split_v1_value inb lum data spline k 0,
              k + 1 := filmic_split_v1_value inb lum data spline k 1,
              k + 2 := filmic_split_v1_value inb lum data spline k 2])"
  by (intro ext) (simp add: filmic_split_v1_pixel_def)

lemma split_v2_body:
  "filmic_split_v2_pixel inb lum data spline =
     (\<lambda>k b. b[k := filmic_split_v2_value inb lum data spline k 0,
              k + 1 := filmic_split_v2_value inb lum data spline k 1,
              k + 2 := filmic_split_v2_value inb lum data spline k 2])"
  by (intro ext) (simp add: filmic_split_v2_pixel_def)

lemma chroma_v1_body:
  "filmic_chroma_v1_pixel inb lum data spline variant =
     (\<lambda>k b. b[k := filmic_chroma_v1_value inb lum data spline variant k 0,
              k + 1 := filmic_chroma_v1_value inb lum data spline variant k 1,
              k + 2 := filmic_chroma_v1_value inb lum data spline variant k 2])"
  by (intro ext) (simp add: filmic_chroma_v1_pixel_def)

lemma chroma_v2_body:
  "filmic_chroma_v2_pixel inb lum data spline variant =
     (\<lambda>k b. b[k := filmic_chroma_v2_value inb lum data spline variant k 0,
              k + 1 := filmic_chroma_v2_value inb lum data spline variant k 1,
              k + 2 := filmic_chroma_v2_value inb lum data spline variant k 2])"
  by (intro ext) (simp add: filmic_chroma_v2_pixel_def)

lemma kernels_alpha:
  "filmic_split_v1 inb out lum data spline width height 4 ! (i * 4 + 3) = out ! (i * 4 + 3)"
  "filmic_split_v2 inb out lum data spline width height 4 ! (i * 4 + 3) = out ! (i * 4 + 3)"
  "filmic_chroma_v1 inb out lum data spline variant width height 4 ! (i * 4 + 3) = out ! (i * 4 + 3)"
  "filmic_chroma_v2 inb out lum data spline variant width height 4 ! (i * 4 + 3) = out ! (i * 4 + 3)"
  unfolding filmic_split_v1_def filmic_split_v2_def filmic_chroma_v1_def filmic_chroma_v2_def
    split_v1_body split_v2_body chroma_v1_body chroma_v2_body
  by (rule rgb_loop_alpha)+

lemma kernels_length:
  "length (filmic_split_v1 inb out lum data spline width height ch) = length out"
  "length (filmic_split_v2 inb out lum data spline width height ch) = length out"
  "length (filmic_chroma_v1 inb out lum data spline variant width height ch) = length out"
  "length (filmic_chroma_v2 inb out lum data spline variant width height ch) = length out"
  unfolding filmic_split_v1_def filmic_split_v2_def filmic_chroma_v1_def filmic_chroma_v2_def
    split_v1_body split_v2_body chroma_v1_body chroma_v2_body
  by (rule rgb_loop_length)+

lemma kernels_nth:
  assumes "i < width * height" "c < 3" "i * 4 + 2 < length out"
  shows "filmic_split_v1 inb out lum data spline width height 4 ! (i * 4 + c)
           = filmic_split_v1_value inb lum data spline (i * 4) c"
    and "filmic_split_v2 inb out lum data spline width height 4 ! (i * 4 + c)
           = filmic_split_v2_value inb lum data spline (i * 4) c"
    and "filmic_chroma_v1 inb out lum data spline variant width height 4 ! (i * 4 + c)
           = filmic_chroma_v1_value inb lum data spline variant (i * 4) c"
    and "filmic_chroma_v2 inb out lum data spline variant width height 4 ! (i * 4 + c)
           = filmic_chroma_v2_value inb lum data spline variant (i * 4) c"
  unfolding filmic_split_v1_def filmic_split_v2_def filmic_chroma_v1_def filmic_chroma_v2_def
    split_v1_body split_v2_body chroma_v1_body chroma_v2_body
  using rgb_loop_nth [OF assms, where g = "\<lambda>k c _. filmic_split_v1_value inb lum data spline k c"]
    rgb_loop_nth [OF assms, where g = "\<lambda>k c _. filmic_split_v2_value inb lum data spline k c"]
    rgb_loop_nth [OF assms, where g = "\<lambda>k c _. filmic_chroma_v1_value inb lum data spline variant k c"]
    rgb_loop_nth [OF assms, where g = "\<lambda>k c _. filmic_chroma_v2_value inb lum data spline variant k c"]
  by simp_all

lemma clamp_simd_range: "0 \<le> clamp_simd x" "clamp_simd x \<le> 1"
  by (simp_all add: clamp_simd_def)

lemma powf_unit:
  assumes "0 \<le> x" "x \<le> 1" "0 \<le> y"
  shows "0 \<le> powf x y" "powf x y \<le> 1"
proof -
  show "0 \<le> powf x y" by (simp add: powf_def)
  show "powf x y \<le> 1"
  proof (cases "x = 0")
    case True
    then show ?thesis by (simp add: powf_def)
  next
    case False
    have "x powr y \<le> 1" using assms by (intro powr_le1) simp_all
    then show ?thesis using False by (simp add: powf_def)
  qed
qed

lemma split_values_unit:
  assumes "0 \<le> d_output_power data"
  shows "0 \<le> filmic_split_v1_value inb lum data spline k c"
    "filmic_split_v1_value inb lum data spline k c \<le> 1"
    "0 \<le> filmic_split_v2_value inb lum data spline k c"
    "filmic_split_v2_value inb lum data spline k c \<le> 1"
  using assms
  by (simp_all add: filmic_split_v1_value_def filmic_split_v2_value_def Let_def powf_unit clamp_simd_range)

lemma chroma_v2_value_unit:
  assumes c: "c < 3"
  shows "0 \<le> filmic_chroma_v2_value inb lum data spline variant k c"
    "filmic_chroma_v2_value inb lum data spline variant k c \<le> 1"
proof -
  define nrm where "nrm = floored_norm inb k variant lum"
  define ratios0 where "ratios0 = (\<lambda>c. inb ! (k + c) / nrm)"
  define min_ratios where "min_ratios = min (min (ratios0 0) (ratios0 1)) (ratios0 2)"
  define ratios1 where "ratios1 = (\<lambda>c. if min_ratios < 0 then ratios0 c - min_ratios else ratios0 c)"
  define nrm1 where "nrm1 = log_tonemapping_v2 nrm (d_grey_source data) (d_black_source data) (d_dynamic_range data)"
  define desaturation where "desaturation = filmic_desaturate_v2 nrm1 (d_sigma_toe data) (d_sigma_shoulder data) (d_saturation data)"
  define nrm2 where "nrm2 = powf (clamp_simd (spline_eval spline nrm1)) (d_output_power data)"
  define ratios2 where "ratios2 = (\<lambda>c. max (ratios1 c + (1 - ratios1 c) * (1 - desaturation)) 0)"
  define pix_out where "pix_out = (\<lambda>c. ratios2 c * nrm2)"
  define max_pix where "max_pix = max (max (pix_out 0) (pix_out 1)) (pix_out 2)"
  define ratios3 where "ratios3 = (\<lambda>c. max (ratios2 c + (1 - max_pix)) 0)"
  have v: "filmic_chroma_v2_value inb lum data spline variant k c
             = (if max_pix > 1 then clamp_simd (ratios3 c * nrm2) else pix_out c)"
    unfolding filmic_chroma_v2_value_def Let_def nrm_def ratios0_def min_ratios_def ratios1_def
      nrm1_def desaturation_def nrm2_def ratios2_def pix_out_def max_pix_def ratios3_def
    by (rule refl)
  have n2: "0 \<le> nrm2" unfolding nrm2_def by (rule powf_nonneg)
  have r2: "0 \<le> ratios2 c" for c unfolding ratios2_def by simp
  have p0: "0 \<le> pix_out c" for c unfolding pix_out_def using n2 r2 by simp
  show "0 \<le> filmic_chroma_v2_value inb lum data spline variant k c"
    unfolding v using p0 by (simp add: clamp_simd_range)
  show "filmic_chroma_v2_value inb lum data spline variant k c \<le> 1"
  proof (cases "max_pix > 1")
    case True
    then show ?thesis unfolding v by (simp add: clamp_simd_range)
  next
    case False
    have "pix_out c \<le> max_pix"
    proof -
      consider "c = 0" | "c = 1" | "c = 2" using c by linarith
      then show ?thesis unfolding max_pix_def by cases simp_all
    qed
    then show ?thesis unfolding v using False by simp
  qed
qed

subsection \<open>The wavelet synthesis\<close>

lemma reconstruct_RGB_body:
  "wavelets_reconstruct_RGB_pixel HF LF texture maskbuf ch gamma gamma_comp beta beta_comp delta scales =
     (\<lambda>k b. b[k := b ! k + wavelets_reconstruct_RGB_increment HF LF texture maskbuf ch gamma gamma_comp
                              beta beta_comp delta scales k 0,
              k + 1 := b ! (k + 1) + wavelets_reconstruct_RGB_increment HF LF texture maskbuf ch gamma
                              gamma_comp beta beta_comp delta scales k 1,
              k + 2 := b ! (k + 2) + wavelets_reconstruct_RGB_increment HF LF texture maskbuf ch gamma
                              gamma_comp beta beta_comp delta scales k 2])"
  by (intro ext) (simp add: wavelets_reconstruct_RGB_pixel_def)

lemma reconstruct_ratios_body:
  "wavelets_reconstruct_ratios_pixel HF LF texture maskbuf ch gamma gamma_comp beta beta_comp delta scales =
     (\<lambda>k b. b[k := b ! k + wavelets_reconstruct_ratios_increment HF LF texture maskbuf ch gamma gamma_comp
                              beta beta_comp delta scales k 0,
              k + 1 := b ! (k + 1) + wavelets_reconstruct_ratios_increment HF LF texture maskbuf ch gamma
                              gamma_comp beta beta_comp delta scales k 1,
              k + 2 := b ! (k + 2) + wavelets_reconstruct_ratios_increment HF LF texture maskbuf ch gamma
                              gamma_comp beta beta_comp delta scales k 2])"
  by (intro ext) (simp add: wavelets_reconstruct_ratios_pixel_def)

lemma reconstruct_nth:
  assumes "i < width * height" "c < 3" "i * 4 + 2 < length reconstructed"
  shows "wavelets_reconstruct_RGB HF LF texture maskbuf reconstructed width height 4
            gamma gamma_comp beta beta_comp delta s scales ! (i * 4 + c)
         = reconstructed ! (i * 4 + c)
           + wavelets_reconstruct_RGB_increment HF LF texture maskbuf 4 gamma gamma_comp beta beta_comp
               delta scales (i * 4) c"
    and "wavelets_reconstruct_ratios HF LF texture maskbuf reconstructed width height 4
            gamma gamma_comp beta beta_comp delta s scales ! (i * 4 + c)
         = reconstructed ! (i * 4 + c)
           + wavelets_reconstruct_ratios_increment HF LF texture maskbuf 4 gamma gamma_comp beta beta_comp
               delta scales (i * 4) c"
  unfolding wavelets_reconstruct_RGB_def wavelets_reconstruct_ratios_def
    reconstruct_RGB_body reconstruct_ratios_body
  using rgb_loop_nth [OF assms, where g = "\<lambda>k c old. old + wavelets_reconstruct_RGB_increment HF LF
      texture maskbuf 4 gamma gamma_comp beta beta_comp delta scales k c"]
    rgb_loop_nth [OF assms, where g = "\<lambda>k c old. old + wavelets_reconstruct_ratios_increment HF LF
      texture maskbuf 4 gamma gamma_comp beta beta_comp delta scales k c"]
  by simp_all

text \<open>
  C6 (as amended). For every pixel and colour channel, the ratio-domain pass
  (\<^verbatim>\<open>wavelets_reconstruct_ratios\<close>, variant 1) adds to the accumulator the mask value times
  a sum whose low-frequency grey residual is \<open>beta_comp\<close> times the \<^emph>\<open>maximum\<close> of the three
  low-frequency channels, where the RGB-domain pass (\<^verbatim>\<open>wavelets_reconstruct_RGB\<close>,
  variant 0) takes their \<^emph>\<open>minimum\<close>. The high-frequency, low-frequency and texture
  buffers are arguments of both functions; how each pass fills them is not part of this
  statement.
\<close>

theorem low_frequency_residual_combination:
  assumes "i < width * height" "c < 3" "i * 4 + 2 < length reconstructed"
  shows "wavelets_reconstruct_ratios HF LF texture maskbuf reconstructed width height 4
            gamma gamma_comp beta beta_comp delta s scales ! (i * 4 + c)
         = reconstructed ! (i * 4 + c)
           + maskbuf ! i
             * (delta * (grey_HF_term HF texture gamma gamma_comp beta_comp 4 (i * 4)
                         + HF ! (i * 4 + c) * beta * gamma_comp)
                + (beta_comp * max (max (LF ! (i * 4)) (LF ! (i * 4 + 1))) (LF ! (i * 4 + 2))
                   + LF ! (i * 4 + c) * beta) / real scales)
       \<and> wavelets_reconstruct_RGB HF LF texture maskbuf reconstructed width height 4
            gamma gamma_comp beta beta_comp delta s scales ! (i * 4 + c)
         = reconstructed ! (i * 4 + c)
           + maskbuf ! i
             * (delta * (grey_HF_term HF texture gamma gamma_comp beta_comp 4 (i * 4)
                         + HF ! (i * 4 + c) * beta * gamma_comp)
                + (beta_comp * min (min (LF ! (i * 4)) (LF ! (i * 4 + 1))) (LF ! (i * 4 + 2))
                   + LF ! (i * 4 + c) * beta) / real scales)"
  unfolding reconstruct_nth [OF assms]
  by (simp add: wavelets_reconstruct_RGB_increment_def wavelets_reconstruct_ratios_increment_def Let_def)

subsection \<open>Ratios and their round trip\<close>

lemma compute_ratios_split:
  "compute_ratios inb norms ratios lum variant width height 4 =
     (fold (\<lambda>k m. m[k div 4 := floored_norm inb k variant lum]) (pixel_offsets width height 4) norms,
      fold (\<lambda>k b. b[k := inb ! k / floored_norm inb k variant lum,
                     k + 1 := inb ! (k + 1) / floored_norm inb k variant lum,
                     k + 2 := inb ! (k + 2) / floored_norm inb k variant lum])
        (pixel_offsets width height 4) ratios)"
proof -
  have "compute_ratios_pixel inb lum variant 4 =
          (\<lambda>k st. ((fst st)[k div 4 := floored_norm inb k variant lum],
                    (snd st)[k := inb ! k / floored_norm inb k variant lum,
                     k + 1 := inb ! (k + 1) / floored_norm inb k variant lum,
                     k + 2 := inb ! (k + 2) / floored_norm inb k variant lum]))"
    by (intro ext) (simp add: compute_ratios_pixel_def Let_def)
  then show ?thesis
    unfolding compute_ratios_def
    using fold_pair [where g = "\<lambda>k m. m[k div 4 := floored_norm inb k variant lum]"
        and h = "\<lambda>k b. b[k := inb ! k / floored_norm inb k variant lum,
                     k + 1 := inb ! (k + 1) / floored_norm inb k variant lum,
                     k + 2 := inb ! (k + 2) / floored_norm inb k variant lum]"
        and ks = "pixel_offsets width height 4" and a = norms and b = ratios]
    by simp
qed

lemma floored_norm_floor: "1 / 65536 \<le> floored_norm inb k variant lum"
  by (simp add: floored_norm_def Let_def norm_floor_def)

lemma compute_ratios_nth:
  assumes "i < width * height"
  shows "i < length norms \<Longrightarrow>
           fst (compute_ratios inb norms ratios lum variant width height 4) ! i
             = floored_norm inb (i * 4) variant lum"
    and "c < 3 \<Longrightarrow> i * 4 + 2 < length ratios \<Longrightarrow>
           snd (compute_ratios inb norms ratios lum variant width height 4) ! (i * 4 + c)
             = inb ! (i * 4 + c) / floored_norm inb (i * 4) variant lum"
proof -
  show "i < length norms \<Longrightarrow>
           fst (compute_ratios inb norms ratios lum variant width height 4) ! i
             = floored_norm inb (i * 4) variant lum"
    unfolding compute_ratios_split using assms by (simp add: scalar_loop_nth)
  show "c < 3 \<Longrightarrow> i * 4 + 2 < length ratios \<Longrightarrow>
           snd (compute_ratios inb norms ratios lum variant width height 4) ! (i * 4 + c)
             = inb ! (i * 4 + c) / floored_norm inb (i * 4) variant lum"
    unfolding compute_ratios_split
    using rgb_loop_nth [OF assms, where g = "\<lambda>k c _. inb ! (k + c) / floored_norm inb k variant lum"
        and c = c and b = ratios]
    by simp
qed

lemma compute_ratios_length:
  "length (fst (compute_ratios inb norms ratios lum variant width height 4)) = length norms"
  "length (snd (compute_ratios inb norms ratios lum variant width height 4)) = length ratios"
  unfolding compute_ratios_split by (simp_all add: scalar_loop_length fold_length_preserved)

lemma restore_ratios_nth:
  assumes "i < width * height" "c < 3" "i * 4 + 2 < length ratios"
  shows "restore_ratios ratios norms width height 4 ! (i * 4 + c) = ratios ! (i * 4 + c) * norms ! i"
proof -
  have "restore_ratios_pixel norms 4 =
          (\<lambda>k b. b[k := b ! k * norms ! (k div 4), k + 1 := b ! (k + 1) * norms ! (k div 4),
                   k + 2 := b ! (k + 2) * norms ! (k div 4)])"
    by (intro ext) (simp add: restore_ratios_pixel_def)
  then show ?thesis
    unfolding restore_ratios_def
    using rgb_loop_nth [OF assms, where g = "\<lambda>k c old. old * norms ! (k div 4)"]
    by simp
qed

text \<open>
  C5. For every pixel, \<^verbatim>\<open>compute_ratios\<close> stores the pixel norm floored at \<open>2\<^sup>-\<^sup>1\<^sup>6\<close> and
  each colour channel divided by that stored norm, and \<^verbatim>\<open>restore_ratios\<close>, multiplying
  each channel by the stored norm, gives back the original colour channel. In the
  real-number model the round trip is exact, for every channel value (in particular for
  the non-negative ones the claim speaks of). The buffers \<^verbatim>\<open>norms\<close> and \<^verbatim>\<open>ratios\<close> are
  large enough to hold the pixel.
\<close>

theorem ratios_round_trip:
  assumes "i < width * height" "c < 3" "i < length norms" "i * 4 + 2 < length ratios"
  shows "fst (compute_ratios inb norms ratios lum variant width height 4) ! i
           = (if get_pixel_norm inb (i * 4) variant lum < 1 / 65536 then 1 / 65536
              else get_pixel_norm inb (i * 4) variant lum)
       \<and> snd (compute_ratios inb norms ratios lum variant width height 4) ! (i * 4 + c)
           = inb ! (i * 4 + c) / fst (compute_ratios inb norms ratios lum variant width height 4) ! i
       \<and> restore_ratios (snd (compute_ratios inb norms ratios lum variant width height 4))
            (fst (compute_ratios inb norms ratios lum variant width height 4)) width height 4
            ! (i * 4 + c)
           = inb ! (i * 4 + c)"
proof -
  let ?n = "floored_norm inb (i * 4) variant lum"
  have pos: "?n \<noteq> 0" using floored_norm_floor [of inb "i * 4" variant lum] by auto
  have n: "fst (compute_ratios inb norms ratios lum variant width height 4) ! i = ?n"
    using assms by (simp add: compute_ratios_nth)
  have r: "snd (compute_ratios inb norms ratios lum variant width height 4) ! (i * 4 + c)
             = inb ! (i * 4 + c) / ?n"
    using assms by (simp add: compute_ratios_nth)
  have "restore_ratios (snd (compute_ratios inb norms ratios lum variant width height 4))
            (fst (compute_ratios inb norms ratios lum variant width height 4)) width height 4
            ! (i * 4 + c)
        = snd (compute_ratios inb norms ratios lum variant width height 4) ! (i * 4 + c)
          * fst (compute_ratios inb norms ratios lum variant width height 4) ! i"
    using assms by (intro restore_ratios_nth) (simp_all add: compute_ratios_length)
  then show ?thesis
    unfolding n r using pos by (simp add: floored_norm_def Let_def norm_floor_def)
qed

subsection \<open>The mask and the count of clipped pixels\<close>

lemma fold_count:
  "fold (\<lambda>k (n::int). n + (if P k then 1 else 0)) ks a = a + int (length (filter P ks))"
  by (induction ks arbitrary: a) simp_all

lemma mask_clipped_split:
  "mask_clipped_pixels inb maskbuf normalize' feathering width height 4 =
     (fold (\<lambda>k m. m[k div 4 := mask_weight inb normalize' feathering k]) (pixel_offsets width height 4) maskbuf,
      9 < int (length (filter (\<lambda>k. 4 > mask_argument inb normalize' feathering k)
                         (pixel_offsets width height 4))))"
proof -
  have "mask_clipped_pixel inb normalize' feathering 4 =
          (\<lambda>k st. ((fst st)[k div 4 := mask_weight inb normalize' feathering k],
                    snd st + (if 4 > mask_argument inb normalize' feathering k then 1 else 0)))"
    by (intro ext) (simp add: mask_clipped_pixel_def)
  then show ?thesis
    unfolding mask_clipped_pixels_def Let_def
    using fold_pair [where g = "\<lambda>k m. m[k div 4 := mask_weight inb normalize' feathering k]"
        and h = "\<lambda>k (n::int). n + (if 4 > mask_argument inb normalize' feathering k then 1 else 0)"
        and ks = "pixel_offsets width height 4" and a = maskbuf and b = 0]
      fold_count [where P = "\<lambda>k. 4 > mask_argument inb normalize' feathering k"
        and ks = "pixel_offsets width height 4" and a = 0]
    by simp
qed

lemma process_render_skipped:
  "pr_in (process_render piece data lum ivoid ovoid roi_in roi_out allocs maskopt False) = Ivoid"
  "pr_in_buffer (process_render piece data lum ivoid ovoid roi_in roi_out allocs maskopt False) = ivoid"
  by (simp_all add: process_render_def Let_def split: option.splits)

lemma mask_weight_unit:
  "0 \<le> mask_weight inb normalize' feathering k" "mask_weight inb normalize' feathering k \<le> 1"
proof -
  have "0 < exp2f (mask_argument inb normalize' feathering k)" by (simp add: exp2f_def)
  then show "0 \<le> mask_weight inb normalize' feathering k" "mask_weight inb normalize' feathering k \<le> 1"
    by (simp_all add: mask_weight_def)
qed

text \<open>
  C3. With \<^verbatim>\<open>normalize = feather / threshold\<close>, as \<^verbatim>\<open>process\<close> calls it,
  \<^verbatim>\<open>mask_clipped_pixels\<close> stores for every pixel the weight \<open>1 / (1 + 2 powr argument)\<close>
  with \<open>argument = feather - pix_norm * (feather / threshold)\<close> and \<open>pix_norm\<close> the
  Euclidean norm of the three colour channels; the weight lies in [0, 1]; and the
  function's result is true exactly when at least 10 pixels have \<open>argument < 4\<close>. When
  the result is false, \<^verbatim>\<open>process\<close> skips the reconstruction: the tone mapping reads the
  input buffer. The mask buffer holds \<open>width * height\<close> floats and the threshold is not 0.
\<close>

theorem mask_clipped_pixels_weight_and_count:
  assumes "length maskbuf = width * height" and "threshold \<noteq> 0"
  shows "pr_in (process_render piece data lum ivoid ovoid roi_in roi_out allocs maskopt False) = Ivoid
       \<and> pr_in_buffer (process_render piece data lum ivoid ovoid roi_in roi_out allocs maskopt False)
           = ivoid
       \<and> (\<forall>i < width * height.
            fst (mask_clipped_pixels inb maskbuf (feather / threshold) feather width height 4) ! i
              = 1 / (1 + 2 powr (feather
                  - sqrt ((inb ! (i * 4))\<^sup>2 + (inb ! (i * 4 + 1))\<^sup>2 + (inb ! (i * 4 + 2))\<^sup>2)
                    * (feather / threshold)))
            \<and> 0 \<le> fst (mask_clipped_pixels inb maskbuf (feather / threshold) feather width height 4) ! i
            \<and> fst (mask_clipped_pixels inb maskbuf (feather / threshold) feather width height 4) ! i \<le> 1)
       \<and> (snd (mask_clipped_pixels inb maskbuf (feather / threshold) feather width height 4)
            \<longleftrightarrow> 10 \<le> length (filter
                  (\<lambda>i. feather
                         - sqrt ((inb ! (i * 4))\<^sup>2 + (inb ! (i * 4 + 1))\<^sup>2 + (inb ! (i * 4 + 2))\<^sup>2)
                           * (feather / threshold) < 4)
                  [0..<width * height]))"
proof -
  have arg: "mask_argument inb (feather / threshold) feather k
               = feather - sqrt ((inb ! k)\<^sup>2 + (inb ! (k + 1))\<^sup>2 + (inb ! (k + 2))\<^sup>2) * (feather / threshold)" for k
    by (simp add: mask_argument_def sqf_def Let_def power2_eq_square)
  have w: "fst (mask_clipped_pixels inb maskbuf (feather / threshold) feather width height 4) ! i
             = mask_weight inb (feather / threshold) feather (i * 4)" if "i < width * height" for i
    unfolding mask_clipped_split using that assms(1) by (simp add: scalar_loop_nth)
  have cnt: "length (filter (\<lambda>k. 4 > mask_argument inb (feather / threshold) feather k)
                       (pixel_offsets width height 4))
             = length (filter (\<lambda>i. mask_argument inb (feather / threshold) feather (i * 4) < 4)
                       [0..<width * height])"
    by (simp add: pixel_offsets_4 filter_map comp_def mult.commute)
  show ?thesis
  proof (intro conjI allI impI)
    show "pr_in (process_render piece data lum ivoid ovoid roi_in roi_out allocs maskopt False) = Ivoid"
      by (rule process_render_skipped)
    show "pr_in_buffer (process_render piece data lum ivoid ovoid roi_in roi_out allocs maskopt False)
            = ivoid"
      by (rule process_render_skipped)
  next
    fix i assume i: "i < width * height"
    show "fst (mask_clipped_pixels inb maskbuf (feather / threshold) feather width height 4) ! i
              = 1 / (1 + 2 powr (feather
                  - sqrt ((inb ! (i * 4))\<^sup>2 + (inb ! (i * 4 + 1))\<^sup>2 + (inb ! (i * 4 + 2))\<^sup>2)
                    * (feather / threshold)))"
      unfolding w [OF i] by (simp add: mask_weight_def exp2f_def arg)
    show "0 \<le> fst (mask_clipped_pixels inb maskbuf (feather / threshold) feather width height 4) ! i"
      unfolding w [OF i] by (rule mask_weight_unit)
    show "fst (mask_clipped_pixels inb maskbuf (feather / threshold) feather width height 4) ! i \<le> 1"
      unfolding w [OF i] by (rule mask_weight_unit)
  next
    show "snd (mask_clipped_pixels inb maskbuf (feather / threshold) feather width height 4)
            \<longleftrightarrow> 10 \<le> length (filter
                  (\<lambda>i. feather
                         - sqrt ((inb ! (i * 4))\<^sup>2 + (inb ! (i * 4 + 1))\<^sup>2 + (inb ! (i * 4 + 2))\<^sup>2)
                           * (feather / threshold) < 4)
                  [0..<width * height])"
    proof -
      have "snd (mask_clipped_pixels inb maskbuf (feather / threshold) feather width height 4)
              \<longleftrightarrow> 10 \<le> length (filter (\<lambda>i. mask_argument inb (feather / threshold) feather (i * 4) < 4)
                                    [0..<width * height])"
        unfolding mask_clipped_split snd_conv cnt by auto
      then show ?thesis by (simp add: arg)
    qed
  qed
qed

subsection \<open>Runs on concrete buffers\<close>

theorem low_frequency_residual_combination_witness:
  "(0::nat) < 1 * 1 \<and> (0::nat) < 3 \<and> 0 * 4 + 2 < length [0, 0, 0, 0::real]
   \<and> wavelets_reconstruct_ratios [0, 0, 0, 0] [1, 2, 3, 0] [0] [1] [0, 0, 0, 0] 1 1 4
        (1 / 2) (1 / 2) 0 1 0 0 1 ! (0 * 4 + 0) = 3
   \<and> wavelets_reconstruct_RGB [0, 0, 0, 0] [1, 2, 3, 0] [0] [1] [0, 0, 0, 0] 1 1 4
        (1 / 2) (1 / 2) 0 1 0 0 1 ! (0 * 4 + 0) = 1"
  using low_frequency_residual_combination [of 0 1 1 0 "[0, 0, 0, 0]" "[0, 0, 0, 0]" "[1, 2, 3, 0]"
      "[0]" "[1]" "1 / 2" "1 / 2" 0 1 0 0 1]
  by (simp add: grey_HF_term_def fmaxabsf_def)

text \<open>
  C6 as stated fails: on one pixel with low frequencies 1, 2, 3 the ratio pass adds their
  maximum 3 and not the claimed minimum 1, and the RGB pass adds their minimum 1 and not
  the claimed maximum 3.
\<close>

theorem low_frequency_residual_counterexample:
  "wavelets_reconstruct_ratios [0, 0, 0, 0] [1, 2, 3, 0] [0] [1] [0, 0, 0, 0] 1 1 4
        (1 / 2) (1 / 2) 0 1 0 0 1 ! 0
     \<noteq> [0, 0, 0, 0] ! 0
        + claimed_ratios_increment [0, 0, 0, 0] [1, 2, 3, 0] [0] [1] 4 (1 / 2) (1 / 2) 0 1 0 1 0 0
   \<and> wavelets_reconstruct_RGB [0, 0, 0, 0] [1, 2, 3, 0] [0] [1] [0, 0, 0, 0] 1 1 4
        (1 / 2) (1 / 2) 0 1 0 0 1 ! 0
     \<noteq> [0, 0, 0, 0] ! 0
        + claimed_RGB_increment [0, 0, 0, 0] [1, 2, 3, 0] [0] [1] 4 (1 / 2) (1 / 2) 0 1 0 1 0 0"
  using reconstruct_nth [of 0 1 1 0 "[0, 0, 0, 0]" "[0, 0, 0, 0]" "[1, 2, 3, 0]"
      "[0]" "[1]" "1 / 2" "1 / 2" 0 1 0 0 1]
  by (simp add: grey_HF_term_def fmaxabsf_def claimed_ratios_increment_def claimed_RGB_increment_def
      wavelets_reconstruct_RGB_increment_def wavelets_reconstruct_ratios_increment_def)

theorem ratios_round_trip_witness:
  "(0::nat) < 1 * 1 \<and> (1::nat) < 3 \<and> 0 < length [0::real] \<and> 0 * 4 + 2 < length [0, 0, 0, 0::real]
   \<and> fst (compute_ratios [1 / 2, 1 / 4, 1 / 8, 1] [0] [0, 0, 0, 0] (\<lambda>r g b. g)
             DT_FILMIC_METHOD_MAX_RGB 1 1 4) ! 0 = 1 / 2
   \<and> snd (compute_ratios [1 / 2, 1 / 4, 1 / 8, 1] [0] [0, 0, 0, 0] (\<lambda>r g b. g)
             DT_FILMIC_METHOD_MAX_RGB 1 1 4) ! (0 * 4 + 1) = 1 / 2
   \<and> restore_ratios
        (snd (compute_ratios [1 / 2, 1 / 4, 1 / 8, 1] [0] [0, 0, 0, 0] (\<lambda>r g b. g)
                DT_FILMIC_METHOD_MAX_RGB 1 1 4))
        (fst (compute_ratios [1 / 2, 1 / 4, 1 / 8, 1] [0] [0, 0, 0, 0] (\<lambda>r g b. g)
                DT_FILMIC_METHOD_MAX_RGB 1 1 4)) 1 1 4 ! (0 * 4 + 1) = 1 / 4"
  using ratios_round_trip [of 0 1 1 1 "[0]" "[0, 0, 0, 0]" "[1 / 2, 1 / 4, 1 / 8, 1]" "\<lambda>r g b. g"
      DT_FILMIC_METHOD_MAX_RGB]
  by (simp add: get_pixel_norm_def)

lemma sqrt_144: "sqrt 144 = 12"
  using real_sqrt_abs [of 12] by simp

theorem mask_clipped_pixels_weight_and_count_witness:
  "length (replicate 10 (0::real)) = 10 * 1 \<and> (8::real) \<noteq> 0
   \<and> fst (mask_clipped_pixels (concat (replicate 10 [12, 0, 0, 1])) (replicate 10 0) (16 / 8) 16 10 1 4) ! 0
       = 1 / (1 + 2 powr (- 8))
   \<and> snd (mask_clipped_pixels (concat (replicate 10 [12, 0, 0, 1])) (replicate 10 0) (16 / 8) 16 10 1 4)
   \<and> length [0::real] = 1 * 1
   \<and> fst (mask_clipped_pixels [0, 0, 0, 1] [0] (16 / 8) 16 1 1 4) ! 0 = 1 / (1 + 2 powr 16)
   \<and> \<not> snd (mask_clipped_pixels [0, 0, 0, 1] [0] (16 / 8) 16 1 1 4)"
proof -
  have h: "length (replicate 10 (0::real)) = 10 * 1" by simp
  have nz: "(8::real) \<noteq> 0" by simp
  note t = mask_clipped_pixels_weight_and_count [OF h nz,
      where inb = "concat (replicate 10 [12, 0, 0, 1])" and feather = 16]
  have h1: "length [0::real] = 1 * 1" by simp
  note t1 = mask_clipped_pixels_weight_and_count [OF h1 nz,
      where inb = "[0, 0, 0, 1]" and feather = 16]
  have c: "concat (replicate 10 [12, 0, 0, 1::real])
             = [12, 0, 0, 1, 12, 0, 0, 1, 12, 0, 0, 1, 12, 0, 0, 1, 12, 0, 0, 1,
                12, 0, 0, 1, 12, 0, 0, 1, 12, 0, 0, 1, 12, 0, 0, 1, 12, 0, 0, 1]"
    by (simp add: eval_nat_numeral)
  have u: "[0..<10 * 1] = [0, 1, 2, 3, 4, 5, 6, 7, 8, 9]"
    by (simp add: upt_rec)
  show ?thesis
    using t [THEN conjunct2, THEN conjunct2, THEN conjunct1, rule_format, of 0]
      t [THEN conjunct2, THEN conjunct2, THEN conjunct2]
      t1 [THEN conjunct2, THEN conjunct2, THEN conjunct1, rule_format, of 0]
      t1 [THEN conjunct2, THEN conjunct2, THEN conjunct2]
    unfolding c u by (simp add: sqrt_144)
qed


subsection \<open>The range of the tone mapped channels\<close>

text \<open>
  C10. For every input pixel, every written colour channel of the output of the two
  channel-split kernels lies in [0, 1] when the output power is not negative (the spline
  result is clamped to [0, 1] before the power is applied; the module's slider keeps the
  power in 1..10), and every written colour channel of the output of the version 2
  norm-preserving kernel lies in [0, 1] whatever the parameters are (its gamut mapping
  clamps whenever the maximal channel exceeds 1).
\<close>

theorem tone_mapped_channels_in_unit_range:
  assumes "i < width * height" "c < 3" "i * 4 + 2 < length out"
  shows "(0 \<le> d_output_power data \<longrightarrow>
            0 \<le> filmic_split_v1 inb out lum data spline width height 4 ! (i * 4 + c)
          \<and> filmic_split_v1 inb out lum data spline width height 4 ! (i * 4 + c) \<le> 1
          \<and> 0 \<le> filmic_split_v2 inb out lum data spline width height 4 ! (i * 4 + c)
          \<and> filmic_split_v2 inb out lum data spline width height 4 ! (i * 4 + c) \<le> 1)
       \<and> 0 \<le> filmic_chroma_v2 inb out lum data spline variant width height 4 ! (i * 4 + c)
       \<and> filmic_chroma_v2 inb out lum data spline variant width height 4 ! (i * 4 + c) \<le> 1"
  unfolding kernels_nth [OF assms]
  using split_values_unit [of data inb lum spline "i * 4" c]
    chroma_v2_value_unit [OF assms(2), of inb lum data spline variant "i * 4"]
  by simp

lemma data_centered_fields:
  "d_output_power data_centered = 1"
  "d_reconstruct_feather data_centered = 16"
  "d_reconstruct_threshold data_centered = 64 * 0.1845"
  "d_high_quality_reconstruction data_centered = 0"
  "d_preserve_color data_centered = DT_FILMIC_METHOD_POWER_NORM"
  "d_version data_centered = DT_FILMIC_COLORSCIENCE_V2"
  by (simp_all add: data_centered_def commit_params_def Let_def params_centered_def
      exp2f_def powf_def commit_grey_source_def)

theorem tone_mapped_channels_in_unit_range_witness:
  "(0::nat) < 1 * 1 \<and> (1::nat) < 3 \<and> 0 * 4 + 2 < length [0, 0, 0, 0::real]
   \<and> 0 \<le> d_output_power data_centered
   \<and> 0 \<le> filmic_split_v1 [1 / 2, 1 / 4, 1 / 8, 1] [0, 0, 0, 0] (\<lambda>r g b. g) data_centered
            (d_spline data_centered) 1 1 4 ! (0 * 4 + 1)
   \<and> filmic_split_v2 [1 / 2, 1 / 4, 1 / 8, 1] [0, 0, 0, 0] (\<lambda>r g b. g) data_centered
            (d_spline data_centered) 1 1 4 ! (0 * 4 + 1) \<le> 1
   \<and> filmic_chroma_v2 [1 / 2, 1 / 4, 1 / 8, 1] [0, 0, 0, 0] (\<lambda>r g b. g) data_centered
            (d_spline data_centered) DT_FILMIC_METHOD_POWER_NORM 1 1 4 ! (0 * 4 + 1) \<le> 1"
  using tone_mapped_channels_in_unit_range [of 0 1 1 1 "[0, 0, 0, 0]" data_centered
      "[1 / 2, 1 / 4, 1 / 8, 1]" "\<lambda>r g b. g" "d_spline data_centered" DT_FILMIC_METHOD_POWER_NORM]
  by (simp add: data_centered_fields)

subsection \<open>Reconstruction under an all-zero mask\<close>

lemma offset_pixel:
  assumes "k \<in> set (pixel_offsets width height 4)"
  shows "k div 4 < width * height"
  using assms by (auto simp: pixel_offsets_4 mult.commute)

lemma init_reconstruct_zero_mask:
  assumes m: "\<forall>i<width * height. maskbuf ! i = 0"
    and l: "length inb = width * height * 4" "length reconstructed = length inb"
  shows "init_reconstruct inb maskbuf reconstructed width height 4 = inb"
proof (rule nth_equalityI)
  show "length (init_reconstruct inb maskbuf reconstructed width height 4) = length inb"
    unfolding init_reconstruct_def using l by (simp add: index_loop_length)
next
  fix j
  assume "j < length (init_reconstruct inb maskbuf reconstructed width height 4)"
  then have j: "j < width * height * 4"
    unfolding init_reconstruct_def using l by (simp add: index_loop_length)
  then have "j div 4 < width * height" by simp
  then have z: "maskbuf ! (j div 4) = 0" using m by simp
  have jl: "j < length reconstructed" using j l by simp
  have jh: "j < height * width * 4" using j by (simp add: mult.commute)
  show "init_reconstruct inb maskbuf reconstructed width height 4 ! j = inb ! j"
    unfolding init_reconstruct_def
    using index_loop_nth [OF jl, of "\<lambda>k. inb ! k * (1 - maskbuf ! (k div 4))" "height * width * 4"] jh z
    by simp
qed

lemma reconstruct_zero_mask:
  assumes m: "\<forall>i<width * height. maskbuf ! i = 0"
  shows "wavelets_reconstruct_RGB HF LF texture maskbuf reconstructed width height 4
            gamma gamma_comp beta beta_comp delta s scales = reconstructed"
    and "wavelets_reconstruct_ratios HF LF texture maskbuf reconstructed width height 4
            gamma gamma_comp beta beta_comp delta s scales = reconstructed"
proof -
  have z: "maskbuf ! (k div 4) = 0" if "k \<in> set (pixel_offsets width height 4)" for k
    using offset_pixel [OF that] m by simp
  show "wavelets_reconstruct_RGB HF LF texture maskbuf reconstructed width height 4
            gamma gamma_comp beta beta_comp delta s scales = reconstructed"
    unfolding wavelets_reconstruct_RGB_def
    by (rule fold_fixed)
      (simp add: wavelets_reconstruct_RGB_pixel_def wavelets_reconstruct_RGB_increment_def Let_def z)
  show "wavelets_reconstruct_ratios HF LF texture maskbuf reconstructed width height 4
            gamma gamma_comp beta beta_comp delta s scales = reconstructed"
    unfolding wavelets_reconstruct_ratios_def
    by (rule fold_fixed)
      (simp add: wavelets_reconstruct_ratios_pixel_def wavelets_reconstruct_ratios_increment_def Let_def z)
qed

lemma reconstruct_scale_acc:
  assumes "\<forall>i<width * height. maskbuf ! i = 0"
  shows "reconstructed_acc (reconstruct_scale inb maskbuf variant data width height scales s st)
           = reconstructed_acc st"
  by (simp add: reconstruct_scale_def Let_def reconstruct_zero_mask [OF assms])

lemma reconstruct_scales_acc:
  assumes "\<forall>i<width * height. maskbuf ! i = 0"
  shows "reconstructed_acc (reconstruct_scales inb maskbuf variant data width height scales st)
           = reconstructed_acc st"
proof -
  have "reconstructed_acc (fold (reconstruct_scale inb maskbuf variant data width height scales) ss st)
          = reconstructed_acc st" for ss
    by (induction ss arbitrary: st) (simp_all add: reconstruct_scale_acc [OF assms])
  then show ?thesis by (simp add: reconstruct_scales_def)
qed

text \<open>
  C4. If every mask value is exactly 0 then, for every input buffer, every variant and
  every number of scales: \<^verbatim>\<open>init_reconstruct\<close> sets the accumulator to the input buffer,
  \<^verbatim>\<open>wavelets_reconstruct_RGB\<close> leaves an accumulator as it is, the loop over the scales
  leaves the accumulator as it is, and \<^verbatim>\<open>reconstruct_highlights\<close> succeeds with an
  accumulator equal to the input buffer. The input and the accumulator hold
  \<open>width * height\<close> pixels of four floats and the scratch allocations succeed.
\<close>

theorem reconstruction_noop_on_zero_mask:
  assumes "\<forall>i<roi_width roi_out * roi_height roi_out. maskbuf ! i = 0"
    and "length inb = roi_width roi_out * roi_height roi_out * 4"
    and "length reconstructed = length inb"
    and "\<not> scratch_allocation_failed allocs"
  shows "init_reconstruct inb maskbuf reconstructed (roi_width roi_out) (roi_height roi_out) 4 = inb
    \<and> wavelets_reconstruct_RGB HF LF texture maskbuf acc (roi_width roi_out) (roi_height roi_out) 4
         gamma gamma_comp beta beta_comp delta s scales = acc
    \<and> reconstructed_acc (reconstruct_scales inb maskbuf variant data (roi_width roi_out)
         (roi_height roi_out) scales st) = reconstructed_acc st
    \<and> reconstruct_highlights inb maskbuf reconstructed variant data piece roi_in roi_out allocs
         = (inb, True, [])"
  using assms
  by (simp add: reconstruct_highlights_def Let_def init_reconstruct_zero_mask reconstruct_zero_mask
      reconstruct_scales_acc)

lemma reconstruct_highlights_failure:
  assumes "scratch_allocation_failed allocs"
  shows "reconstruct_highlights inb maskbuf reconstructed variant data piece roi_in roi_out allocs
           = (reconstructed, False, [allocation_diagnostic])"
  using assms by (simp add: reconstruct_highlights_def Let_def)

lemma reconstruct_highlights_success:
  assumes "\<not> scratch_allocation_failed allocs"
  shows "fst (snd (reconstruct_highlights inb maskbuf reconstructed variant data piece roi_in roi_out allocs))"
    "snd (snd (reconstruct_highlights inb maskbuf reconstructed variant data piece roi_in roi_out allocs)) = []"
  using assms by (simp_all add: reconstruct_highlights_def Let_def)

lemma process_reconstruct_first_pass_failure:
  assumes "scratch_allocation_failed (alloc_pass1 allocs)"
  shows "process_reconstruct piece data lum ivoid maskbuf reconstructed roi_in roi_out allocs
           = (Ivoid, ivoid, [allocation_diagnostic])"
  using assms by (simp add: process_reconstruct_def Let_def reconstruct_highlights_failure)

lemma process_reconstruct_second_pass_failure:
  assumes "\<not> scratch_allocation_failed (alloc_pass1 allocs)"
    and "d_high_quality_reconstruction data \<noteq> 0"
    and "alloc_norms allocs \<noteq> None" "alloc_ratios allocs \<noteq> None"
    and "scratch_allocation_failed (alloc_pass2 allocs)"
  shows "process_reconstruct piece data lum ivoid maskbuf reconstructed roi_in roi_out allocs
           = (Reconstructed,
              fst (reconstruct_highlights ivoid maskbuf reconstructed 0 data piece roi_in roi_out
                     (alloc_pass1 allocs)),
              [allocation_diagnostic])"
  using assms
  by (auto simp: process_reconstruct_def Let_def reconstruct_highlights_failure
      reconstruct_highlights_success)

lemma process_renders:
  assumes "colors piece = 4" and "alloc_mask allocs = Some mask0"
    and "\<not> (gui_attached self \<and> pipe_type_full piece \<and> show_mask self)"
  shows "process self piece data lum ivoid ovoid roi_in roi_out allocs
           = Inr (process_render piece data lum ivoid ovoid roi_in roi_out allocs
                    (Some (fst (mask_clipped_pixels ivoid mask0
                       (d_reconstruct_feather data / d_reconstruct_threshold data)
                       (d_reconstruct_feather data) (roi_width roi_out) (roi_height roi_out) 4)))
                    (snd (mask_clipped_pixels ivoid mask0
                       (d_reconstruct_feather data / d_reconstruct_threshold data)
                       (d_reconstruct_feather data) (roi_width roi_out) (roi_height roi_out) 4)))"
  using assms by (auto simp: process_def Let_def)

lemma process_render_reconstructing:
  assumes "alloc_reconstructed allocs = Some reconstructed"
  shows "process_render piece data lum ivoid ovoid roi_in roi_out allocs (Some maskbuf) True
           = \<lparr> pr_out = process_alpha_copy piece ivoid
                  (process_tonemap
                     (fst (snd (process_reconstruct piece data lum ivoid maskbuf reconstructed roi_in
                                  roi_out allocs)))
                     ovoid lum data roi_in roi_out) roi_out,
               pr_exit = Tone_mapped,
               pr_in = fst (process_reconstruct piece data lum ivoid maskbuf reconstructed roi_in
                              roi_out allocs),
               pr_in_buffer = fst (snd (process_reconstruct piece data lum ivoid maskbuf reconstructed
                                          roi_in roi_out allocs)),
               pr_log = snd (snd (process_reconstruct piece data lum ivoid maskbuf reconstructed
                                    roi_in roi_out allocs)) \<rparr>"
  using assms by (simp add: process_render_def Let_def)

subsection \<open>The alpha channel\<close>

lemma reconstruct_alpha:
  "wavelets_reconstruct_RGB HF LF texture maskbuf acc width height 4
      gamma gamma_comp beta beta_comp delta s scales ! (i * 4 + 3) = acc ! (i * 4 + 3)"
  "wavelets_reconstruct_ratios HF LF texture maskbuf acc width height 4
      gamma gamma_comp beta beta_comp delta s scales ! (i * 4 + 3) = acc ! (i * 4 + 3)"
  unfolding wavelets_reconstruct_RGB_def wavelets_reconstruct_ratios_def
    reconstruct_RGB_body reconstruct_ratios_body
  by (rule rgb_loop_alpha)+

lemma blur_vertical_alpha:
  "blur_2D_Bspline_vertical inb out width height 4 mult bound_left bound_right ! (i * 4 + 3)
     = out ! (i * 4 + 3)"
  unfolding blur_2D_Bspline_vertical_def
proof (rule fold_nth_frame)
  fix ij :: "nat \<times> nat" and b :: buffer
  have "i * 4 + 3 \<noteq> (fst ij * width + snd ij) * 4"
    "i * 4 + 3 \<noteq> (fst ij * width + snd ij) * 4 + 1"
    "i * 4 + 3 \<noteq> (fst ij * width + snd ij) * 4 + 2"
    by presburger+
  then show "blur_2D_Bspline_vertical_pixel inb width 4 mult bound_left bound_right ij b ! (i * 4 + 3)
               = b ! (i * 4 + 3)"
    by (simp add: blur_2D_Bspline_vertical_pixel_def Let_def)
qed

lemma process_tonemap_alpha:
  "process_tonemap inb out lum data roi_in roi_out ! (i * 4 + 3) = out ! (i * 4 + 3)"
  by (simp add: process_tonemap_def Let_def kernels_alpha)

lemma process_tonemap_length:
  "length (process_tonemap inb out lum data roi_in roi_out) = length out"
  by (simp add: process_tonemap_def Let_def kernels_length)

lemma alpha_copy_nth:
  assumes i: "i < width * height" and len: "i * 4 + 3 < length out"
  shows "dt_iop_alpha_copy ivoid out width height ! (i * 4 + 3) = ivoid ! (i * 4 + 3)"
proof -
  let ?f = "\<lambda>k (buf::buffer). buf[k + 3 := ivoid ! (k + 3)]"
  have "fold ?f (pixel_offsets width height 4) out ! (i * 4 + 3) = ?f (i * 4) out ! (i * 4 + 3)"
  proof (rule fold_nth_region [where region = "\<lambda>k. {k + 3}"])
    show "\<And>k b. length (?f k b) = length b" by simp
    show "\<And>k b j. j \<notin> {k + 3} \<Longrightarrow> ?f k b ! j = b ! j" by simp
    show "\<And>k b b' j. j \<in> {k + 3} \<Longrightarrow> length b = length b'
            \<Longrightarrow> (\<forall>j'\<in>{k + 3}. b ! j' = b' ! j') \<Longrightarrow> ?f k b ! j = ?f k b' ! j"
      by (auto intro: upd_nth_cong)
    show "\<And>k k'. k \<in> set (pixel_offsets width height 4) \<Longrightarrow> k' \<in> set (pixel_offsets width height 4)
            \<Longrightarrow> k \<noteq> k' \<Longrightarrow> {k + 3} \<inter> {k' + 3} = {}"
      by simp
    show "distinct (pixel_offsets width height 4)" by (rule offsets_distinct)
    show "i * 4 \<in> set (pixel_offsets width height 4)" using i by (rule offset_member)
    show "i * 4 + 3 \<in> {i * 4 + 3}" by simp
  qed
  then show ?thesis using len by (simp add: dt_iop_alpha_copy_def)
qed

lemma process_render_alpha:
  "\<not> pipe_mask_display piece \<Longrightarrow>
     pr_out (process_render piece data lum ivoid ovoid roi_in roi_out allocs maskopt recover)
       ! (i * 4 + 3) = ovoid ! (i * 4 + 3)"
  "pipe_mask_display piece \<Longrightarrow> i < roi_width roi_out * roi_height roi_out
     \<Longrightarrow> i * 4 + 3 < length ovoid \<Longrightarrow>
     pr_out (process_render piece data lum ivoid ovoid roi_in roi_out allocs maskopt recover)
       ! (i * 4 + 3) = ivoid ! (i * 4 + 3)"
  by (simp_all add: process_render_def Let_def process_alpha_copy_def process_tonemap_alpha
      alpha_copy_nth process_tonemap_length)

lemma process_tone_mapped:
  assumes "process self piece data lum ivoid ovoid roi_in roi_out allocs = Inr r"
    and "pr_exit r = Tone_mapped"
  shows "\<exists>maskopt recover.
           r = process_render piece data lum ivoid ovoid roi_in roi_out allocs maskopt recover"
  using assms by (auto simp: process_def Let_def split: if_splits option.splits)

text \<open>The second blur pass stores the fourth entry of its accumulator, which is 0.\<close>

lemma fold_nth_written:
  assumes len: "\<And>k b. length (f k b) = length b"
    and step: "\<And>k b. j < length b \<Longrightarrow> f k b ! j = v \<or> f k b ! j = b ! j"
    and hit: "\<And>b. j < length b \<Longrightarrow> f k0 b ! j = v"
    and j: "j < length b"
  shows "b ! j = v \<or> k0 \<in> set ks \<Longrightarrow> fold f ks b ! j = v"
  using j
proof (induction ks arbitrary: b)
  case Nil
  then show ?case by simp
next
  case (Cons k ks)
  have l: "j < length (f k b)" using Cons.prems(2) by (simp add: len)
  have "f k b ! j = v \<or> k0 \<in> set ks"
    using Cons.prems step [of b k] hit [of b] by auto
  then show ?case using Cons.IH [OF _ l] by simp
qed

lemma blur_horizontal_pixel_length:
  "length (blur_2D_Bspline_horizontal_pixel inb width height 4 mult bt bb ij b) = length b"
  by (simp add: blur_2D_Bspline_horizontal_pixel_def Let_def eval_nat_numeral)

lemma blur_horizontal_pixel_alpha:
  assumes "i * 4 + 3 < length b"
  shows "blur_2D_Bspline_horizontal_pixel inb width height 4 mult bt bb ij b ! (i * 4 + 3)
          = (if i = fst ij * width + snd ij then 0 else b ! (i * 4 + 3))"
proof -
  have ne: "i * 4 + 3 \<noteq> (fst ij * width + snd ij) * 4"
    "i * 4 + 3 \<noteq> Suc ((fst ij * width + snd ij) * 4)"
    "i * 4 + 3 \<noteq> Suc (Suc ((fst ij * width + snd ij) * 4))"
    by presburger+
  show ?thesis
    using assms ne
    by (simp add: blur_2D_Bspline_horizontal_pixel_def Let_def eval_nat_numeral nth_list_update)
qed

lemma blur_horizontal_alpha:
  assumes i: "i < width * height" and l: "i * 4 + 3 < length out"
  shows "blur_2D_Bspline_horizontal inb out width height 4 mult bt bb ! (i * 4 + 3) = 0"
  unfolding blur_2D_Bspline_horizontal_def
proof (rule fold_nth_written [where ?k0.0 = "(i div width, i mod width)"])
  show "\<And>k b. length (blur_2D_Bspline_horizontal_pixel inb width height 4 mult bt bb k b) = length b"
    by (rule blur_horizontal_pixel_length)
  show "\<And>k b. i * 4 + 3 < length b \<Longrightarrow>
          blur_2D_Bspline_horizontal_pixel inb width height 4 mult bt bb k b ! (i * 4 + 3) = 0
          \<or> blur_2D_Bspline_horizontal_pixel inb width height 4 mult bt bb k b ! (i * 4 + 3) = b ! (i * 4 + 3)"
    by (simp add: blur_horizontal_pixel_alpha)
  show "\<And>b. i * 4 + 3 < length b \<Longrightarrow>
          blur_2D_Bspline_horizontal_pixel inb width height 4 mult bt bb (i div width, i mod width) b ! (i * 4 + 3) = 0"
    by (simp add: blur_horizontal_pixel_alpha)
  show "i * 4 + 3 < length out" by (rule l)
  have w: "0 < width" using i by (cases width) simp_all
  have "i div width < height" using i w by (simp add: less_mult_imp_div_less mult.commute)
  then show "out ! (i * 4 + 3) = 0 \<or> (i div width, i mod width) \<in> set (List.product [0..<height] [0..<width])"
    using w by simp
qed

lemma init_reconstruct_alpha:
  assumes i: "i < width * height" and l: "i * 4 + 3 < length out"
  shows "init_reconstruct inb maskbuf out width height 4 ! (i * 4 + 3)
           = inb ! (i * 4 + 3) * (1 - maskbuf ! i)"
proof -
  have "i * 4 + 3 < height * width * 4" using i by (simp add: mult.commute)
  moreover have "(i * 4 + 3) div 4 = i" by simp
  ultimately show ?thesis
    unfolding init_reconstruct_def
    using index_loop_nth [OF l, of "\<lambda>k. inb ! k * (1 - maskbuf ! (k div 4))" "height * width * 4"]
    by simp
qed

lemma init_reconstruct_length:
  "length (init_reconstruct inb maskbuf out width height 4) = length out"
  by (simp add: init_reconstruct_def index_loop_length)

lemma reconstruct_scale_alpha:
  "reconstructed_acc (reconstruct_scale inb maskbuf variant data width height scales s st) ! (i * 4 + 3)
     = reconstructed_acc st ! (i * 4 + 3)"
  by (simp add: reconstruct_scale_def Let_def reconstruct_alpha)

lemma reconstruct_scales_alpha:
  "reconstructed_acc (reconstruct_scales inb maskbuf variant data width height scales st) ! (i * 4 + 3)
     = reconstructed_acc st ! (i * 4 + 3)"
proof -
  have "reconstructed_acc (fold (reconstruct_scale inb maskbuf variant data width height scales) ss st)
          ! (i * 4 + 3) = reconstructed_acc st ! (i * 4 + 3)" for ss
    by (induction ss arbitrary: st) (simp_all add: reconstruct_scale_alpha)
  then show ?thesis by (simp add: reconstruct_scales_def)
qed

lemma reconstruct_highlights_alpha:
  assumes "i < roi_width roi_out * roi_height roi_out" "i * 4 + 3 < length out"
    "\<not> scratch_allocation_failed allocs"
  shows "fst (reconstruct_highlights inb maskbuf out variant data piece roi_in roi_out allocs) ! (i * 4 + 3)
           = inb ! (i * 4 + 3) * (1 - maskbuf ! i)"
  using assms
  by (simp add: reconstruct_highlights_def Let_def reconstruct_scales_alpha init_reconstruct_alpha)

text \<open>The detail levels and the two ratio functions write channels 0 to 2 only.\<close>

lemma fold_fst_nth_frame:
  assumes "\<And>k st. k \<in> set ks \<Longrightarrow> fst (f k st) ! j = fst st ! j"
  shows "fst (fold f ks st) ! j = fst st ! j"
  using assms by (induction ks arbitrary: st) simp_all

lemma detail_level_alpha:
  "fst (wavelets_detail_level_RGB detail LF HF texture width height 4) ! (i * 4 + 3) = HF ! (i * 4 + 3)"
  "fst (wavelets_detail_level_ratios detail LF HF texture width height 4) ! (i * 4 + 3) = HF ! (i * 4 + 3)"
proof -
  have a: "fst (wavelets_detail_level_RGB_pixel detail LF 4 k st) ! (i * 4 + 3) = fst st ! (i * 4 + 3)"
    "fst (wavelets_detail_level_ratios_pixel detail LF 4 k st) ! (i * 4 + 3) = fst st ! (i * 4 + 3)"
    if "k \<in> set (pixel_offsets width height 4)" for k st
    using alpha_not_in_region [OF that, of i]
    by (simp_all add: wavelets_detail_level_RGB_pixel_def wavelets_detail_level_ratios_pixel_def Let_def)
  show "fst (wavelets_detail_level_RGB detail LF HF texture width height 4) ! (i * 4 + 3) = HF ! (i * 4 + 3)"
    unfolding wavelets_detail_level_RGB_def
    using fold_fst_nth_frame [of "pixel_offsets width height 4"
        "wavelets_detail_level_RGB_pixel detail LF 4" "i * 4 + 3" "(HF, texture)"] a(1)
    by simp
  show "fst (wavelets_detail_level_ratios detail LF HF texture width height 4) ! (i * 4 + 3) = HF ! (i * 4 + 3)"
    unfolding wavelets_detail_level_ratios_def
    using fold_fst_nth_frame [of "pixel_offsets width height 4"
        "wavelets_detail_level_ratios_pixel detail LF 4" "i * 4 + 3" "(HF, texture)"] a(2)
    by simp
qed

lemma ratios_alpha:
  "snd (compute_ratios inb norms ratios lum variant width height 4) ! (i * 4 + 3) = ratios ! (i * 4 + 3)"
  "restore_ratios ratios norms width height 4 ! (i * 4 + 3) = ratios ! (i * 4 + 3)"
proof -
  show "snd (compute_ratios inb norms ratios lum variant width height 4) ! (i * 4 + 3) = ratios ! (i * 4 + 3)"
    unfolding compute_ratios_split snd_conv by (rule rgb_loop_alpha)
  have "restore_ratios_pixel norms 4 =
          (\<lambda>k b. b[k := b ! k * norms ! (k div 4), k + 1 := b ! (k + 1) * norms ! (k div 4),
                   k + 2 := b ! (k + 2) * norms ! (k div 4)])"
    by (intro ext) (simp add: restore_ratios_pixel_def)
  then show "restore_ratios ratios norms width height 4 ! (i * 4 + 3) = ratios ! (i * 4 + 3)"
    unfolding restore_ratios_def by (simp only: rgb_loop_alpha)
qed

text \<open>
  C9 (as amended). For every pixel \<open>i\<close> of a region and every destination buffer that
  holds its fourth channel: the four tone mapping kernels, the two wavelet synthesis
  functions, the two detail levels, \<^verbatim>\<open>compute_ratios\<close>, \<^verbatim>\<open>restore_ratios\<close> and
  \<^verbatim>\<open>blur_2D_Bspline_vertical\<close> write only channels 0 to 2, so the fourth channel of their
  destination keeps its value; \<^verbatim>\<open>blur_2D_Bspline_horizontal\<close> stores 0 in the fourth
  channel of its destination; \<^verbatim>\<open>init_reconstruct\<close> stores the input's
  fourth channel times \<open>1 - mask\<close> in the fourth channel of the accumulator, and this is
  the value the accumulator has when \<^verbatim>\<open>reconstruct_highlights\<close> returns TRUE. When
  \<^verbatim>\<open>process\<close> reaches the tone mapping, the fourth channel of the output buffer is the
  one the output buffer had before, whatever the reconstruction did, or, under the mask
  display flag, the one of the input buffer (by \<^verbatim>\<open>dt_iop_alpha_copy\<close>).
\<close>

theorem alpha_channel_by_stage:
  assumes "i < roi_width roi_out * roi_height roi_out" and "i * 4 + 3 < length out"
  shows "filmic_split_v1 inb out lum data spline width height 4 ! (i * 4 + 3) = out ! (i * 4 + 3)
   \<and> filmic_split_v2 inb out lum data spline width height 4 ! (i * 4 + 3) = out ! (i * 4 + 3)
   \<and> filmic_chroma_v1 inb out lum data spline variant width height 4 ! (i * 4 + 3) = out ! (i * 4 + 3)
   \<and> filmic_chroma_v2 inb out lum data spline variant width height 4 ! (i * 4 + 3) = out ! (i * 4 + 3)
   \<and> wavelets_reconstruct_RGB HF LF texture maskbuf out width height 4
        gamma gamma_comp beta beta_comp delta s scales ! (i * 4 + 3) = out ! (i * 4 + 3)
   \<and> wavelets_reconstruct_ratios HF LF texture maskbuf out width height 4
        gamma gamma_comp beta beta_comp delta s scales ! (i * 4 + 3) = out ! (i * 4 + 3)
   \<and> fst (wavelets_detail_level_RGB detail LF out texture width height 4) ! (i * 4 + 3)
        = out ! (i * 4 + 3)
   \<and> fst (wavelets_detail_level_ratios detail LF out texture width height 4) ! (i * 4 + 3)
        = out ! (i * 4 + 3)
   \<and> snd (compute_ratios inb norms out lum variant width height 4) ! (i * 4 + 3)
        = out ! (i * 4 + 3)
   \<and> restore_ratios out norms width height 4 ! (i * 4 + 3) = out ! (i * 4 + 3)
   \<and> blur_2D_Bspline_vertical inb out width height 4 mult bound_left bound_right ! (i * 4 + 3)
        = out ! (i * 4 + 3)
   \<and> blur_2D_Bspline_horizontal inb out (roi_width roi_out) (roi_height roi_out) 4 mult
        bound_top bound_bot ! (i * 4 + 3) = 0
   \<and> init_reconstruct inb maskbuf out (roi_width roi_out) (roi_height roi_out) 4 ! (i * 4 + 3)
        = inb ! (i * 4 + 3) * (1 - maskbuf ! i)
   \<and> (\<not> scratch_allocation_failed scratch \<longrightarrow>
        fst (reconstruct_highlights inb maskbuf out rvariant data piece roi_in roi_out scratch)
          ! (i * 4 + 3) = inb ! (i * 4 + 3) * (1 - maskbuf ! i))
   \<and> (\<forall>r. process self piece data lum inb out roi_in roi_out allocs = Inr r
            \<and> pr_exit r = Tone_mapped \<and> \<not> pipe_mask_display piece
          \<longrightarrow> pr_out r ! (i * 4 + 3) = out ! (i * 4 + 3))
   \<and> (\<forall>r. process self piece data lum inb out roi_in roi_out allocs = Inr r
            \<and> pr_exit r = Tone_mapped \<and> pipe_mask_display piece
          \<longrightarrow> pr_out r ! (i * 4 + 3) = inb ! (i * 4 + 3))"
proof -
  have stages: "blur_2D_Bspline_horizontal inb out (roi_width roi_out) (roi_height roi_out) 4 mult
        bound_top bound_bot ! (i * 4 + 3) = 0"
    "init_reconstruct inb maskbuf out (roi_width roi_out) (roi_height roi_out) 4 ! (i * 4 + 3)
        = inb ! (i * 4 + 3) * (1 - maskbuf ! i)"
    using assms by (simp_all add: blur_horizontal_alpha init_reconstruct_alpha)
  have rec: "\<not> scratch_allocation_failed scratch \<longrightarrow>
        fst (reconstruct_highlights inb maskbuf out rvariant data piece roi_in roi_out scratch)
          ! (i * 4 + 3) = inb ! (i * 4 + 3) * (1 - maskbuf ! i)"
    using assms by (simp add: reconstruct_highlights_alpha)
  have render: "\<forall>r. process self piece data lum inb out roi_in roi_out allocs = Inr r
            \<and> pr_exit r = Tone_mapped \<and> \<not> pipe_mask_display piece
          \<longrightarrow> pr_out r ! (i * 4 + 3) = out ! (i * 4 + 3)"
    "\<forall>r. process self piece data lum inb out roi_in roi_out allocs = Inr r
            \<and> pr_exit r = Tone_mapped \<and> pipe_mask_display piece
          \<longrightarrow> pr_out r ! (i * 4 + 3) = inb ! (i * 4 + 3)"
    using process_tone_mapped [of self piece data lum inb out roi_in roi_out allocs] assms
    by (auto simp: process_render_alpha)
  show ?thesis
    using stages rec render
    by (simp add: kernels_alpha reconstruct_alpha blur_vertical_alpha detail_level_alpha
        ratios_alpha)
qed

subsection \<open>Allocation failures\<close>

text \<open>
  C8 (as amended). Let \<^verbatim>\<open>process\<close> run on RGB input outside the mask preview, with the
  mask and the accumulator allocated and the mask asking for a reconstruction. If a
  scratch allocation of \<^verbatim>\<open>reconstruct_highlights\<close> fails, the function logs the
  diagnostic and returns FALSE with the accumulator untouched. If this happens in the
  first pass, \<^verbatim>\<open>process\<close> tone-maps the original input buffer. If the first pass
  succeeds and it happens in the second pass (high-quality reconstruction, norms and
  ratios allocated), \<^verbatim>\<open>process\<close> tone-maps the buffer reconstructed by the first pass.
  In both cases the tone mapping runs: the render is not aborted.
\<close>

theorem allocation_failure_fallback:
  assumes "colors piece = 4" and "alloc_mask allocs = Some mask0"
    and "\<not> (gui_attached self \<and> pipe_type_full piece \<and> show_mask self)"
    and "alloc_reconstructed allocs = Some reconstructed"
    and "snd (mask_clipped_pixels ivoid mask0
                (d_reconstruct_feather data / d_reconstruct_threshold data)
                (d_reconstruct_feather data) (roi_width roi_out) (roi_height roi_out) 4)"
  shows "(scratch_allocation_failed wa \<longrightarrow>
            reconstruct_highlights inb maskbuf acc variant data piece roi_in roi_out wa
              = (acc, False, [allocation_diagnostic]))
    \<and> (scratch_allocation_failed (alloc_pass1 allocs) \<longrightarrow>
          process self piece data lum ivoid ovoid roi_in roi_out allocs
            = Inr \<lparr> pr_out = process_alpha_copy piece ivoid
                                (process_tonemap ivoid ovoid lum data roi_in roi_out) roi_out,
                     pr_exit = Tone_mapped, pr_in = Ivoid, pr_in_buffer = ivoid,
                     pr_log = [allocation_diagnostic] \<rparr>)
    \<and> (\<not> scratch_allocation_failed (alloc_pass1 allocs)
          \<and> d_high_quality_reconstruction data \<noteq> 0
          \<and> alloc_norms allocs \<noteq> None \<and> alloc_ratios allocs \<noteq> None
          \<and> scratch_allocation_failed (alloc_pass2 allocs) \<longrightarrow>
          process self piece data lum ivoid ovoid roi_in roi_out allocs
            = Inr \<lparr> pr_out = process_alpha_copy piece ivoid
                                (process_tonemap
                                   (fst (reconstruct_highlights ivoid
                                      (fst (mask_clipped_pixels ivoid mask0
                                         (d_reconstruct_feather data / d_reconstruct_threshold data)
                                         (d_reconstruct_feather data) (roi_width roi_out)
                                         (roi_height roi_out) 4))
                                      reconstructed 0 data piece roi_in roi_out (alloc_pass1 allocs)))
                                   ovoid lum data roi_in roi_out) roi_out,
                     pr_exit = Tone_mapped, pr_in = Reconstructed,
                     pr_in_buffer =
                       fst (reconstruct_highlights ivoid
                              (fst (mask_clipped_pixels ivoid mask0
                                 (d_reconstruct_feather data / d_reconstruct_threshold data)
                                 (d_reconstruct_feather data) (roi_width roi_out)
                                 (roi_height roi_out) 4))
                              reconstructed 0 data piece roi_in roi_out (alloc_pass1 allocs)),
                     pr_log = [allocation_diagnostic] \<rparr>)"
  unfolding process_renders [OF assms(1-3)]
  using assms(5)
  by (simp add: process_render_reconstructing [OF assms(4)] reconstruct_highlights_failure
      process_reconstruct_first_pass_failure process_reconstruct_second_pass_failure)

lemma data_high_quality_fields:
  "d_reconstruct_feather data_high_quality = 16"
  "d_reconstruct_threshold data_high_quality = 64 * 0.1845"
  "d_high_quality_reconstruction data_high_quality = 1"
  by (simp_all add: data_high_quality_def commit_params_def Let_def params_centered_def
      exp2f_def powf_def commit_grey_source_def)

lemma row_of_ten_explicit:
  "row_of_ten = [12, 0, 0, 1, 12, 0, 0, 1, 12, 0, 0, 1, 12, 0, 0, 1, 12, 0, 0, 1,
                 12, 0, 0, 1, 12, 0, 0, 1, 12, 0, 0, 1, 12, 0, 0, 1, 12, 0, 0, 1]"
  by (simp add: row_of_ten_def eval_nat_numeral)

lemma row_offsets: "pixel_offsets 10 1 4 = [0, 4, 8, 12, 16, 20, 24, 28, 32, 36]"
  by (simp add: pixel_offsets_def upt_rec)

lemma row_recover:
  "snd (mask_clipped_pixels row_of_ten mask0 (16 / (64 * 0.1845)) 16 10 1 4)"
  unfolding mask_clipped_split row_offsets row_of_ten_explicit
  by (simp add: mask_argument_def sqf_def sqrt_144)

lemma row_facts:
  "colors piece_row = 4"
  "alloc_mask allocations_second_pass_fails = Some (replicate 10 0)"
  "alloc_mask allocations_first_pass_fails = Some (replicate 10 0)"
  "\<not> (gui_attached module_headless \<and> pipe_type_full piece_row \<and> show_mask module_headless)"
  "alloc_reconstructed allocations_second_pass_fails = Some (replicate 40 0)"
  "alloc_reconstructed allocations_first_pass_fails = Some (replicate 40 0)"
  "scratch_allocation_failed (alloc_pass1 allocations_first_pass_fails)"
  "\<not> scratch_allocation_failed (alloc_pass1 allocations_second_pass_fails)"
  "scratch_allocation_failed (alloc_pass2 allocations_second_pass_fails)"
  "alloc_norms allocations_second_pass_fails \<noteq> None"
  "alloc_ratios allocations_second_pass_fails \<noteq> None"
  "roi_width roi_row = 10" "roi_height roi_row = 1"
  "\<not> pipe_mask_display piece_row"
  by (simp_all add: piece_row_def allocations_second_pass_fails_def allocations_first_pass_fails_def
      module_headless_def scratch_ok_def scratch_allocation_failed_def roi_row_def)

lemma row_recover_data:
  "snd (mask_clipped_pixels row_of_ten mask0
          (d_reconstruct_feather data_high_quality / d_reconstruct_threshold data_high_quality)
          (d_reconstruct_feather data_high_quality) (roi_width roi_row) (roi_height roi_row) 4)"
  using row_recover [of mask0] by (simp add: data_high_quality_fields row_facts)

theorem allocation_failure_fallback_witness:
  "colors piece_row = 4
   \<and> alloc_mask allocations_first_pass_fails = Some (replicate 10 0)
   \<and> \<not> (gui_attached module_headless \<and> pipe_type_full piece_row \<and> show_mask module_headless)
   \<and> alloc_reconstructed allocations_first_pass_fails = Some (replicate 40 0)
   \<and> snd (mask_clipped_pixels row_of_ten (replicate 10 0)
            (d_reconstruct_feather data_high_quality / d_reconstruct_threshold data_high_quality)
            (d_reconstruct_feather data_high_quality) (roi_width roi_row) (roi_height roi_row) 4)
   \<and> scratch_allocation_failed (alloc_pass1 allocations_first_pass_fails)
   \<and> reconstruct_highlights row_of_ten (replicate 10 0) (replicate 40 0) 0 data_high_quality
        piece_row roi_row roi_row (alloc_pass1 allocations_first_pass_fails)
       = (replicate 40 0, False, [allocation_diagnostic])
   \<and> pr_in (projr (process module_headless piece_row data_high_quality (\<lambda>r g b. g) row_of_ten
                      (replicate 40 (1 / 2)) roi_row roi_row allocations_first_pass_fails)) = Ivoid
   \<and> pr_in_buffer (projr (process module_headless piece_row data_high_quality (\<lambda>r g b. g)
                      row_of_ten (replicate 40 (1 / 2)) roi_row roi_row
                      allocations_first_pass_fails)) = row_of_ten
   \<and> pr_exit (projr (process module_headless piece_row data_high_quality (\<lambda>r g b. g) row_of_ten
                      (replicate 40 (1 / 2)) roi_row roi_row allocations_first_pass_fails))
       = Tone_mapped
   \<and> \<not> scratch_allocation_failed (alloc_pass1 allocations_second_pass_fails)
   \<and> d_high_quality_reconstruction data_high_quality \<noteq> 0
   \<and> alloc_norms allocations_second_pass_fails \<noteq> None
   \<and> alloc_ratios allocations_second_pass_fails \<noteq> None
   \<and> scratch_allocation_failed (alloc_pass2 allocations_second_pass_fails)
   \<and> pr_in (projr (process module_headless piece_row data_high_quality (\<lambda>r g b. g) row_of_ten
                      (replicate 40 (1 / 2)) roi_row roi_row allocations_second_pass_fails))
       = Reconstructed"
  using allocation_failure_fallback [OF row_facts(1) row_facts(3) row_facts(4) row_facts(6)
      row_recover_data, where wa = "alloc_pass1 allocations_first_pass_fails"
      and inb = row_of_ten and maskbuf = "replicate 10 0" and acc = "replicate 40 0"
      and variant = 0 and roi_in = roi_row and lum = "\<lambda>r g b. g" and ovoid = "replicate 40 (1 / 2)"]
    allocation_failure_fallback [OF row_facts(1) row_facts(2) row_facts(4) row_facts(5)
      row_recover_data, where roi_in = roi_row and lum = "\<lambda>r g b. g"
      and ovoid = "replicate 40 (1 / 2)"]
    row_recover_data [of "replicate 10 0"]
  by (simp add: row_facts data_high_quality_fields)

text \<open>
  C8 as stated fails: when the failing allocation is one of the second pass, the
  diagnostic is logged and yet the pointer \<^verbatim>\<open>in\<close> has been moved to the reconstructed
  buffer; the tone mapping input is not the original buffer.
\<close>

theorem second_pass_failure_counterexample:
  "scratch_allocation_failed (alloc_pass2 allocations_second_pass_fails)
   \<and> \<not> isl (process module_headless piece_row data_high_quality (\<lambda>r g b. g) row_of_ten
               (replicate 40 (1 / 2)) roi_row roi_row allocations_second_pass_fails)
   \<and> pr_log (projr (process module_headless piece_row data_high_quality (\<lambda>r g b. g) row_of_ten
                       (replicate 40 (1 / 2)) roi_row roi_row allocations_second_pass_fails))
       = [allocation_diagnostic]
   \<and> pr_in (projr (process module_headless piece_row data_high_quality (\<lambda>r g b. g) row_of_ten
                      (replicate 40 (1 / 2)) roi_row roi_row allocations_second_pass_fails))
       \<noteq> Ivoid"
  unfolding process_renders [OF row_facts(1) row_facts(2) row_facts(4)]
  using row_recover_data [of "replicate 10 0"]
  by (simp add: process_render_reconstructing [OF row_facts(5)]
      process_reconstruct_second_pass_failure row_facts data_high_quality_fields)

subsection \<open>Runs of the render\<close>

lemma piece_overlay_facts:
  "colors (piece_row\<lparr> pipe_mask_display := True \<rparr>) = 4"
  "\<not> (gui_attached module_headless \<and> pipe_type_full (piece_row\<lparr> pipe_mask_display := True \<rparr>)
       \<and> show_mask module_headless)"
  "pipe_mask_display (piece_row\<lparr> pipe_mask_display := True \<rparr>)"
  by (simp_all add: piece_row_def module_headless_def)

theorem alpha_channel_by_stage_witness:
  "(0::nat) < roi_width roi_row * roi_height roi_row
   \<and> 0 * 4 + 3 < length (replicate 40 (1 / 2 :: real))
   \<and> blur_2D_Bspline_horizontal row_of_ten (replicate 40 (1 / 2)) (roi_width roi_row)
        (roi_height roi_row) 4 1 0 0 ! (0 * 4 + 3) = 0
   \<and> init_reconstruct row_of_ten (replicate 10 (1 / 4)) (replicate 40 (1 / 2)) (roi_width roi_row)
        (roi_height roi_row) 4 ! (0 * 4 + 3) = 3 / 4
   \<and> \<not> scratch_allocation_failed scratch_ok
   \<and> fst (reconstruct_highlights row_of_ten (replicate 10 (1 / 4)) (replicate 40 (1 / 2)) 0
            data_high_quality piece_row roi_row roi_row scratch_ok) ! (0 * 4 + 3) = 3 / 4
   \<and> \<not> isl (process module_headless piece_row data_high_quality (\<lambda>r g b. g) row_of_ten
             (replicate 40 (1 / 2)) roi_row roi_row allocations_first_pass_fails)
   \<and> pr_exit (projr (process module_headless piece_row data_high_quality (\<lambda>r g b. g) row_of_ten
                        (replicate 40 (1 / 2)) roi_row roi_row allocations_first_pass_fails))
       = Tone_mapped
   \<and> \<not> pipe_mask_display piece_row
   \<and> pr_out (projr (process module_headless piece_row data_high_quality (\<lambda>r g b. g) row_of_ten
                       (replicate 40 (1 / 2)) roi_row roi_row allocations_first_pass_fails))
       ! (0 * 4 + 3) = 1 / 2
   \<and> pipe_mask_display (piece_row\<lparr> pipe_mask_display := True \<rparr>)
   \<and> pr_out (projr (process module_headless (piece_row\<lparr> pipe_mask_display := True \<rparr>)
                       data_high_quality (\<lambda>r g b. g) row_of_ten
                       (replicate 40 (1 / 2)) roi_row roi_row allocations_first_pass_fails))
       ! (0 * 4 + 3) = 1"
proof -
  have h1: "(0::nat) < roi_width roi_row * roi_height roi_row" by (simp add: row_facts)
  have h2: "0 * 4 + 3 < length (replicate 40 (1 / 2 :: real))" by simp
  note t = alpha_channel_by_stage [OF h1 h2, where self = module_headless and piece = piece_row
      and data = data_high_quality and lum = "\<lambda>r g b. g" and inb = row_of_ten
      and roi_in = roi_row and allocs = allocations_first_pass_fails
      and maskbuf = "replicate 10 (1 / 4)" and scratch = scratch_ok and rvariant = 0
      and mult = 1 and bound_top = 0 and bound_bot = 0]
  note t' = alpha_channel_by_stage [OF h1 h2, where self = module_headless
      and piece = "piece_row\<lparr> pipe_mask_display := True \<rparr>"
      and data = data_high_quality and lum = "\<lambda>r g b. g" and inb = row_of_ten
      and roi_in = roi_row and allocs = allocations_first_pass_fails]
  have s: "\<not> scratch_allocation_failed scratch_ok"
    by (simp add: scratch_ok_def scratch_allocation_failed_def)
  show ?thesis
    using t t' s h1
    unfolding process_renders [OF row_facts(1) row_facts(3) row_facts(4)]
      process_renders [OF piece_overlay_facts(1) row_facts(3) piece_overlay_facts(2)]
    by (simp add: row_facts piece_overlay_facts process_render_def Let_def row_of_ten_explicit)
qed

text \<open>
  C9 as stated fails: on a single pixel whose fourth channel is 1, with a destination
  whose fourth channel is 5, \<^verbatim>\<open>blur_2D_Bspline_horizontal\<close> leaves 0 in the fourth channel
  of the destination, and with a mask value of 1/2 \<^verbatim>\<open>init_reconstruct\<close> and the whole of
  \<^verbatim>\<open>reconstruct_highlights\<close> leave 1/2 in the fourth channel of the accumulator.
\<close>

theorem alpha_channel_counterexample:
  "blur_2D_Bspline_horizontal [1, 1, 1, 1] [5, 5, 5, 5] 1 1 4 1 0 0 ! 3 = 0
   \<and> [5, 5, 5, 5 :: real] ! 3 = 5
   \<and> [1, 1, 1, 1 :: real] ! 3 = 1
   \<and> init_reconstruct [1, 1, 1, 1] [1 / 2] [5, 5, 5, 5] 1 1 4 ! 3 = 1 / 2
   \<and> fst (reconstruct_highlights [1, 1, 1, 1] [1 / 2] [5, 5, 5, 5] 0 data_centered piece_row
            roi_row roi_single scratch_ok) ! 3 = 1 / 2"
  using blur_horizontal_alpha [of 0 1 1 "[5, 5, 5, 5]" "[1, 1, 1, 1]" 1 0 0]
    init_reconstruct_alpha [of 0 1 1 "[5, 5, 5, 5]" "[1, 1, 1, 1]" "[1 / 2]"]
    reconstruct_highlights_alpha [of 0 roi_single "[5, 5, 5, 5]" scratch_ok "[1, 1, 1, 1]" "[1 / 2]"
      0 data_centered piece_row roi_row]
  by (simp add: roi_single_def scratch_ok_def scratch_allocation_failed_def)

theorem reconstruction_noop_on_zero_mask_witness:
  "roi_width roi_single * roi_height roi_single = 1
   \<and> [0::real] ! 0 = 0
   \<and> length [1 / 2, 1 / 4, 1 / 8, 1 :: real] = roi_width roi_single * roi_height roi_single * 4
   \<and> length [9, 9, 9, 9 :: real] = length [1 / 2, 1 / 4, 1 / 8, 1 :: real]
   \<and> \<not> scratch_allocation_failed scratch_ok
   \<and> reconstruct_highlights [1 / 2, 1 / 4, 1 / 8, 1] [0] [9, 9, 9, 9] 0 data_centered piece_row
        roi_row roi_single scratch_ok
       = ([1 / 2, 1 / 4, 1 / 8, 1], True, [])"
  using reconstruction_noop_on_zero_mask [where roi_out = roi_single and maskbuf = "[0]"
      and inb = "[1 / 2, 1 / 4, 1 / 8, 1]" and reconstructed = "[9, 9, 9, 9]"
      and allocs = scratch_ok and variant = 0 and data = data_centered and piece = piece_row
      and roi_in = roi_row]
  by (simp add: roi_single_def scratch_ok_def scratch_allocation_failed_def)

end
